theory Spec2Isabelle
  imports Complex_Main "HOL-Library.AList" "HOL-Library.Multiset"
begin

section \<open>Errors and data frames\<close>

text \<open>
  The notebooks are Python over pandas and numpy. An exception that a function lets
  escape is a value of \<open>error\<close>; a function that can raise returns \<open>error + 'a\<close>.
\<close>

datatype error =
  KeyError string | AttributeError string | IndexError | ValueError | UnboundLocalError

text \<open>
  A DataFrame is its columns in order, each under its name; \<open>df[name]\<close> raises
  KeyError when there is no such column.
\<close>

type_synonym 'c frame = "(string \<times> 'c) list"

definition getitem :: "'c frame \<Rightarrow> string \<Rightarrow> error + 'c" where
  "getitem df name = (case map_of df name of None \<Rightarrow> Inl (KeyError name) | Some c \<Rightarrow> Inr c)"

definition columns :: "'c frame \<Rightarrow> string list" where
  "columns df = map fst df"

definition col_of :: "'c frame \<Rightarrow> string \<Rightarrow> 'c" where
  "col_of df name = the (map_of df name)"

section \<open>Notebook 8: the row-wise greatest common divisor\<close>

text \<open>
  \<^verbatim>\<open>
  def gcd_of_all(df_i):
      gcd = df_i[features[0]]
      for col in features[1:]:
          gcd = np.gcd(gcd, df_i[col])
      return gcd
  \<close>
  \<open>features\<close> is a global of the notebook, here the first argument. The frame holds
  integer columns (\<open>get_histograms\<close> casts each one with \<open>astype(int)\<close>); \<open>np.gcd\<close>
  works element by element on two columns of the same frame.
\<close>

definition np_gcd :: "int list \<Rightarrow> int list \<Rightarrow> int list" where
  "np_gcd a b = map2 gcd a b"

fun gcd_loop :: "int list frame \<Rightarrow> string list \<Rightarrow> int list \<Rightarrow> error + int list" where
  "gcd_loop df_i [] g = Inr g"
| "gcd_loop df_i (col # cols) g =
     (case getitem df_i col of
        Inl e \<Rightarrow> Inl e
      | Inr c \<Rightarrow> gcd_loop df_i cols (np_gcd g c))"

definition gcd_of_all :: "string list \<Rightarrow> int list frame \<Rightarrow> error + int list" where
  "gcd_of_all features df_i =
     (case features of
        [] \<Rightarrow> Inl IndexError
      | f0 # rest \<Rightarrow>
          (case getitem df_i f0 of
             Inl e \<Rightarrow> Inl e
           | Inr g \<Rightarrow> gcd_loop df_i rest g))"

lemma getitem_Inr: "name \<in> set (columns df) \<Longrightarrow> getitem df name = Inr (the (map_of df name))"
  by (auto simp: getitem_def columns_def map_of_eq_None_iff split: option.splits)

lemma gcd_loop_fold:
  assumes "set cols \<subseteq> set (columns df)"
    and "\<forall>c \<in> set cols. length (the (map_of df c)) = n"
    and "length g = n"
  shows "\<exists>r. gcd_loop df cols g = Inr r \<and> length r = n \<and>
           (\<forall>i<n. r ! i = foldl gcd (g ! i) (map (\<lambda>c. the (map_of df c) ! i) cols))"
  using assms
proof (induction cols arbitrary: g)
  case Nil
  then show ?case by simp
next
  case (Cons c cols)
  have gi: "getitem df c = Inr (the (map_of df c))"
    using Cons.prems(1) by (simp add: getitem_Inr)
  let ?g = "np_gcd g (the (map_of df c))"
  have len: "length ?g = n" using Cons.prems by (simp add: np_gcd_def)
  from Cons.IH[OF _ _ len] Cons.prems obtain r where
    r: "gcd_loop df cols ?g = Inr r" "length r = n"
       "\<forall>i<n. r ! i = foldl gcd (?g ! i) (map (\<lambda>c. the (map_of df c) ! i) cols)"
    by auto
  have "\<forall>i<n. ?g ! i = gcd (g ! i) (the (map_of df c) ! i)"
    using Cons.prems by (simp add: np_gcd_def)
  with r gi show ?case by simp
qed

lemma foldl_gcd_Gcd: "0 \<le> a \<Longrightarrow> foldl gcd (a::int) xs = Gcd (set (a # xs))"
proof (induction xs arbitrary: a)
  case Nil
  then show ?case by simp
next
  case (Cons x xs)
  have "foldl gcd (gcd a x) xs = Gcd (set (gcd a x # xs))"
    by (rule Cons.IH) simp
  then show ?case by (simp add: gcd.assoc)
qed


text \<open>
  C10. On a frame whose feature columns all have \<open>n\<close> rows of non-negative integers,
  with at least one feature, \<open>gcd_of_all\<close> returns a column of \<open>n\<close> values; the
  value of row \<open>i\<close> is the left fold of the binary gcd over the row, started at the
  first feature column, it is the greatest common divisor of the row's entries, and it
  divides each of them.
\<close>

theorem gcd_of_all_row_gcd:
  assumes "features \<noteq> []"
    and "set features \<subseteq> set (columns df_i)"
    and "\<forall>c \<in> set features. length (col_of df_i c) = n"
    and "\<forall>c \<in> set features. \<forall>v \<in> set (col_of df_i c). 0 \<le> v"
  shows "\<exists>g. gcd_of_all features df_i = Inr g \<and> length g = n \<and>
     (\<forall>i<n. g ! i = foldl gcd (col_of df_i (hd features) ! i)
                        (map (\<lambda>c. col_of df_i c ! i) (tl features))
          \<and> g ! i = Gcd ((\<lambda>c. col_of df_i c ! i) ` set features)
          \<and> (\<forall>c \<in> set features. g ! i dvd col_of df_i c ! i))"
proof -
  from assms(1) obtain f0 rest where fs: "features = f0 # rest"
    by (cases features) auto
  have g0: "getitem df_i f0 = Inr (col_of df_i f0)"
    using assms(2) fs by (simp add: getitem_Inr col_of_def)
  have "\<exists>r. gcd_loop df_i rest (col_of df_i f0) = Inr r \<and> length r = n \<and>
           (\<forall>i<n. r ! i = foldl gcd (col_of df_i f0 ! i) (map (\<lambda>c. the (map_of df_i c) ! i) rest))"
    using assms(2,3) fs by (intro gcd_loop_fold) (auto simp: col_of_def)
  then obtain r where r: "gcd_loop df_i rest (col_of df_i f0) = Inr r" "length r = n"
    "\<forall>i<n. r ! i = foldl gcd (col_of df_i f0 ! i) (map (\<lambda>c. col_of df_i c ! i) rest)"
    unfolding col_of_def by blast
  have res: "gcd_of_all features df_i = Inr r"
    by (simp add: gcd_of_all_def fs g0 r(1))
  have row: "r ! i = Gcd ((\<lambda>c. col_of df_i c ! i) ` set features)" if "i < n" for i
  proof -
    have "0 \<le> col_of df_i f0 ! i"
      using assms(3,4) fs that by simp
    then have "foldl gcd (col_of df_i f0 ! i) (map (\<lambda>c. col_of df_i c ! i) rest)
          = Gcd (set (col_of df_i f0 ! i # map (\<lambda>c. col_of df_i c ! i) rest))"
      by (rule foldl_gcd_Gcd)
    with r(3) that show ?thesis by (simp add: fs)
  qed
  have dv: "r ! i dvd col_of df_i c ! i" if "i < n" "c \<in> set features" for i c
    using row[OF that(1)] that(2) by (simp add: Gcd_dvd)
  show ?thesis
    using res r(2,3) row dv by (auto simp: fs)
qed

theorem gcd_of_all_row_gcd_witness:
  "gcd_of_all [''a'', ''b''] [(''a'', [4, 6]), (''b'', [6, 9])] = Inr [2, 3]"
proof -
  let ?fs = "[''a'', ''b'']"
  let ?df = "[(''a'', [4, 6 :: int]), (''b'', [6, 9])]"
  have h1: "?fs \<noteq> []" by simp
  have h2: "set ?fs \<subseteq> set (columns ?df)" by (simp add: columns_def)
  have h3: "\<forall>c \<in> set ?fs. length (col_of ?df c) = 2" by (simp add: col_of_def)
  have h4: "\<forall>c \<in> set ?fs. \<forall>v \<in> set (col_of ?df c). 0 \<le> v" by (simp add: col_of_def)
  from gcd_of_all_row_gcd[OF h1 h2 h3 h4] obtain g where
    g: "gcd_of_all ?fs ?df = Inr g" "length g = 2"
       "\<forall>i<2. g ! i = Gcd ((\<lambda>c. col_of ?df c ! i) ` set ?fs)"
    by blast
  have e: "gcd (4::int) 6 = 2" "gcd (6::int) 9 = 3" by code_simp+
  have "g ! 0 = 2" using g(3) e by (simp add: col_of_def)
  moreover have "g ! 1 = 3" using g(3) e by (simp add: col_of_def)
  ultimately have "g = [2, 3]" using g(2)
    by (auto simp: list_eq_iff_nth_eq less_Suc_eq numeral_2_eq_2)
  with g(1) show ?thesis by simp
qed

section \<open>Cross-validation harnesses\<close>

text \<open>
  The scoring functions of the notebooks share one loop: for each fold of a stratified
  k-fold split, select the training and validation rows, fit a fresh estimator, predict,
  store the validation predictions in \<open>oof_preds\<close> and accumulate the test predictions.
  The estimators, the metrics and the split belong to scikit-learn, LightGBM and cleanlab:
  they enter as parameters. numpy's float64 arithmetic is idealised to the reals. Timing
  and printing are left out, and so is the permutation-importance accumulator of
  \<open>score_features\<close>.
\<close>

text \<open>
  Sequencing of steps that may raise: the first exception ends the computation.
\<close>

definition bindE :: "error + 'a \<Rightarrow> ('a \<Rightarrow> error + 'b) \<Rightarrow> error + 'b" where
  "bindE m f = (case m of Inl e \<Rightarrow> Inl e | Inr x \<Rightarrow> f x)"

text \<open>
  A \<open>for\<close> loop over a list, threading the loop's variables as a state.
\<close>

fun for_each :: "('s \<Rightarrow> 'a \<Rightarrow> error + 's) \<Rightarrow> 'a list \<Rightarrow> 's \<Rightarrow> error + 's" where
  "for_each body [] s = Inr s"
| "for_each body (x # xs) s = bindE (body s x) (for_each body xs)"

text \<open>
  \<open>xs.iloc[idx]\<close>: the rows at the given positions, IndexError when one is out of bounds.
\<close>

definition iloc :: "'a list \<Rightarrow> nat list \<Rightarrow> error + 'a list" where
  "iloc xs idx = (if \<forall>i \<in> set idx. i < length xs then Inr (map (\<lambda>i. xs ! i) idx) else Inl IndexError)"

text \<open>
  numpy broadcasting of a one-dimensional value to length \<open>n\<close>: a value of that length
  is taken as it is, a value of length one is repeated, any other shape is a ValueError.
\<close>

definition broadcast :: "'a list \<Rightarrow> nat \<Rightarrow> error + 'a list" where
  "broadcast v n =
     (if length v = n then Inr v
      else if length v = 1 then Inr (replicate n (hd v))
      else Inl ValueError)"

text \<open>
  \<open>a[idx] = v\<close> with an index array: the positions are assigned in order.
\<close>

definition put :: "'a list \<Rightarrow> nat list \<Rightarrow> 'a list \<Rightarrow> error + 'a list" where
  "put a idx v =
     (if \<exists>i \<in> set idx. length a \<le> i then Inl IndexError
      else bindE (broadcast v (length idx))
             (\<lambda>v'. Inr (fold (\<lambda>(i, x) b. b[i := x]) (zip idx v') a)))"

text \<open>
  \<open>a[i] = x\<close> and the in-place additions \<open>a += b\<close> on one- and two-dimensional arrays.
\<close>

definition store :: "'a list \<Rightarrow> nat \<Rightarrow> 'a \<Rightarrow> error + 'a list" where
  "store a i x = (if i < length a then Inr (a[i := x]) else Inl IndexError)"

definition iadd :: "real list \<Rightarrow> real list \<Rightarrow> error + real list" where
  "iadd a b = bindE (broadcast b (length a)) (\<lambda>b'. Inr (map2 (+) a b'))"

text \<open>
  \<open>m[:, 1]\<close>, the column of class-1 probabilities.
\<close>

definition column1 :: "real list list \<Rightarrow> error + real list" where
  "column1 m = (if \<forall>r \<in> set m. 1 < length r then Inr (map (\<lambda>r. r ! 1) m) else Inl IndexError)"

fun sequenceE :: "(error + 'a) list \<Rightarrow> error + 'a list" where
  "sequenceE [] = Inr []"
| "sequenceE (m # ms) = bindE m (\<lambda>x. bindE (sequenceE ms) (\<lambda>xs. Inr (x # xs)))"

definition iadd2 :: "real list list \<Rightarrow> real list list \<Rightarrow> error + real list list" where
  "iadd2 A B = bindE (broadcast B (length A)) (\<lambda>B'. sequenceE (map2 iadd A B'))"

text \<open>
  \<open>np.argmax(M, axis = 1)\<close>: for each row the first position of its maximum; an empty
  row is a ValueError. The labels are stored in float arrays.
\<close>

definition argmax_index :: "real list \<Rightarrow> nat" where
  "argmax_index r = length (takeWhile (\<lambda>x. x \<noteq> Max (set r)) r)"

definition argmax :: "real list \<Rightarrow> error + nat" where
  "argmax r = (if r = [] then Inl ValueError else Inr (argmax_index r))"

definition argmax_rows :: "real list list \<Rightarrow> error + real list" where
  "argmax_rows M = bindE (sequenceE (map argmax M)) (\<lambda>js. Inr (map real js))"

text \<open>
  The estimator interface: \<open>'e\<close> is an unfitted estimator, \<open>'m\<close> a fitted model,
  \<open>'x\<close> a feature row and \<open>'y\<close> a label. \<open>fit\<close> stands for \<open>model.fit(X, y)\<close> on the
  estimator it is given, \<open>fit_weighted\<close> for the same call with \<open>sample_weight\<close>.
\<close>

record ('e, 'm, 'x, 'y) sklearn =
  clone :: "'e \<Rightarrow> 'e"
  fit :: "'e \<Rightarrow> 'x list \<Rightarrow> 'y list \<Rightarrow> 'm"
  fit_weighted :: "'e \<Rightarrow> 'x list \<Rightarrow> 'y list \<Rightarrow> real list \<Rightarrow> 'm"
  predict :: "'m \<Rightarrow> 'x list \<Rightarrow> real list"
  predict_proba :: "'m \<Rightarrow> 'x list \<Rightarrow> real list list"
  roc_auc_score :: "'y list \<Rightarrow> real list \<Rightarrow> real"
  accuracy_score :: "'y list \<Rightarrow> real list \<Rightarrow> real"

text \<open>
  The arrays a harness updates in its loop. A fold is its number with the training and
  the validation positions, as \<open>enumerate(skf.split(...))\<close> yields them.
\<close>

record 't cv_state =
  scores :: "real list"
  test_preds :: "'t"
  oof_preds :: "real list"

type_synonym fold = "nat \<times> nat list \<times> nat list"

text \<open>
  Notebook 2 (Handling Noisy Labels), \<open>train_model(sklearn_model)\<close>; \<open>train_X\<close> is
  \<open>train[features]\<close>, \<open>train_y\<close> is \<open>train['target']\<close>, \<open>test_X\<close> is \<open>test[features]\<close>.
  \<^verbatim>\<open>
  for fold, (train_idx, valid_idx) in enumerate(skf.split(train, train['target'])):
      X_train, y_train = train[features].iloc[train_idx].to_numpy(), train['target'].iloc[train_idx].to_numpy()
      X_valid, y_valid = train[features].iloc[valid_idx].to_numpy(), train['target'].iloc[valid_idx].to_numpy()
      X_test = test[features]
      model = clone(sklearn_model)
      model.fit(X_train, y_train)
      valid_preds = model.predict_proba(X_valid)[:, 1]
      test_preds += model.predict_proba(X_test)[:, 1] / NUM_FOLDS
      oof_preds[valid_idx] = valid_preds
      fold_auc = roc_auc_score(y_valid, valid_preds)
      scores[fold] = fold_auc
  return scores, test_preds, oof_preds
  \<close>
\<close>

definition train_model_fold ::
  "('e, 'm, 'x, 'y) sklearn \<Rightarrow> nat \<Rightarrow> 'x list \<Rightarrow> 'y list \<Rightarrow> 'x list \<Rightarrow> 'e \<Rightarrow>
     real list cv_state \<Rightarrow> fold \<Rightarrow> error + real list cv_state" where
  "train_model_fold sk NUM_FOLDS train_X train_y test_X sklearn_model s =
     (\<lambda>(fold, train_idx, valid_idx).
        bindE (iloc train_X train_idx) (\<lambda>X_train.
        bindE (iloc train_y train_idx) (\<lambda>y_train.
        bindE (iloc train_X valid_idx) (\<lambda>X_valid.
        bindE (iloc train_y valid_idx) (\<lambda>y_valid.
          let X_test = test_X;
              model = fit sk (clone sk sklearn_model) X_train y_train
          in
        bindE (column1 (predict_proba sk model X_valid)) (\<lambda>valid_preds.
        bindE (column1 (predict_proba sk model X_test)) (\<lambda>test_col.
        bindE (iadd (test_preds s) (map (\<lambda>p. p / real NUM_FOLDS) test_col)) (\<lambda>test_preds'.
        bindE (put (oof_preds s) valid_idx valid_preds) (\<lambda>oof_preds'.
          let fold_auc = roc_auc_score sk y_valid valid_preds
          in
        bindE (store (scores s) fold fold_auc) (\<lambda>scores'.
          Inr \<lparr>scores = scores', test_preds = test_preds', oof_preds = oof_preds'\<rparr>))))))))))"

definition train_model ::
  "('e, 'm, 'x, 'y) sklearn \<Rightarrow> nat \<Rightarrow> (nat list \<times> nat list) list \<Rightarrow>
     'x list \<Rightarrow> 'y list \<Rightarrow> 'x list \<Rightarrow> 'e \<Rightarrow> error + real list cv_state" where
  "train_model sk NUM_FOLDS folds train_X train_y test_X sklearn_model =
     for_each (train_model_fold sk NUM_FOLDS train_X train_y test_X sklearn_model)
       (enumerate 0 folds)
       \<lparr>scores = replicate NUM_FOLDS 0,
        test_preds = replicate (length test_X) 0,
        oof_preds = replicate (length train_X) 0\<rparr>"

text \<open>
  \<open>train_noisy_model\<close> of the same notebook differs in one line:
  \<^verbatim>\<open>model = LearningWithNoisyLabels(clf = clone(sklearn_model))\<close>.
\<close>

definition train_noisy_model_fold ::
  "('e, 'm, 'x, 'y) sklearn \<Rightarrow> ('e \<Rightarrow> 'e) \<Rightarrow> nat \<Rightarrow> 'x list \<Rightarrow> 'y list \<Rightarrow> 'x list \<Rightarrow> 'e \<Rightarrow>
     real list cv_state \<Rightarrow> fold \<Rightarrow> error + real list cv_state" where
  "train_noisy_model_fold sk LearningWithNoisyLabels NUM_FOLDS train_X train_y test_X
       sklearn_model s =
     (\<lambda>(fold, train_idx, valid_idx).
        bindE (iloc train_X train_idx) (\<lambda>X_train.
        bindE (iloc train_y train_idx) (\<lambda>y_train.
        bindE (iloc train_X valid_idx) (\<lambda>X_valid.
        bindE (iloc train_y valid_idx) (\<lambda>y_valid.
          let X_test = test_X;
              model = fit sk (LearningWithNoisyLabels (clone sk sklearn_model)) X_train y_train
          in
        bindE (column1 (predict_proba sk model X_valid)) (\<lambda>valid_preds.
        bindE (column1 (predict_proba sk model X_test)) (\<lambda>test_col.
        bindE (iadd (test_preds s) (map (\<lambda>p. p / real NUM_FOLDS) test_col)) (\<lambda>test_preds'.
        bindE (put (oof_preds s) valid_idx valid_preds) (\<lambda>oof_preds'.
          let fold_auc = roc_auc_score sk y_valid valid_preds
          in
        bindE (store (scores s) fold fold_auc) (\<lambda>scores'.
          Inr \<lparr>scores = scores', test_preds = test_preds', oof_preds = oof_preds'\<rparr>))))))))))"

definition train_noisy_model ::
  "('e, 'm, 'x, 'y) sklearn \<Rightarrow> ('e \<Rightarrow> 'e) \<Rightarrow> nat \<Rightarrow> (nat list \<times> nat list) list \<Rightarrow>
     'x list \<Rightarrow> 'y list \<Rightarrow> 'x list \<Rightarrow> 'e \<Rightarrow> error + real list cv_state" where
  "train_noisy_model sk LearningWithNoisyLabels NUM_FOLDS folds train_X train_y test_X
       sklearn_model =
     for_each (train_noisy_model_fold sk LearningWithNoisyLabels NUM_FOLDS train_X train_y
                 test_X sklearn_model)
       (enumerate 0 folds)
       \<lparr>scores = replicate NUM_FOLDS 0,
        test_preds = replicate (length test_X) 0,
        oof_preds = replicate (length train_X) 0\<rparr>"

text \<open>
  The feature-engineering notebooks of December 2021, \<open>score_features(sklearn_model, processing)\<close>.
  \<^verbatim>\<open>
  if processing:
      X_temp = processing(X_temp)
      X_test = processing(X_test)
  test_preds = np.zeros((X_test.shape[0],6))
  oof_preds = np.zeros((X_temp.shape[0],))
  for fold, (train_idx, valid_idx) in enumerate(skf.split(train[features],train['Cover_Type'])):
      X_train, X_valid = X_temp.iloc[train_idx], X_temp.iloc[valid_idx]
      y_train, y_valid = y_temp.iloc[train_idx], y_temp.iloc[valid_idx]
      model = clone(sklearn_model)
      model.fit(X_train, y_train)
      valid_preds = np.ravel(model.predict(X_valid))
      oof_preds[valid_idx] = valid_preds
      test_preds += model.predict_proba(X_test)
      scores[fold] = accuracy_score(y_valid, valid_preds)
  test_preds = np.argmax(test_preds, axis = 1)
  test_score = accuracy_score(y_test, test_preds)
  return scores.mean(), oof_preds, test_score, fi_scores
  \<close>
  \<open>score_features_loop\<close> is the function up to the end of its loop.
\<close>

definition score_features_fold ::
  "('e, 'm, 'x, 'y) sklearn \<Rightarrow> 'x list \<Rightarrow> 'y list \<Rightarrow> 'x list \<Rightarrow> 'e \<Rightarrow>
     real list list cv_state \<Rightarrow> fold \<Rightarrow> error + real list list cv_state" where
  "score_features_fold sk X_temp y_temp X_test sklearn_model s =
     (\<lambda>(fold, train_idx, valid_idx).
        bindE (iloc X_temp train_idx) (\<lambda>X_train.
        bindE (iloc X_temp valid_idx) (\<lambda>X_valid.
        bindE (iloc y_temp train_idx) (\<lambda>y_train.
        bindE (iloc y_temp valid_idx) (\<lambda>y_valid.
          let model = fit sk (clone sk sklearn_model) X_train y_train;
              valid_preds = predict sk model X_valid
          in
        bindE (put (oof_preds s) valid_idx valid_preds) (\<lambda>oof_preds'.
        bindE (iadd2 (test_preds s) (predict_proba sk model X_test)) (\<lambda>test_preds'.
        bindE (store (scores s) fold (accuracy_score sk y_valid valid_preds)) (\<lambda>scores'.
          Inr \<lparr>scores = scores', test_preds = test_preds', oof_preds = oof_preds'\<rparr>))))))))"

definition apply_processing :: "('x list \<Rightarrow> error + 'x list) option \<Rightarrow> 'x list \<Rightarrow> error + 'x list" where
  "apply_processing processing X = (case processing of None \<Rightarrow> Inr X | Some f \<Rightarrow> f X)"

definition score_features_loop ::
  "('e, 'm, 'x, 'y) sklearn \<Rightarrow> nat \<Rightarrow> (nat list \<times> nat list) list \<Rightarrow>
     ('x list \<Rightarrow> error + 'x list) option \<Rightarrow> 'x list \<Rightarrow> 'y list \<Rightarrow> 'x list \<Rightarrow>
     'e \<Rightarrow> error + real list list cv_state" where
  "score_features_loop sk NUM_FOLDS folds processing train_X train_y test_X sklearn_model =
     bindE (apply_processing processing train_X) (\<lambda>X_temp.
     bindE (apply_processing processing test_X) (\<lambda>X_test.
       for_each (score_features_fold sk X_temp train_y X_test sklearn_model)
         (enumerate 0 folds)
         \<lparr>scores = replicate NUM_FOLDS 0,
          test_preds = replicate (length X_test) (replicate 6 0),
          oof_preds = replicate (length X_temp) 0\<rparr>))"

definition score_features ::
  "('e, 'm, 'x, 'y) sklearn \<Rightarrow> nat \<Rightarrow> (nat list \<times> nat list) list \<Rightarrow>
     ('x list \<Rightarrow> error + 'x list) option \<Rightarrow> 'x list \<Rightarrow> 'y list \<Rightarrow> 'x list \<Rightarrow> 'y list \<Rightarrow>
     'e \<Rightarrow> error + real \<times> real list \<times> real" where
  "score_features sk NUM_FOLDS folds processing train_X train_y test_X test_y sklearn_model =
     bindE (score_features_loop sk NUM_FOLDS folds processing train_X train_y test_X
              sklearn_model) (\<lambda>s.
     bindE (argmax_rows (test_preds s)) (\<lambda>test_labels.
       let test_score = accuracy_score sk test_y test_labels
       in Inr (sum_list (scores s) / real NUM_FOLDS, oof_preds s, test_score)))"

text \<open>
  Notebook 8 (Class Probabilities), \<open>score_model(sklearn_model)\<close>.
  \<^verbatim>\<open>
  oof_preds = np.zeros((len(train),))
  test_proba = np.zeros((len(test),len(train['target'].unique())))
  test_preds = list()
  for fold, (train_idx, valid_idx) in enumerate(SKF.split(train, target_bins)):
      X_train, y_train = train[features + ['gcd']].iloc[train_idx], train['target'].iloc[train_idx]
      X_valid, y_valid = train[features + ['gcd']].iloc[valid_idx], train['target'].iloc[valid_idx]
      train_weights, valid_weights = train['sample_weight'].iloc[train_idx], train['sample_weight'].iloc[valid_idx]
      X_test = test[features + ['gcd']]
      model = clone(sklearn_model)
      model.fit(X_train, y_train, sample_weight = train_weights)
      valid_preds = np.argmax(model.predict_proba(X_valid), axis = 1)
      test_prob = model.predict_proba(X_test)
      test_proba += test_prob / NUM_FOLDS
      test_preds.append(np.argmax(test_prob, axis = 1))
      oof_preds[valid_idx] = valid_preds
  return oof_preds, test_proba
  \<close>
\<close>

record sm_state = "real list list cv_state" +
  test_proba :: "real list list"

definition score_model_fold ::
  "('e, 'm, 'x, 'y) sklearn \<Rightarrow> nat \<Rightarrow> 'x list \<Rightarrow> 'y list \<Rightarrow> real list \<Rightarrow> 'x list \<Rightarrow> 'e \<Rightarrow>
     sm_state \<Rightarrow> fold \<Rightarrow> error + sm_state" where
  "score_model_fold sk NUM_FOLDS train_X train_y sample_weight test_X sklearn_model s =
     (\<lambda>(fold, train_idx, valid_idx).
        bindE (iloc train_X train_idx) (\<lambda>X_train.
        bindE (iloc train_y train_idx) (\<lambda>y_train.
        bindE (iloc train_X valid_idx) (\<lambda>X_valid.
        bindE (iloc train_y valid_idx) (\<lambda>y_valid.
        bindE (iloc sample_weight train_idx) (\<lambda>train_weights.
        bindE (iloc sample_weight valid_idx) (\<lambda>valid_weights.
          let X_test = test_X;
              model = fit_weighted sk (clone sk sklearn_model) X_train y_train train_weights
          in
        bindE (argmax_rows (predict_proba sk model X_valid)) (\<lambda>valid_preds.
          let test_prob = predict_proba sk model X_test
          in
        bindE (iadd2 (test_proba s) (map (map (\<lambda>p. p / real NUM_FOLDS)) test_prob))
          (\<lambda>test_proba'.
        bindE (argmax_rows test_prob) (\<lambda>test_labels.
        bindE (put (oof_preds s) valid_idx valid_preds) (\<lambda>oof_preds'.
          Inr \<lparr>scores = scores s, test_preds = test_preds s @ [test_labels],
                oof_preds = oof_preds', test_proba = test_proba'\<rparr>)))))))))))"

definition score_model ::
  "('e, 'm, 'x, 'y) sklearn \<Rightarrow> nat \<Rightarrow> (nat list \<times> nat list) list \<Rightarrow>
     'x list \<Rightarrow> 'y list \<Rightarrow> real list \<Rightarrow> 'x list \<Rightarrow> 'e \<Rightarrow> error + real list \<times> real list list" where
  "score_model sk NUM_FOLDS folds train_X train_y sample_weight test_X sklearn_model =
     bindE (for_each (score_model_fold sk NUM_FOLDS train_X train_y sample_weight test_X
                        sklearn_model)
              (enumerate 0 folds)
              \<lparr>scores = replicate NUM_FOLDS 0, test_preds = [],
               oof_preds = replicate (length train_X) 0,
               test_proba = replicate (length test_X)
                              (replicate (length (remdups train_y)) 0)\<rparr>)
       (\<lambda>s. Inr (oof_preds s, test_proba s))"

text \<open>
  The feature-engineering notebook of October 2021, \<open>score_lightgbm(preprocessing)\<close>.
  The classifier is built anew in every fold and fitted with the validation rows as its
  evaluation set; \<open>lgbm_fit X_train y_train X_valid y_valid\<close> stands for both steps.
  \<open>preprocessing\<close> is first called with \<open>y_train\<close> and, when that raises, without it.
  \<^verbatim>\<open>
  holdout_preds = np.zeros((holdout.shape[0],))
  for fold, (train_idx, valid_idx) in enumerate(skf.split(train, train['target'])):
      X_train, y_train = train[features].iloc[train_idx].copy(), train['target'].iloc[train_idx].copy()
      X_valid, y_valid = train[features].iloc[valid_idx].copy(), train['target'].iloc[valid_idx].copy()
      X_test, y_test = holdout[features].copy(), holdout['target'].copy()
      if preprocessing:
          try:
              X_train, X_valid, X_test = preprocessing(X_train, X_valid, X_test, y_train)
          except:
              X_train, X_valid, X_test = preprocessing(X_train, X_valid, X_test)
      model = LGBMClassifier(...)
      model.fit(X_train, y_train, eval_set = [(X_valid, y_valid)], ...)
      holdout_preds += model.predict_proba(X_test)[:,1] / NUM_FOLDS
      valid_preds = model.predict_proba(X_valid)[:,1]
  return roc_auc_score(holdout['target'], holdout_preds), round(end-start, 2), model
  \<close>
\<close>

record 'm lgbm_state =
  holdout_preds :: "real list"
  model :: "'m option"

definition apply_preprocessing ::
  "('x list \<Rightarrow> 'x list \<Rightarrow> 'x list \<Rightarrow> 'y list option \<Rightarrow> error + 'x list \<times> 'x list \<times> 'x list) option \<Rightarrow>
     'x list \<Rightarrow> 'x list \<Rightarrow> 'x list \<Rightarrow> 'y list \<Rightarrow> error + 'x list \<times> 'x list \<times> 'x list" where
  "apply_preprocessing preprocessing X_train X_valid X_test y_train =
     (case preprocessing of
        None \<Rightarrow> Inr (X_train, X_valid, X_test)
      | Some f \<Rightarrow>
          (case f X_train X_valid X_test (Some y_train) of
             Inr r \<Rightarrow> Inr r
           | Inl e \<Rightarrow> f X_train X_valid X_test None))"

definition score_lightgbm_fold ::
  "('x list \<Rightarrow> 'y list \<Rightarrow> 'x list \<Rightarrow> 'y list \<Rightarrow> 'm) \<Rightarrow> ('m \<Rightarrow> 'x list \<Rightarrow> real list list) \<Rightarrow> nat \<Rightarrow>
     ('x list \<Rightarrow> 'x list \<Rightarrow> 'x list \<Rightarrow> 'y list option \<Rightarrow> error + 'x list \<times> 'x list \<times> 'x list) option \<Rightarrow>
     'x list \<Rightarrow> 'y list \<Rightarrow> 'x list \<Rightarrow>
     'm lgbm_state \<Rightarrow> fold \<Rightarrow> error + 'm lgbm_state" where
  "score_lightgbm_fold lgbm_fit lgbm_predict_proba NUM_FOLDS preprocessing train_X train_y
       holdout_X s =
     (\<lambda>(fold, train_idx, valid_idx).
        bindE (iloc train_X train_idx) (\<lambda>X_train.
        bindE (iloc train_y train_idx) (\<lambda>y_train.
        bindE (iloc train_X valid_idx) (\<lambda>X_valid.
        bindE (iloc train_y valid_idx) (\<lambda>y_valid.
        bindE (apply_preprocessing preprocessing X_train X_valid holdout_X y_train)
          (\<lambda>(X_train, X_valid, X_test).
          let model = lgbm_fit X_train y_train X_valid y_valid
          in
        bindE (column1 (lgbm_predict_proba model X_test)) (\<lambda>test_col.
        bindE (iadd (holdout_preds s) (map (\<lambda>p. p / real NUM_FOLDS) test_col))
          (\<lambda>holdout_preds'.
        bindE (column1 (lgbm_predict_proba model X_valid)) (\<lambda>valid_preds.
          Inr \<lparr>holdout_preds = holdout_preds', model = Some model\<rparr>)))))))))"

definition score_lightgbm_loop ::
  "('x list \<Rightarrow> 'y list \<Rightarrow> 'x list \<Rightarrow> 'y list \<Rightarrow> 'm) \<Rightarrow> ('m \<Rightarrow> 'x list \<Rightarrow> real list list) \<Rightarrow> nat \<Rightarrow>
     (nat list \<times> nat list) list \<Rightarrow>
     ('x list \<Rightarrow> 'x list \<Rightarrow> 'x list \<Rightarrow> 'y list option \<Rightarrow> error + 'x list \<times> 'x list \<times> 'x list) option \<Rightarrow>
     'x list \<Rightarrow> 'y list \<Rightarrow> 'x list \<Rightarrow> error + 'm lgbm_state" where
  "score_lightgbm_loop lgbm_fit lgbm_predict_proba NUM_FOLDS folds preprocessing train_X
       train_y holdout_X =
     for_each (score_lightgbm_fold lgbm_fit lgbm_predict_proba NUM_FOLDS preprocessing
                 train_X train_y holdout_X)
       (enumerate 0 folds)
       \<lparr>holdout_preds = replicate (length holdout_X) 0, model = None\<rparr>"

definition score_lightgbm ::
  "('x list \<Rightarrow> 'y list \<Rightarrow> 'x list \<Rightarrow> 'y list \<Rightarrow> 'm) \<Rightarrow> ('m \<Rightarrow> 'x list \<Rightarrow> real list list) \<Rightarrow>
     ('y list \<Rightarrow> real list \<Rightarrow> real) \<Rightarrow> nat \<Rightarrow> (nat list \<times> nat list) list \<Rightarrow>
     ('x list \<Rightarrow> 'x list \<Rightarrow> 'x list \<Rightarrow> 'y list option \<Rightarrow> error + 'x list \<times> 'x list \<times> 'x list) option \<Rightarrow>
     'x list \<Rightarrow> 'y list \<Rightarrow> 'x list \<Rightarrow> 'y list \<Rightarrow> error + real \<times> 'm" where
  "score_lightgbm lgbm_fit lgbm_predict_proba lgbm_roc_auc NUM_FOLDS folds preprocessing
       train_X train_y holdout_X holdout_y =
     bindE (score_lightgbm_loop lgbm_fit lgbm_predict_proba NUM_FOLDS folds preprocessing
              train_X train_y holdout_X) (\<lambda>s.
       case model s of
         None \<Rightarrow> Inl UnboundLocalError
       | Some m \<Rightarrow> Inr (lgbm_roc_auc holdout_y (holdout_preds s), m))"

text \<open>
  What \<open>iloc\<close> returns when every position is in range.
\<close>

definition rows :: "'a list \<Rightarrow> nat list \<Rightarrow> 'a list" where
  "rows xs idx = map (\<lambda>i. xs ! i) idx"

text \<open>
  Modelled from the spec: \<open>StratifiedKFold.split\<close> is scikit-learn's and not part of the
  repository. The spec calls a fold "one partition of the stratified k-fold
  cross-validation split" and the split a "fold index assignment" that "is disjoint and
  covers all rows": every row is assigned one fold index below \<open>n_splits\<close>
  (\<open>test_folds\<close>, chosen by the library from the labels and the random seed); fold
  \<open>k\<close> validates on the rows assigned \<open>k\<close> and trains on the others.
\<close>

definition StratifiedKFold_split :: "nat \<Rightarrow> nat list \<Rightarrow> (nat list \<times> nat list) list" where
  "StratifiedKFold_split n_splits test_folds =
     map (\<lambda>k. (filter (\<lambda>i. test_folds ! i \<noteq> k) [0..<length test_folds],
               filter (\<lambda>i. test_folds ! i = k) [0..<length test_folds]))
       [0..<n_splits]"

text \<open>
  \<open>out_of_fold folds valid_preds oof\<close>: for every fold and every position of its validation
  array, the row there is not a training row of the fold, and \<open>oof\<close> holds for that row
  the prediction \<open>valid_preds train_idx valid_idx\<close> makes at that position.
\<close>

definition out_of_fold ::
  "(nat list \<times> nat list) list \<Rightarrow> (nat list \<Rightarrow> nat list \<Rightarrow> real list) \<Rightarrow> real list \<Rightarrow> bool" where
  "out_of_fold folds valid_preds oof \<longleftrightarrow>
     (\<forall>(train_idx, valid_idx) \<in> set folds. \<forall>p<length valid_idx.
        valid_idx ! p \<notin> set train_idx \<and>
        oof ! (valid_idx ! p) = valid_preds train_idx valid_idx ! p)"

text \<open>
  A small estimator for concrete runs: the fitted model is the sum of the training labels,
  and every prediction is that number.
\<close>

definition toy_sklearn :: "(unit, real, nat, nat) sklearn" where
  "toy_sklearn =
     \<lparr>clone = (\<lambda>e. e),
      fit = (\<lambda>e X y. real (sum_list y)),
      fit_weighted = (\<lambda>e X y w. real (sum_list y)),
      predict = (\<lambda>m X. map (\<lambda>x. m) X),
      predict_proba = (\<lambda>m X. map (\<lambda>x. [0, m, 0, 0, 0, 0]) X),
      roc_auc_score = (\<lambda>y p. 0),
      accuracy_score = (\<lambda>y p. 0)\<rparr>"

definition toy_lgbm_fit :: "nat list \<Rightarrow> nat list \<Rightarrow> nat list \<Rightarrow> nat list \<Rightarrow> real" where
  "toy_lgbm_fit X_train y_train X_valid y_valid = real (sum_list y_train)"

definition toy_folds :: "(nat list \<times> nat list) list" where
  "toy_folds = [([1, 3, 5], [0, 2, 4]), ([0, 2, 4], [1, 3, 5])]"

text \<open>
  The average over \<open>K\<close> folds of the per-fold prediction arrays \<open>P k\<close>, for one- and
  two-dimensional arrays, and the plain sum.
\<close>

definition fold_mean :: "nat \<Rightarrow> (nat \<Rightarrow> real list) \<Rightarrow> nat \<Rightarrow> real list" where
  "fold_mean K P n = map (\<lambda>i. (\<Sum>k<K. P k ! i) / real K) [0..<n]"

definition fold_mean2 :: "nat \<Rightarrow> (nat \<Rightarrow> real list list) \<Rightarrow> nat \<Rightarrow> nat \<Rightarrow> real list list" where
  "fold_mean2 K P n C = map (\<lambda>i. map (\<lambda>c. (\<Sum>k<K. P k ! i ! c) / real K) [0..<C]) [0..<n]"

definition fold_sum2 :: "nat \<Rightarrow> (nat \<Rightarrow> real list list) \<Rightarrow> nat \<Rightarrow> nat \<Rightarrow> real list list" where
  "fold_sum2 K P n C = map (\<lambda>i. map (\<lambda>c. \<Sum>k<K. P k ! i ! c) [0..<C]) [0..<n]"

text \<open>
  What a harness relies on of the list the split yields, for \<open>n\<close> rows: the validation
  arrays together hold every row position once, and each training array holds the
  positions its validation array leaves out.
\<close>

definition kfold_split :: "nat \<Rightarrow> (nat list \<times> nat list) list \<Rightarrow> bool" where
  "kfold_split n folds \<longleftrightarrow>
     distinct (concat (map snd folds)) \<and>
     set (concat (map snd folds)) = {0..<n} \<and>
     (\<forall>(tr, va) \<in> set folds. set tr = {0..<n} - set va)"

text \<open>
  Loop invariants: after \<open>k\<close> folds, \<open>oof\<close> holds the validation predictions of the
  folds so far, and the accumulator holds the sum of what was added so far.
\<close>

definition oof_done :: "(nat list \<times> nat list) list \<Rightarrow> (nat \<Rightarrow> 'a list) \<Rightarrow> nat \<Rightarrow> 'a list \<Rightarrow> bool" where
  "oof_done folds vp k oof \<longleftrightarrow>
     (\<forall>j<k. \<forall>p<length (snd (folds ! j)). oof ! (snd (folds ! j) ! p) = vp j ! p)"

definition avg_done :: "nat \<Rightarrow> (nat \<Rightarrow> real list) \<Rightarrow> nat \<Rightarrow> nat \<Rightarrow> real list \<Rightarrow> bool" where
  "avg_done K tp n_test k acc \<longleftrightarrow> acc = map (\<lambda>i. \<Sum>j<k. tp j ! i / real K) [0..<n_test]"

definition sum2_done :: "(nat \<Rightarrow> real list list) \<Rightarrow> nat \<Rightarrow> nat \<Rightarrow> nat \<Rightarrow> real list list \<Rightarrow> bool" where
  "sum2_done Q n C k acc \<longleftrightarrow>
     acc = map (\<lambda>i. map (\<lambda>c. \<Sum>j<k. Q j ! i ! c) [0..<C]) [0..<n]"

lemma bindE_simps [simp]: "bindE (Inl e) f = Inl e" "bindE (Inr x) f = f x"
  by (simp_all add: bindE_def)

lemma for_each_enumerate_inv:
  assumes "I m s"
    and "\<And>k s. k < length xs \<Longrightarrow> I (m + k) s \<Longrightarrow>
           \<exists>s'. body s (m + k, xs ! k) = Inr s' \<and> I (Suc (m + k)) s'"
  shows "\<exists>s'. for_each body (enumerate m xs) s = Inr s' \<and> I (m + length xs) s'"
  using assms
proof (induction xs arbitrary: m s)
  case Nil
  then show ?case by simp
next
  case (Cons x xs)
  from Cons.prems(2)[of 0 s] Cons.prems(1) obtain s1 where
    s1: "body s (m, x) = Inr s1" "I (Suc m) s1" by auto
  have "\<exists>s'. for_each body (enumerate (Suc m) xs) s1 = Inr s' \<and> I (Suc m + length xs) s'"
  proof (rule Cons.IH[OF s1(2)])
    fix k s assume "k < length xs" "I (Suc m + k) s"
    then show "\<exists>s'. body s (Suc m + k, xs ! k) = Inr s' \<and> I (Suc (Suc m + k)) s'"
      using Cons.prems(2)[of "Suc k" s] by simp
  qed
  with s1 show ?case by simp
qed

lemma fold_update_zip:
  assumes "distinct idx" "length v = length idx" "\<forall>i \<in> set idx. i < length a"
  shows "length (fold (\<lambda>(i, x) b. b[i := x]) (zip idx v) a) = length a \<and>
         (\<forall>p<length idx. fold (\<lambda>(i, x) b. b[i := x]) (zip idx v) a ! (idx ! p) = v ! p) \<and>
         (\<forall>i. i \<notin> set idx \<longrightarrow> fold (\<lambda>(i, x) b. b[i := x]) (zip idx v) a ! i = a ! i)"
  using assms
proof (induction idx arbitrary: v a)
  case Nil
  then show ?case by simp
next
  case (Cons i idx)
  then obtain x v' where v: "v = x # v'" by (cases v) auto
  let ?a = "a[i := x]"
  have IH: "length (fold (\<lambda>(i, x) b. b[i := x]) (zip idx v') ?a) = length ?a \<and>
         (\<forall>p<length idx. fold (\<lambda>(i, x) b. b[i := x]) (zip idx v') ?a ! (idx ! p) = v' ! p) \<and>
         (\<forall>j. j \<notin> set idx \<longrightarrow> fold (\<lambda>(i, x) b. b[i := x]) (zip idx v') ?a ! j = ?a ! j)"
    using Cons.prems v by (intro Cons.IH) auto
  show ?case
  proof (intro conjI allI impI)
    show "length (fold (\<lambda>(i, x) b. b[i := x]) (zip (i # idx) v) a) = length a"
      using IH v by simp
  next
    fix p assume p: "p < length (i # idx)"
    show "fold (\<lambda>(i, x) b. b[i := x]) (zip (i # idx) v) a ! ((i # idx) ! p) = v ! p"
    proof (cases p)
      case 0
      have "i \<notin> set idx" using Cons.prems(1) by simp
      with IH have "fold (\<lambda>(i, x) b. b[i := x]) (zip idx v') ?a ! i = ?a ! i" by blast
      then show ?thesis using 0 v Cons.prems(3) by simp
    next
      case (Suc q)
      then show ?thesis using IH v p by simp
    qed
  next
    fix j assume "j \<notin> set (i # idx)"
    then show "fold (\<lambda>(i, x) b. b[i := x]) (zip (i # idx) v) a ! j = a ! j"
      using IH v by simp
  qed
qed

lemma put_ok:
  assumes "distinct idx" "length v = length idx" "\<forall>i \<in> set idx. i < length a"
  shows "\<exists>b. put a idx v = Inr b \<and> length b = length a \<and>
           (\<forall>p<length idx. b ! (idx ! p) = v ! p) \<and> (\<forall>i. i \<notin> set idx \<longrightarrow> b ! i = a ! i)"
proof -
  have "\<not> (\<exists>i \<in> set idx. length a \<le> i)" using assms(3) by auto
  then have "put a idx v = Inr (fold (\<lambda>(i, x) b. b[i := x]) (zip idx v) a)"
    using assms(2) by (simp add: put_def broadcast_def)
  with fold_update_zip[OF assms] show ?thesis by simp
qed


lemma distinct_concat_nth:
  "distinct (concat xs) \<Longrightarrow> j < k \<Longrightarrow> k < length xs \<Longrightarrow> set (xs ! j) \<inter> set (xs ! k) = {}"
proof (induction xs arbitrary: j k)
  case Nil
  then show ?case by simp
next
  case (Cons x xs)
  obtain k' where k: "k = Suc k'" using Cons.prems(2) by (cases k) auto
  show ?case
  proof (cases j)
    case 0
    have "xs ! k' \<in> set xs" using Cons.prems(3) k by simp
    then have "set (xs ! k') \<subseteq> set (concat xs)" by auto
    moreover have "set x \<inter> set (concat xs) = {}" using Cons.prems(1) by simp
    ultimately show ?thesis using 0 k by auto
  next
    case (Suc j')
    then show ?thesis using Cons k by simp
  qed
qed

lemma distinct_concat_nth_distinct:
  "distinct (concat xs) \<Longrightarrow> k < length xs \<Longrightarrow> distinct (xs ! k)"
  by (induction xs arbitrary: k) (auto simp: nth_Cons split: nat.splits)

lemma kfold_valid:
  assumes "kfold_split n folds" "k < length folds"
  shows "distinct (snd (folds ! k))" "\<forall>i \<in> set (snd (folds ! k)). i < n"
    "set (fst (folds ! k)) = {0..<n} - set (snd (folds ! k))"
proof -
  have d: "distinct (concat (map snd folds))" and c: "set (concat (map snd folds)) = {0..<n}"
    using assms(1) by (simp_all add: kfold_split_def)
  show "distinct (snd (folds ! k))"
    using distinct_concat_nth_distinct[OF d, of k] assms(2) by simp
  have "set (snd (folds ! k)) \<subseteq> set (concat (map snd folds))"
    using assms(2) by (auto simp del: set_concat simp add: set_concat intro!: bexI[of _ "folds ! k"])
  with c show "\<forall>i \<in> set (snd (folds ! k)). i < n" by auto
  have "folds ! k \<in> set folds" using assms(2) by simp
  then show "set (fst (folds ! k)) = {0..<n} - set (snd (folds ! k))"
    using assms(1) by (auto simp: kfold_split_def split: prod.splits)
qed

lemma kfold_disjoint:
  assumes "kfold_split n folds" "j < k" "k < length folds"
  shows "set (snd (folds ! j)) \<inter> set (snd (folds ! k)) = {}"
proof -
  have d: "distinct (concat (map snd folds))"
    using assms(1) by (simp add: kfold_split_def)
  from distinct_concat_nth[OF d, of j k] assms(2,3) show ?thesis by simp
qed

lemma put_oof_done:
  assumes kf: "kfold_split n folds" and k: "k < length folds"
    and len: "length oof = n" "length (vp k) = length (snd (folds ! k))"
    and dn: "oof_done folds vp k oof"
  shows "\<exists>oof'. put oof (snd (folds ! k)) (vp k) = Inr oof' \<and> length oof' = n \<and>
           oof_done folds vp (Suc k) oof'"
proof -
  let ?va = "snd (folds ! k)"
  from put_ok[of ?va "vp k" oof] kfold_valid(1,2)[OF kf k] len
  obtain b where b: "put oof ?va (vp k) = Inr b" "length b = length oof"
    "\<forall>p<length ?va. b ! (?va ! p) = vp k ! p" "\<forall>i. i \<notin> set ?va \<longrightarrow> b ! i = oof ! i"
    by auto
  have "oof_done folds vp (Suc k) b"
    unfolding oof_done_def
  proof (intro allI impI)
    fix j p assume j: "j < Suc k" and p: "p < length (snd (folds ! j))"
    show "b ! (snd (folds ! j) ! p) = vp j ! p"
    proof (cases "j = k")
      case True
      then show ?thesis using b(3) p by simp
    next
      case False
      then have jk: "j < k" using j by simp
      have "snd (folds ! j) ! p \<in> set (snd (folds ! j))" using p by simp
      then have "snd (folds ! j) ! p \<notin> set ?va"
        using kfold_disjoint[OF kf jk k] by auto
      then have "b ! (snd (folds ! j) ! p) = oof ! (snd (folds ! j) ! p)" using b(4) by simp
      also have "\<dots> = vp j ! p" using dn jk p by (simp add: oof_done_def)
      finally show ?thesis .
    qed
  qed
  with b len show ?thesis by auto
qed

lemma iadd_avg_done:
  assumes "length (tp k) = n_test" "avg_done K tp n_test k acc"
  shows "\<exists>acc'. iadd acc (map (\<lambda>p. p / real K) (tp k)) = Inr acc' \<and>
           avg_done K tp n_test (Suc k) acc'"
proof -
  have la: "length acc = n_test" using assms(2) by (simp add: avg_done_def)
  have "iadd acc (map (\<lambda>p. p / real K) (tp k)) = Inr (map2 (+) acc (map (\<lambda>p. p / real K) (tp k)))"
    using assms(1) la by (simp add: iadd_def broadcast_def)
  moreover have "map2 (+) acc (map (\<lambda>p. p / real K) (tp k))
      = map (\<lambda>i. \<Sum>j<Suc k. tp j ! i / real K) [0..<n_test]"
    using assms la by (auto simp: avg_done_def list_eq_iff_nth_eq)
  ultimately show ?thesis by (simp add: avg_done_def)
qed


lemma iloc_rows: "\<forall>i \<in> set idx. i < length xs \<Longrightarrow> iloc xs idx = Inr (rows xs idx)"
  by (simp add: iloc_def rows_def)

lemma kfold_iloc:
  assumes "kfold_split n folds" "k < length folds" "length xs = n"
  shows "iloc xs (fst (folds ! k)) = Inr (rows xs (fst (folds ! k)))"
    and "iloc xs (snd (folds ! k)) = Inr (rows xs (snd (folds ! k)))"
  using kfold_valid[OF assms(1,2)] assms(3) by (auto intro!: iloc_rows)

lemma column1_ok: "\<forall>r \<in> set m. 1 < length r \<Longrightarrow> column1 m = Inr (map (\<lambda>r. r ! 1) m)"
  by (simp add: column1_def)

lemma train_model_fold_step:
  fixes sk :: "('e, 'm, 'x, 'y) sklearn"
  assumes kf: "kfold_split n folds" and k: "k < length folds" and K: "length folds = NUM_FOLDS"
    and lens: "length train_X = n" "length train_y = n"
    and shape: "\<forall>m X. length (predict_proba sk m X) = length X"
               "\<forall>m X. \<forall>r \<in> set (predict_proba sk m X). 1 < length r"
    and vp: "vp = (\<lambda>k. map (\<lambda>r. r ! 1) (predict_proba sk
                (fit sk (clone sk e) (rows train_X (fst (folds ! k))) (rows train_y (fst (folds ! k))))
                (rows train_X (snd (folds ! k)))))"
    and tp: "tp = (\<lambda>k. map (\<lambda>r. r ! 1) (predict_proba sk
                (fit sk (clone sk e) (rows train_X (fst (folds ! k))) (rows train_y (fst (folds ! k))))
                test_X))"
    and inv: "length (scores s) = NUM_FOLDS" "length (oof_preds s) = n"
             "oof_done folds vp k (oof_preds s)"
             "avg_done NUM_FOLDS tp (length test_X) k (test_preds s)"
  shows "\<exists>s'. train_model_fold sk NUM_FOLDS train_X train_y test_X e s (k, folds ! k) = Inr s' \<and>
           length (scores s') = NUM_FOLDS \<and> length (oof_preds s') = n \<and>
           oof_done folds vp (Suc k) (oof_preds s') \<and>
           avg_done NUM_FOLDS tp (length test_X) (Suc k) (test_preds s')"
proof -
  obtain tr va where f: "folds ! k = (tr, va)" by (cases "folds ! k")
  have il: "iloc train_X tr = Inr (rows train_X tr)" "iloc train_y tr = Inr (rows train_y tr)"
    "iloc train_X va = Inr (rows train_X va)" "iloc train_y va = Inr (rows train_y va)"
    using kfold_iloc[OF kf k lens(1)] kfold_iloc[OF kf k lens(2)] f by simp_all
  have lvp: "length (vp k) = length (snd (folds ! k))"
    using shape(1) by (simp add: vp rows_def)
  have ltp: "length (tp k) = length test_X"
    using shape(1) by (simp add: tp)
  from put_oof_done[OF kf k inv(2) lvp inv(3)] obtain oof' where
    oof': "put (oof_preds s) va (vp k) = Inr oof'" "length oof' = n" "oof_done folds vp (Suc k) oof'"
    using f by auto
  from iadd_avg_done[OF ltp inv(4)] obtain acc' where
    acc': "iadd (test_preds s) (map (\<lambda>p. p / real NUM_FOLDS) (tp k)) = Inr acc'"
      "avg_done NUM_FOLDS tp (length test_X) (Suc k) acc'"
    by auto
  have st: "\<And>x. store (scores s) k x = Inr ((scores s)[k := x])"
    using k K inv(1) by (simp add: store_def)
  show ?thesis
    using il oof' acc' st shape(2) f inv(1)
    by (simp add: train_model_fold_def Let_def column1_ok vp tp)
qed


lemma oof_done_0: "oof_done folds vp 0 oof"
  by (simp add: oof_done_def)

lemma avg_done_0: "avg_done K tp n 0 (replicate n 0)"
  by (simp add: avg_done_def list_eq_iff_nth_eq)

lemma train_model_result:
  fixes sk :: "('e, 'm, 'x, 'y) sklearn"
  assumes kf: "kfold_split n folds" and K: "length folds = NUM_FOLDS"
    and lens: "length train_X = n" "length train_y = n"
    and shape: "\<forall>m X. length (predict_proba sk m X) = length X"
               "\<forall>m X. \<forall>r \<in> set (predict_proba sk m X). 1 < length r"
    and vp: "vp = (\<lambda>k. map (\<lambda>r. r ! 1) (predict_proba sk
                (fit sk (clone sk e) (rows train_X (fst (folds ! k))) (rows train_y (fst (folds ! k))))
                (rows train_X (snd (folds ! k)))))"
    and tp: "tp = (\<lambda>k. map (\<lambda>r. r ! 1) (predict_proba sk
                (fit sk (clone sk e) (rows train_X (fst (folds ! k))) (rows train_y (fst (folds ! k))))
                test_X))"
  shows "\<exists>s. train_model sk NUM_FOLDS folds train_X train_y test_X e = Inr s \<and>
           length (oof_preds s) = n \<and>
           oof_done folds vp NUM_FOLDS (oof_preds s) \<and>
           avg_done NUM_FOLDS tp (length test_X) NUM_FOLDS (test_preds s)"
proof -
  let ?I = "\<lambda>k (s :: real list cv_state). length (scores s) = NUM_FOLDS \<and> length (oof_preds s) = n \<and>
           oof_done folds vp k (oof_preds s) \<and>
           avg_done NUM_FOLDS tp (length test_X) k (test_preds s)"
  let ?s0 = "\<lparr>scores = replicate NUM_FOLDS 0, test_preds = replicate (length test_X) 0,
        oof_preds = replicate (length train_X) (0::real)\<rparr>"
  have "\<exists>s'. for_each (train_model_fold sk NUM_FOLDS train_X train_y test_X e)
            (enumerate 0 folds) ?s0 = Inr s' \<and> ?I (0 + length folds) s'"
  proof (rule for_each_enumerate_inv[where I = ?I])
    show "?I 0 ?s0" using lens by (simp add: oof_done_0 avg_done_0)
  next
    fix k s assume "k < length folds" "?I (0 + k) s"
    then show "\<exists>s'. train_model_fold sk NUM_FOLDS train_X train_y test_X e s (0 + k, folds ! k) = Inr s' \<and>
        ?I (Suc (0 + k)) s'"
      using train_model_fold_step[OF kf _ K lens shape vp tp, of k s] by simp
  qed
  then show ?thesis using K by (auto simp: train_model_def)
qed


lemma train_noisy_model_eq:
  "train_noisy_model sk L NUM_FOLDS folds train_X train_y test_X e =
   train_model (sk\<lparr>clone := \<lambda>e. L (clone sk e)\<rparr>) NUM_FOLDS folds train_X train_y test_X e"
proof -
  have "train_noisy_model_fold sk L NUM_FOLDS train_X train_y test_X e =
        train_model_fold (sk\<lparr>clone := \<lambda>e. L (clone sk e)\<rparr>) NUM_FOLDS train_X train_y test_X e"
    by (intro ext) (simp add: train_noisy_model_fold_def train_model_fold_def)
  then show ?thesis by (simp add: train_noisy_model_def train_model_def)
qed

lemma sequenceE_Inr: "sequenceE (map Inr xs) = Inr xs"
  by (induction xs) simp_all

lemma map2_iadd:
  "length A = length B \<Longrightarrow> \<forall>i<length A. length (B ! i) = length (A ! i) \<Longrightarrow>
     map2 iadd A B = map Inr (map2 (map2 (+)) A B)"
  by (auto simp: list_eq_iff_nth_eq iadd_def broadcast_def)

lemma sum2_done_0: "sum2_done Q n C 0 (replicate n (replicate C 0))"
  by (simp add: sum2_done_def list_eq_iff_nth_eq)

lemma iadd2_sum2_done:
  assumes "length (Q k) = n" "\<forall>r \<in> set (Q k). length r = C" "sum2_done Q n C k acc"
  shows "\<exists>acc'. iadd2 acc (Q k) = Inr acc' \<and> sum2_done Q n C (Suc k) acc'"
proof -
  have la: "length acc = n" and ra: "\<forall>i<n. length (acc ! i) = C"
    using assms(3) by (simp_all add: sum2_done_def)
  have rq: "\<forall>i<n. length (Q k ! i) = C" using assms(1,2) by simp
  have "iadd2 acc (Q k) = sequenceE (map2 iadd acc (Q k))"
    using assms(1) la by (simp add: iadd2_def broadcast_def)
  also have "\<dots> = Inr (map2 (map2 (+)) acc (Q k))"
  proof -
    have "map2 iadd acc (Q k) = map Inr (map2 (map2 (+)) acc (Q k))"
      by (rule map2_iadd) (use la ra rq assms(1) in simp_all)
    then show ?thesis by (simp only: sequenceE_Inr)
  qed
  finally have 1: "iadd2 acc (Q k) = Inr (map2 (map2 (+)) acc (Q k))" .
  have "map2 (map2 (+)) acc (Q k) = map (\<lambda>i. map (\<lambda>c. \<Sum>j<Suc k. Q j ! i ! c) [0..<C]) [0..<n]"
    using la assms(1) rq assms(3)
    by (auto simp: sum2_done_def list_eq_iff_nth_eq)
  with 1 show ?thesis by (simp add: sum2_done_def)
qed


lemma argmax_rows_ok:
  "\<forall>r \<in> set M. r \<noteq> [] \<Longrightarrow> argmax_rows M = Inr (map (\<lambda>r. real (argmax_index r)) M)"
proof -
  assume "\<forall>r \<in> set M. r \<noteq> []"
  then have "map argmax M = map Inr (map argmax_index M)"
    by (simp add: argmax_def)
  then show ?thesis
    by (simp only: argmax_rows_def sequenceE_Inr) (simp add: comp_def)
qed

lemma score_features_fold_step:
  fixes sk :: "('e, 'm, 'x, 'y) sklearn"
  assumes kf: "kfold_split n folds" and k: "k < length folds" and K: "length folds = NUM_FOLDS"
    and lens: "length X_temp = n" "length y_temp = n"
    and shape: "\<forall>m X. length (predict sk m X) = length X"
               "\<forall>m X. length (predict_proba sk m X) = length X"
               "\<forall>m X. \<forall>r \<in> set (predict_proba sk m X). length r = 6"
    and vp: "vp = (\<lambda>k. predict sk
                (fit sk (clone sk e) (rows X_temp (fst (folds ! k))) (rows y_temp (fst (folds ! k))))
                (rows X_temp (snd (folds ! k))))"
    and Q: "Q = (\<lambda>k. predict_proba sk
                (fit sk (clone sk e) (rows X_temp (fst (folds ! k))) (rows y_temp (fst (folds ! k))))
                X_test)"
    and inv: "length (scores s) = NUM_FOLDS" "length (oof_preds s) = n"
             "oof_done folds vp k (oof_preds s)"
             "sum2_done Q (length X_test) 6 k (test_preds s)"
  shows "\<exists>s'. score_features_fold sk X_temp y_temp X_test e s (k, folds ! k) = Inr s' \<and>
           length (scores s') = NUM_FOLDS \<and> length (oof_preds s') = n \<and>
           oof_done folds vp (Suc k) (oof_preds s') \<and>
           sum2_done Q (length X_test) 6 (Suc k) (test_preds s')"
proof -
  obtain tr va where f: "folds ! k = (tr, va)" by (cases "folds ! k")
  have il: "iloc X_temp tr = Inr (rows X_temp tr)" "iloc y_temp tr = Inr (rows y_temp tr)"
    "iloc X_temp va = Inr (rows X_temp va)" "iloc y_temp va = Inr (rows y_temp va)"
    using kfold_iloc[OF kf k lens(1)] kfold_iloc[OF kf k lens(2)] f by simp_all
  have lvp: "length (vp k) = length (snd (folds ! k))"
    using shape(1) by (simp add: vp rows_def)
  have lq: "length (Q k) = length X_test" "\<forall>r \<in> set (Q k). length r = 6"
    using shape(2,3) by (simp_all add: Q)
  from put_oof_done[OF kf k inv(2) lvp inv(3)] obtain oof' where
    oof': "put (oof_preds s) va (vp k) = Inr oof'" "length oof' = n" "oof_done folds vp (Suc k) oof'"
    using f by auto
  from iadd2_sum2_done[OF lq inv(4)] obtain acc' where
    acc': "iadd2 (test_preds s) (Q k) = Inr acc'" "sum2_done Q (length X_test) 6 (Suc k) acc'"
    by auto
  have st: "\<And>x. store (scores s) k x = Inr ((scores s)[k := x])"
    using k K inv(1) by (simp add: store_def)
  have vpk: "predict sk (fit sk (clone sk e) (rows X_temp tr) (rows y_temp tr)) (rows X_temp va) = vp k"
    and Qk: "predict_proba sk (fit sk (clone sk e) (rows X_temp tr) (rows y_temp tr)) X_test = Q k"
    using f by (simp_all add: vp Q)
  show ?thesis
    using oof' acc' inv(1)
    by (simp add: score_features_fold_def Let_def f il vpk Qk st)
qed

lemma score_features_loop_result:
  fixes sk :: "('e, 'm, 'x, 'y) sklearn"
  assumes kf: "kfold_split n folds" and K: "length folds = NUM_FOLDS"
    and pr: "apply_processing processing train_X = Inr X_temp"
            "apply_processing processing test_X = Inr X_test"
    and lens: "length X_temp = n" "length y_temp = n"
    and shape: "\<forall>m X. length (predict sk m X) = length X"
               "\<forall>m X. length (predict_proba sk m X) = length X"
               "\<forall>m X. \<forall>r \<in> set (predict_proba sk m X). length r = 6"
    and vp: "vp = (\<lambda>k. predict sk
                (fit sk (clone sk e) (rows X_temp (fst (folds ! k))) (rows y_temp (fst (folds ! k))))
                (rows X_temp (snd (folds ! k))))"
    and Q: "Q = (\<lambda>k. predict_proba sk
                (fit sk (clone sk e) (rows X_temp (fst (folds ! k))) (rows y_temp (fst (folds ! k))))
                X_test)"
  shows "\<exists>s. score_features_loop sk NUM_FOLDS folds processing train_X y_temp test_X e = Inr s \<and>
           length (oof_preds s) = n \<and>
           oof_done folds vp NUM_FOLDS (oof_preds s) \<and>
           sum2_done Q (length X_test) 6 NUM_FOLDS (test_preds s)"
proof -
  let ?I = "\<lambda>k (s :: real list list cv_state). length (scores s) = NUM_FOLDS \<and> length (oof_preds s) = n \<and>
           oof_done folds vp k (oof_preds s) \<and>
           sum2_done Q (length X_test) 6 k (test_preds s)"
  let ?s0 = "\<lparr>scores = replicate NUM_FOLDS 0,
          test_preds = replicate (length X_test) (replicate 6 0),
          oof_preds = replicate (length X_temp) (0::real)\<rparr>"
  have "\<exists>s'. for_each (score_features_fold sk X_temp y_temp X_test e)
            (enumerate 0 folds) ?s0 = Inr s' \<and> ?I (0 + length folds) s'"
  proof (rule for_each_enumerate_inv[where I = ?I])
    show "?I 0 ?s0" using lens by (simp add: oof_done_0 sum2_done_0)
  next
    fix k s assume "k < length folds" "?I (0 + k) s"
    then show "\<exists>s'. score_features_fold sk X_temp y_temp X_test e s (0 + k, folds ! k) = Inr s' \<and>
        ?I (Suc (0 + k)) s'"
      using score_features_fold_step[OF kf _ K lens shape vp Q, of k s] by simp
  qed
  then show ?thesis using K pr by (auto simp: score_features_loop_def)
qed


lemma score_model_fold_step:
  fixes sk :: "('e, 'm, 'x, 'y) sklearn"
  assumes kf: "kfold_split n folds" and k: "k < length folds"
    and lens: "length train_X = n" "length train_y = n" "length sample_weight = n"
    and shape: "\<forall>m X. length (predict_proba sk m X) = length X"
               "\<forall>m X. \<forall>r \<in> set (predict_proba sk m X). length r = C"
               "0 < C"
    and md: "md = (\<lambda>k. fit_weighted sk (clone sk e) (rows train_X (fst (folds ! k)))
                (rows train_y (fst (folds ! k))) (rows sample_weight (fst (folds ! k))))"
    and vp: "vp = (\<lambda>k. map (\<lambda>r. real (argmax_index r))
                (predict_proba sk (md k) (rows train_X (snd (folds ! k)))))"
    and Q: "Q = (\<lambda>k. map (map (\<lambda>p. p / real NUM_FOLDS)) (predict_proba sk (md k) test_X))"
    and inv: "length (oof_preds s) = n"
             "oof_done folds vp k (oof_preds s)"
             "sum2_done Q (length test_X) C k (test_proba s)"
  shows "\<exists>s'. score_model_fold sk NUM_FOLDS train_X train_y sample_weight test_X e s (k, folds ! k)
             = Inr s' \<and> length (oof_preds s') = n \<and>
           oof_done folds vp (Suc k) (oof_preds s') \<and>
           sum2_done Q (length test_X) C (Suc k) (test_proba s')"
proof -
  obtain tr va where f: "folds ! k = (tr, va)" by (cases "folds ! k")
  have il: "iloc train_X tr = Inr (rows train_X tr)" "iloc train_y tr = Inr (rows train_y tr)"
    "iloc train_X va = Inr (rows train_X va)" "iloc train_y va = Inr (rows train_y va)"
    "iloc sample_weight tr = Inr (rows sample_weight tr)"
    "iloc sample_weight va = Inr (rows sample_weight va)"
    using kfold_iloc[OF kf k lens(1)] kfold_iloc[OF kf k lens(2)] kfold_iloc[OF kf k lens(3)] f
    by simp_all
  have mdk: "fit_weighted sk (clone sk e) (rows train_X tr) (rows train_y tr)
               (rows sample_weight tr) = md k"
    using f by (simp add: md)
  have ne: "\<And>X. \<forall>r \<in> set (predict_proba sk (md k) X). r \<noteq> []"
    using shape(2,3) by fastforce
  have am: "\<And>X. argmax_rows (predict_proba sk (md k) X)
      = Inr (map (\<lambda>r. real (argmax_index r)) (predict_proba sk (md k) X))"
    using ne by (intro argmax_rows_ok)
  have vpk: "map (\<lambda>r. real (argmax_index r)) (predict_proba sk (md k) (rows train_X va)) = vp k"
    and Qk: "map (map (\<lambda>p. p / real NUM_FOLDS)) (predict_proba sk (md k) test_X) = Q k"
    using f by (simp_all add: vp Q)
  have lvp: "length (vp k) = length (snd (folds ! k))"
    using shape(1) by (simp add: vp rows_def)
  have lq: "length (Q k) = length test_X" "\<forall>r \<in> set (Q k). length r = C"
    using shape(1,2) by (auto simp: Q)
  from put_oof_done[OF kf k inv(1) lvp inv(2)] obtain oof' where
    oof': "put (oof_preds s) va (vp k) = Inr oof'" "length oof' = n" "oof_done folds vp (Suc k) oof'"
    using f by auto
  from iadd2_sum2_done[OF lq inv(3)] obtain acc' where
    acc': "iadd2 (test_proba s) (Q k) = Inr acc'" "sum2_done Q (length test_X) C (Suc k) acc'"
    by auto
  show ?thesis
    using oof' acc'
    by (simp add: score_model_fold_def Let_def f il mdk am vpk Qk)
qed

lemma score_model_result:
  fixes sk :: "('e, 'm, 'x, 'y) sklearn"
  assumes kf: "kfold_split n folds"
    and lens: "length train_X = n" "length train_y = n" "length sample_weight = n"
    and shape: "\<forall>m X. length (predict_proba sk m X) = length X"
               "\<forall>m X. \<forall>r \<in> set (predict_proba sk m X). length r = length (remdups train_y)"
               "train_y \<noteq> []"
    and md: "md = (\<lambda>k. fit_weighted sk (clone sk e) (rows train_X (fst (folds ! k)))
                (rows train_y (fst (folds ! k))) (rows sample_weight (fst (folds ! k))))"
    and vp: "vp = (\<lambda>k. map (\<lambda>r. real (argmax_index r))
                (predict_proba sk (md k) (rows train_X (snd (folds ! k)))))"
    and Q: "Q = (\<lambda>k. map (map (\<lambda>p. p / real NUM_FOLDS)) (predict_proba sk (md k) test_X))"
  shows "\<exists>oof tp. score_model sk NUM_FOLDS folds train_X train_y sample_weight test_X e
             = Inr (oof, tp) \<and> length oof = n \<and>
           oof_done folds vp (length folds) oof \<and>
           sum2_done Q (length test_X) (length (remdups train_y)) (length folds) tp"
proof -
  let ?C = "length (remdups train_y)"
  have C: "0 < ?C" using shape(3) by (cases train_y) auto
  let ?I = "\<lambda>k (s :: sm_state). length (oof_preds s) = n \<and>
           oof_done folds vp k (oof_preds s) \<and>
           sum2_done Q (length test_X) ?C k (test_proba s)"
  let ?s0 = "\<lparr>scores = replicate NUM_FOLDS (0::real), test_preds = [],
               oof_preds = replicate (length train_X) (0::real),
               test_proba = replicate (length test_X) (replicate ?C (0::real))\<rparr>"
  have "\<exists>s'. for_each (score_model_fold sk NUM_FOLDS train_X train_y sample_weight test_X e)
            (enumerate 0 folds) ?s0 = Inr s' \<and> ?I (0 + length folds) s'"
  proof (rule for_each_enumerate_inv[where I = ?I])
    show "?I 0 ?s0" using lens by (simp add: oof_done_0 sum2_done_0)
  next
    fix k s assume "k < length folds" "?I (0 + k) s"
    then show "\<exists>s'. score_model_fold sk NUM_FOLDS train_X train_y sample_weight test_X e s
          (0 + k, folds ! k) = Inr s' \<and> ?I (Suc (0 + k)) s'"
      using score_model_fold_step[OF kf _ lens shape(1,2) C md vp Q, of k s] by simp
  qed
  then show ?thesis by (auto simp: score_model_def)
qed


lemma score_lightgbm_fold_step:
  assumes kf: "kfold_split n folds" and k: "k < length folds"
    and lens: "length train_X = n" "length train_y = n"
    and pre: "apply_preprocessing preprocessing (rows train_X (fst (folds ! k)))
                (rows train_X (snd (folds ! k))) holdout_X (rows train_y (fst (folds ! k)))
              = Inr (Xtr k, Xva k, Xte k)" "length (Xte k) = length holdout_X"
    and shape: "\<forall>m X. length (lgbm_predict_proba m X) = length X"
               "\<forall>m X. \<forall>r \<in> set (lgbm_predict_proba m X). 1 < length r"
    and md: "md = (\<lambda>k. lgbm_fit (Xtr k) (rows train_y (fst (folds ! k))) (Xva k)
                          (rows train_y (snd (folds ! k))))"
    and tp: "tp = (\<lambda>k. map (\<lambda>r. r ! 1) (lgbm_predict_proba (md k) (Xte k)))"
    and inv: "avg_done NUM_FOLDS tp (length holdout_X) k (holdout_preds s)"
  shows "\<exists>s'. score_lightgbm_fold lgbm_fit lgbm_predict_proba NUM_FOLDS preprocessing train_X
                 train_y holdout_X s (k, folds ! k) = Inr s' \<and>
           avg_done NUM_FOLDS tp (length holdout_X) (Suc k) (holdout_preds s') \<and>
           model s' = Some (md k)"
proof -
  obtain tr va where f: "folds ! k = (tr, va)" by (cases "folds ! k")
  have il: "iloc train_X tr = Inr (rows train_X tr)" "iloc train_y tr = Inr (rows train_y tr)"
    "iloc train_X va = Inr (rows train_X va)" "iloc train_y va = Inr (rows train_y va)"
    using kfold_iloc[OF kf k lens(1)] kfold_iloc[OF kf k lens(2)] f by simp_all
  have pre': "apply_preprocessing preprocessing (rows train_X tr) (rows train_X va) holdout_X
                (rows train_y tr) = Inr (Xtr k, Xva k, Xte k)"
    using pre(1) f by simp
  have mdk: "lgbm_fit (Xtr k) (rows train_y tr) (Xva k) (rows train_y va) = md k"
    using f by (simp add: md)
  have c1: "\<And>X. column1 (lgbm_predict_proba (md k) X) = Inr (map (\<lambda>r. r ! 1) (lgbm_predict_proba (md k) X))"
    using shape(2) by (intro column1_ok) simp
  have tpk: "column1 (lgbm_predict_proba (md k) (Xte k)) = Inr (tp k)"
    using c1 by (simp add: tp)
  have vpk: "\<exists>v. column1 (lgbm_predict_proba (md k) (Xva k)) = Inr v"
    using c1 by simp
  have ltp: "length (tp k) = length holdout_X"
    using shape(1) pre(2) by (simp add: tp)
  from iadd_avg_done[OF ltp inv] obtain acc' where
    acc': "iadd (holdout_preds s) (map (\<lambda>p. p / real NUM_FOLDS) (tp k)) = Inr acc'"
      "avg_done NUM_FOLDS tp (length holdout_X) (Suc k) acc'"
    by auto
  show ?thesis
    using acc' vpk
    by (auto simp add: score_lightgbm_fold_def Let_def f il pre' mdk tpk)
qed

lemma score_lightgbm_loop_result:
  assumes kf: "kfold_split n folds"
    and lens: "length train_X = n" "length train_y = n"
    and pre: "\<forall>k<length folds.
                apply_preprocessing preprocessing (rows train_X (fst (folds ! k)))
                  (rows train_X (snd (folds ! k))) holdout_X (rows train_y (fst (folds ! k)))
                = Inr (Xtr k, Xva k, Xte k) \<and> length (Xte k) = length holdout_X"
    and shape: "\<forall>m X. length (lgbm_predict_proba m X) = length X"
               "\<forall>m X. \<forall>r \<in> set (lgbm_predict_proba m X). 1 < length r"
    and md: "md = (\<lambda>k. lgbm_fit (Xtr k) (rows train_y (fst (folds ! k))) (Xva k)
                          (rows train_y (snd (folds ! k))))"
    and tp: "tp = (\<lambda>k. map (\<lambda>r. r ! 1) (lgbm_predict_proba (md k) (Xte k)))"
  shows "\<exists>s. score_lightgbm_loop lgbm_fit lgbm_predict_proba NUM_FOLDS folds preprocessing
                train_X train_y holdout_X = Inr s \<and>
           avg_done NUM_FOLDS tp (length holdout_X) (length folds) (holdout_preds s) \<and>
           (0 < length folds \<longrightarrow> model s = Some (md (length folds - 1)))"
proof -
  let ?I = "\<lambda>k (s :: 'c lgbm_state). avg_done NUM_FOLDS tp (length holdout_X) k (holdout_preds s) \<and>
           (0 < k \<longrightarrow> model s = Some (md (k - 1)))"
  let ?s0 = "\<lparr>holdout_preds = replicate (length holdout_X) (0::real), model = None\<rparr>"
  have "\<exists>s'. for_each (score_lightgbm_fold lgbm_fit lgbm_predict_proba NUM_FOLDS preprocessing
                 train_X train_y holdout_X)
            (enumerate 0 folds) ?s0 = Inr s' \<and> ?I (0 + length folds) s'"
  proof (rule for_each_enumerate_inv[where I = ?I])
    show "?I 0 ?s0" by (simp add: avg_done_0)
  next
    fix k s assume k: "k < length folds" and I: "?I (0 + k) s"
    from pre k have p: "apply_preprocessing preprocessing (rows train_X (fst (folds ! k)))
                  (rows train_X (snd (folds ! k))) holdout_X (rows train_y (fst (folds ! k)))
                = Inr (Xtr k, Xva k, Xte k)" "length (Xte k) = length holdout_X" by auto
    from I have inv: "avg_done NUM_FOLDS tp (length holdout_X) k (holdout_preds s)" by simp
    from score_lightgbm_fold_step[OF kf k lens p shape md tp inv]
    show "\<exists>s'. score_lightgbm_fold lgbm_fit lgbm_predict_proba NUM_FOLDS preprocessing
          train_X train_y holdout_X s (0 + k, folds ! k) = Inr s' \<and> ?I (Suc (0 + k)) s'"
      by auto
  qed
  then show ?thesis by (auto simp: score_lightgbm_loop_def)
qed


lemma split_valid_set:
  "k < K \<Longrightarrow> set (snd (StratifiedKFold_split K tf ! k)) = {i. i < length tf \<and> tf ! i = k}"
  by (auto simp: StratifiedKFold_split_def)

lemma split_train_set:
  "k < K \<Longrightarrow> set (fst (StratifiedKFold_split K tf ! k)) = {i. i < length tf \<and> tf ! i \<noteq> k}"
  by (auto simp: StratifiedKFold_split_def)

lemma distinct_concat_map:
  assumes "distinct ks" "\<And>k. k \<in> set ks \<Longrightarrow> distinct (f k)"
    "\<And>j k. j \<in> set ks \<Longrightarrow> k \<in> set ks \<Longrightarrow> j \<noteq> k \<Longrightarrow> set (f j) \<inter> set (f k) = {}"
  shows "distinct (concat (map f ks))"
  using assms
proof (induction ks)
  case Nil
  then show ?case by simp
next
  case (Cons a ks)
  have 1: "distinct (f a)" using Cons.prems(2) by simp
  have 2: "distinct (concat (map f ks))"
    using Cons.prems by (intro Cons.IH) auto
  have 3: "set (f a) \<inter> set (f k) = {}" if "k \<in> set ks" for k
    using Cons.prems(1) Cons.prems(3)[of a k] that by auto
  show ?case using 1 2 3 by auto
qed

lemma split_kfold:
  assumes "\<forall>f \<in> set tf. f < K"
  shows "kfold_split (length tf) (StratifiedKFold_split K tf)"
proof -
  let ?va = "\<lambda>k. filter (\<lambda>i. tf ! i = k) [0..<length tf]"
  have m: "map snd (StratifiedKFold_split K tf) = map ?va [0..<K]"
    by (simp add: StratifiedKFold_split_def comp_def)
  have d: "distinct (concat (map ?va [0..<K]))"
    by (rule distinct_concat_map) auto
  have c: "set (concat (map ?va [0..<K])) = {0..<length tf}"
    using assms by (auto simp del: upt_Suc)
  have t: "\<forall>(tr, va) \<in> set (StratifiedKFold_split K tf). set tr = {0..<length tf} - set va"
    by (auto simp: StratifiedKFold_split_def)
  show ?thesis
    unfolding kfold_split_def m using d c t by blast
qed

text \<open>
  C1. The validation index sets of the \<open>NUM_FOLDS\<close> folds are pairwise disjoint, their
  union is the set of all row positions, and every row lies in the validation set of
  exactly one fold; so the list of folds is one every harness below can run on.
\<close>

theorem stratified_folds_partition:
  assumes "\<forall>f \<in> set test_folds. f < NUM_FOLDS"
  shows "length (StratifiedKFold_split NUM_FOLDS test_folds) = NUM_FOLDS \<and>
     (\<forall>j<NUM_FOLDS. \<forall>k<NUM_FOLDS. j \<noteq> k \<longrightarrow>
        set (snd (StratifiedKFold_split NUM_FOLDS test_folds ! j)) \<inter>
        set (snd (StratifiedKFold_split NUM_FOLDS test_folds ! k)) = {}) \<and>
     (\<Union>k<NUM_FOLDS. set (snd (StratifiedKFold_split NUM_FOLDS test_folds ! k)))
        = {0..<length test_folds} \<and>
     (\<forall>i<length test_folds. \<exists>!k. k < NUM_FOLDS \<and>
        i \<in> set (snd (StratifiedKFold_split NUM_FOLDS test_folds ! k))) \<and>
     kfold_split (length test_folds) (StratifiedKFold_split NUM_FOLDS test_folds)"
proof (intro conjI)
  show "length (StratifiedKFold_split NUM_FOLDS test_folds) = NUM_FOLDS"
    by (simp add: StratifiedKFold_split_def)
  show "\<forall>j<NUM_FOLDS. \<forall>k<NUM_FOLDS. j \<noteq> k \<longrightarrow>
        set (snd (StratifiedKFold_split NUM_FOLDS test_folds ! j)) \<inter>
        set (snd (StratifiedKFold_split NUM_FOLDS test_folds ! k)) = {}"
    by (auto simp: split_valid_set)
  show "(\<Union>k<NUM_FOLDS. set (snd (StratifiedKFold_split NUM_FOLDS test_folds ! k)))
        = {0..<length test_folds}"
    using assms by (auto simp: split_valid_set)
  show "\<forall>i<length test_folds. \<exists>!k. k < NUM_FOLDS \<and>
        i \<in> set (snd (StratifiedKFold_split NUM_FOLDS test_folds ! k))"
  proof (intro allI impI)
    fix i assume i: "i < length test_folds"
    then have "test_folds ! i < NUM_FOLDS" using assms by simp
    then show "\<exists>!k. k < NUM_FOLDS \<and>
        i \<in> set (snd (StratifiedKFold_split NUM_FOLDS test_folds ! k))"
      using i by (intro ex1I[of _ "test_folds ! i"]) (auto simp: split_valid_set)
  qed
  show "kfold_split (length test_folds) (StratifiedKFold_split NUM_FOLDS test_folds)"
    using assms by (rule split_kfold)
qed

theorem stratified_folds_partition_witness:
  "StratifiedKFold_split 2 [0, 1, 1, 0, 1] = [([1, 2, 4], [0, 3]), ([0, 3], [1, 2, 4])] \<and>
   kfold_split 5 (StratifiedKFold_split 2 [0, 1, 1, 0, 1])"
proof -
  have h: "\<forall>f \<in> set [0, 1, 1, 0, 1 :: nat]. f < 2" by simp
  have "StratifiedKFold_split 2 [0, 1, 1, 0, 1] = [([1, 2, 4], [0, 3]), ([0, 3], [1, 2, 4])]"
    by code_simp
  moreover from stratified_folds_partition[OF h]
  have "kfold_split (length [0, 1, 1, 0, 1 :: nat]) (StratifiedKFold_split 2 [0, 1, 1, 0, 1])"
    by blast
  moreover have "length [0, 1, 1, 0, 1 :: nat] = 5" by simp
  ultimately show ?thesis by (simp only:)
qed


lemma oof_done_out_of_fold:
  assumes kf: "kfold_split n folds"
    and dn: "oof_done folds (\<lambda>k. g (fst (folds ! k)) (snd (folds ! k))) (length folds) oof"
  shows "out_of_fold folds g oof"
  unfolding out_of_fold_def
proof (intro ballI allI impI, clarify)
  fix tr va p assume f: "(tr, va) \<in> set folds" and p: "p < length va"
  then obtain k where k: "k < length folds" "folds ! k = (tr, va)"
    by (auto simp: in_set_conv_nth)
  have "set tr = {0..<n} - set va" using kfold_valid(3)[OF kf k(1)] k(2) by simp
  then have 1: "va ! p \<notin> set tr" using p by simp
  have 2: "oof ! (va ! p) = g tr va ! p"
    using dn k p by (auto simp: oof_done_def)
  show "va ! p \<notin> set tr \<and> oof ! (va ! p) = g tr va ! p" using 1 2 by simp
qed

lemma distinct_count_list_1: "distinct xs \<Longrightarrow> x \<in> set xs \<Longrightarrow> count_list xs x = 1"
  by (induction xs) auto

lemma kfold_written_once:
  "kfold_split n folds \<Longrightarrow> i < n \<Longrightarrow> count_list (concat (map snd folds)) i = 1"
  by (rule distinct_count_list_1) (simp_all add: kfold_split_def)

lemma score_features_result:
  fixes sk :: "('e, 'm, 'x, 'y) sklearn"
  assumes kf: "kfold_split n folds" and K: "length folds = NUM_FOLDS"
    and pr: "apply_processing processing train_X = Inr X_temp"
            "apply_processing processing test_X = Inr X_test"
    and lens: "length X_temp = n" "length y_temp = n"
    and shape: "\<forall>m X. length (predict sk m X) = length X"
               "\<forall>m X. length (predict_proba sk m X) = length X"
               "\<forall>m X. \<forall>r \<in> set (predict_proba sk m X). length r = 6"
    and vp: "vp = (\<lambda>k. predict sk
                (fit sk (clone sk e) (rows X_temp (fst (folds ! k))) (rows y_temp (fst (folds ! k))))
                (rows X_temp (snd (folds ! k))))"
    and Q: "Q = (\<lambda>k. predict_proba sk
                (fit sk (clone sk e) (rows X_temp (fst (folds ! k))) (rows y_temp (fst (folds ! k))))
                X_test)"
  shows "\<exists>s. score_features_loop sk NUM_FOLDS folds processing train_X y_temp test_X e = Inr s \<and>
           score_features sk NUM_FOLDS folds processing train_X y_temp test_X test_y e
             = Inr (sum_list (scores s) / real NUM_FOLDS, oof_preds s,
                    accuracy_score sk test_y (map (\<lambda>r. real (argmax_index r)) (test_preds s))) \<and>
           length (oof_preds s) = n \<and>
           oof_done folds vp NUM_FOLDS (oof_preds s) \<and>
           sum2_done Q (length X_test) 6 NUM_FOLDS (test_preds s)"
proof -
  from score_features_loop_result[OF kf K pr lens shape vp Q] obtain s where
    s: "score_features_loop sk NUM_FOLDS folds processing train_X y_temp test_X e = Inr s"
       "length (oof_preds s) = n" "oof_done folds vp NUM_FOLDS (oof_preds s)"
       "sum2_done Q (length X_test) 6 NUM_FOLDS (test_preds s)" by blast
  have "\<forall>r \<in> set (test_preds s). r \<noteq> []"
    using s(4) by (auto simp: sum2_done_def)
  then have "argmax_rows (test_preds s) = Inr (map (\<lambda>r. real (argmax_index r)) (test_preds s))"
    by (rule argmax_rows_ok)
  then show ?thesis using s by (simp add: score_features_def Let_def)
qed

text \<open>
  C2. For a k-fold split of the \<open>n\<close> training rows and estimators that return one
  prediction per row, each of \<open>train_model\<close>, \<open>train_noisy_model\<close>, \<open>score_features\<close> and
  \<open>score_model\<close> returns an \<open>oof_preds\<close> of length \<open>n\<close> in which the entry of a row is the
  prediction, at that row, of the model fitted on a fresh clone of the estimator with the
  training rows of the one fold that validates on the row, and the row is none of them.
  Every row position occurs once among the positions the loop assigns to.
\<close>

theorem oof_written_once_out_of_fold:
  fixes sk :: "('e, 'm, 'x, 'y) sklearn"
  assumes kf: "kfold_split n folds" and K: "length folds = NUM_FOLDS"
    and lens: "length train_X = n" "length train_y = n"
    and rows: "\<forall>m X. length (predict_proba sk m X) = length X"
  shows "(\<forall>i<n. count_list (concat (map snd folds)) i = 1) \<and>
    ((\<forall>m X. \<forall>r \<in> set (predict_proba sk m X). 1 < length r) \<longrightarrow>
       (\<exists>s. train_model sk NUM_FOLDS folds train_X train_y test_X e = Inr s \<and>
            length (oof_preds s) = n \<and>
            out_of_fold folds
              (\<lambda>train_idx valid_idx. map (\<lambda>r. r ! 1)
                 (predict_proba sk
                    (fit sk (clone sk e) (rows train_X train_idx) (rows train_y train_idx))
                    (rows train_X valid_idx)))
              (oof_preds s)) \<and>
       (\<exists>s. train_noisy_model sk LearningWithNoisyLabels NUM_FOLDS folds train_X train_y test_X e
                = Inr s \<and>
            length (oof_preds s) = n \<and>
            out_of_fold folds
              (\<lambda>train_idx valid_idx. map (\<lambda>r. r ! 1)
                 (predict_proba sk
                    (fit sk (LearningWithNoisyLabels (clone sk e))
                       (rows train_X train_idx) (rows train_y train_idx))
                    (rows train_X valid_idx)))
              (oof_preds s))) \<and>
    ((\<forall>m X. length (predict sk m X) = length X) \<and>
     (\<forall>m X. \<forall>r \<in> set (predict_proba sk m X). length r = 6) \<and>
     apply_processing processing train_X = Inr X_temp \<and>
     apply_processing processing test_X = Inr X_test \<and> length X_temp = n \<longrightarrow>
       (\<exists>mean_score oof test_score.
            score_features sk NUM_FOLDS folds processing train_X train_y test_X test_y e
              = Inr (mean_score, oof, test_score) \<and>
            length oof = n \<and>
            out_of_fold folds
              (\<lambda>train_idx valid_idx. predict sk
                 (fit sk (clone sk e) (rows X_temp train_idx) (rows train_y train_idx))
                 (rows X_temp valid_idx))
              oof)) \<and>
    ((\<forall>m X. \<forall>r \<in> set (predict_proba sk m X). length r = length (remdups train_y)) \<and>
     train_y \<noteq> [] \<and> length sample_weight = n \<longrightarrow>
       (\<exists>oof proba.
            score_model sk NUM_FOLDS folds train_X train_y sample_weight test_X e
              = Inr (oof, proba) \<and>
            length oof = n \<and>
            out_of_fold folds
              (\<lambda>train_idx valid_idx. map (\<lambda>r. real (argmax_index r))
                 (predict_proba sk
                    (fit_weighted sk (clone sk e) (rows train_X train_idx)
                       (rows train_y train_idx) (rows sample_weight train_idx))
                    (rows train_X valid_idx)))
              oof))"
proof (intro conjI impI allI)
  fix i assume "i < n"
  then show "count_list (concat (map snd folds)) i = 1"
    using kf by (rule kfold_written_once[rotated])
next
  assume sh: "\<forall>m X. \<forall>r \<in> set (predict_proba sk m X). 1 < length r"
  from train_model_result[OF kf K lens rows sh refl refl, where e = e and test_X = test_X]
  obtain s :: "real list cv_state" where s: "train_model sk NUM_FOLDS folds train_X train_y test_X e = Inr s"
    "length (oof_preds s) = n"
    "oof_done folds (\<lambda>k. map (\<lambda>r. r ! 1) (predict_proba sk
                (fit sk (clone sk e) (rows train_X (fst (folds ! k))) (rows train_y (fst (folds ! k))))
                (rows train_X (snd (folds ! k))))) NUM_FOLDS (oof_preds s)"
    by blast
  from oof_done_out_of_fold[OF kf, where g = "\<lambda>train_idx valid_idx. map (\<lambda>r. r ! 1)
                 (predict_proba sk
                    (fit sk (clone sk e) (rows train_X train_idx) (rows train_y train_idx))
                    (rows train_X valid_idx))", of "oof_preds s"] s(3) K
  show "\<exists>s. train_model sk NUM_FOLDS folds train_X train_y test_X e = Inr s \<and>
            length (oof_preds s) = n \<and>
            out_of_fold folds
              (\<lambda>train_idx valid_idx. map (\<lambda>r. r ! 1)
                 (predict_proba sk
                    (fit sk (clone sk e) (rows train_X train_idx) (rows train_y train_idx))
                    (rows train_X valid_idx)))
              (oof_preds s)"
    using s(1,2) by auto
next
  assume sh: "\<forall>m X. \<forall>r \<in> set (predict_proba sk m X). 1 < length r"
  let ?sk = "sk\<lparr>clone := \<lambda>e. LearningWithNoisyLabels (clone sk e)\<rparr>"
  have rows': "\<forall>m X. length (predict_proba ?sk m X) = length X"
    and sh': "\<forall>m X. \<forall>r \<in> set (predict_proba ?sk m X). 1 < length r"
    using rows sh by simp_all
  from train_model_result[OF kf K lens rows' sh' refl refl, where e = e and test_X = test_X]
  obtain s :: "real list cv_state" where s: "train_model ?sk NUM_FOLDS folds train_X train_y test_X e = Inr s"
    "length (oof_preds s) = n"
    "oof_done folds (\<lambda>k. map (\<lambda>r. r ! 1) (predict_proba sk
                (fit sk (LearningWithNoisyLabels (clone sk e)) (rows train_X (fst (folds ! k)))
                   (rows train_y (fst (folds ! k))))
                (rows train_X (snd (folds ! k))))) NUM_FOLDS (oof_preds s)"
    by auto
  from oof_done_out_of_fold[OF kf, where g = "\<lambda>train_idx valid_idx. map (\<lambda>r. r ! 1)
                 (predict_proba sk
                    (fit sk (LearningWithNoisyLabels (clone sk e))
                       (rows train_X train_idx) (rows train_y train_idx))
                    (rows train_X valid_idx))", of "oof_preds s"] s(3) K
  show "\<exists>s. train_noisy_model sk LearningWithNoisyLabels NUM_FOLDS folds train_X train_y test_X e
                = Inr s \<and>
            length (oof_preds s) = n \<and>
            out_of_fold folds
              (\<lambda>train_idx valid_idx. map (\<lambda>r. r ! 1)
                 (predict_proba sk
                    (fit sk (LearningWithNoisyLabels (clone sk e))
                       (rows train_X train_idx) (rows train_y train_idx))
                    (rows train_X valid_idx)))
              (oof_preds s)"
    using s(1,2) by (auto simp: train_noisy_model_eq)
next
  assume h: "(\<forall>m X. length (predict sk m X) = length X) \<and>
     (\<forall>m X. \<forall>r \<in> set (predict_proba sk m X). length r = 6) \<and>
     apply_processing processing train_X = Inr X_temp \<and>
     apply_processing processing test_X = Inr X_test \<and> length X_temp = n"
  then have h1: "\<forall>m X. length (predict sk m X) = length X"
    and h2: "\<forall>m X. \<forall>r \<in> set (predict_proba sk m X). length r = 6"
    and h3: "apply_processing processing train_X = Inr X_temp"
    and h4: "apply_processing processing test_X = Inr X_test" and h5: "length X_temp = n"
    by blast+
  from score_features_result[OF kf K h3 h4 h5 lens(2) h1 rows h2 refl refl, where e = e and test_y = test_y]
  obtain s :: "real list list cv_state" where s:
    "score_features sk NUM_FOLDS folds processing train_X train_y test_X test_y e
             = Inr (sum_list (scores s) / real NUM_FOLDS, oof_preds s,
                    accuracy_score sk test_y (map (\<lambda>r. real (argmax_index r)) (test_preds s)))"
    "length (oof_preds s) = n"
    "oof_done folds (\<lambda>k. predict sk
                (fit sk (clone sk e) (rows X_temp (fst (folds ! k))) (rows train_y (fst (folds ! k))))
                (rows X_temp (snd (folds ! k)))) NUM_FOLDS (oof_preds s)"
    by blast
  from oof_done_out_of_fold[OF kf, where g = "\<lambda>train_idx valid_idx. predict sk
                 (fit sk (clone sk e) (rows X_temp train_idx) (rows train_y train_idx))
                 (rows X_temp valid_idx)", of "oof_preds s"] s(3) K
  show "\<exists>mean_score oof test_score.
            score_features sk NUM_FOLDS folds processing train_X train_y test_X test_y e
              = Inr (mean_score, oof, test_score) \<and>
            length oof = n \<and>
            out_of_fold folds
              (\<lambda>train_idx valid_idx. predict sk
                 (fit sk (clone sk e) (rows X_temp train_idx) (rows train_y train_idx))
                 (rows X_temp valid_idx))
              oof"
    using s(1,2) by auto
next
  assume h: "(\<forall>m X. \<forall>r \<in> set (predict_proba sk m X). length r = length (remdups train_y)) \<and>
     train_y \<noteq> [] \<and> length sample_weight = n"
  then have h1: "\<forall>m X. \<forall>r \<in> set (predict_proba sk m X). length r = length (remdups train_y)"
    and h2: "train_y \<noteq> []" and h3: "length sample_weight = n" by blast+
  from score_model_result[OF kf lens h3 rows h1 h2 refl refl refl, where e = e and NUM_FOLDS = NUM_FOLDS and test_X = test_X]
  obtain oof tp where s:
    "score_model sk NUM_FOLDS folds train_X train_y sample_weight test_X e = Inr (oof, tp)"
    "length oof = n"
    "oof_done folds (\<lambda>k. map (\<lambda>r. real (argmax_index r))
                (predict_proba sk (fit_weighted sk (clone sk e) (rows train_X (fst (folds ! k)))
                (rows train_y (fst (folds ! k))) (rows sample_weight (fst (folds ! k))))
                (rows train_X (snd (folds ! k))))) (length folds) oof"
    by blast
  from oof_done_out_of_fold[OF kf, where g = "\<lambda>train_idx valid_idx. map (\<lambda>r. real (argmax_index r))
                 (predict_proba sk
                    (fit_weighted sk (clone sk e) (rows train_X train_idx)
                       (rows train_y train_idx) (rows sample_weight train_idx))
                    (rows train_X valid_idx))", of oof] s(3)
  show "\<exists>oof proba.
            score_model sk NUM_FOLDS folds train_X train_y sample_weight test_X e
              = Inr (oof, proba) \<and>
            length oof = n \<and>
            out_of_fold folds
              (\<lambda>train_idx valid_idx. map (\<lambda>r. real (argmax_index r))
                 (predict_proba sk
                    (fit_weighted sk (clone sk e) (rows train_X train_idx)
                       (rows train_y train_idx) (rows sample_weight train_idx))
                    (rows train_X valid_idx)))
              oof"
    using s(1,2) by auto
qed


lemma toy_kfold: "kfold_split 6 toy_folds"
proof -
  have "{0..<6::nat} = {0, 1, 2, 3, 4, 5}" by auto
  then show ?thesis by (auto simp: kfold_split_def toy_folds_def)
qed

theorem oof_written_once_out_of_fold_witness:
  "count_list (concat (map snd toy_folds)) 3 = 1 \<and>
   (\<exists>s. train_model toy_sklearn 2 toy_folds [0, 1, 2, 3, 4, 5] [0, 1, 2, 3, 4, 5] [7] () = Inr s \<and>
        length (oof_preds s) = 6 \<and>
        out_of_fold toy_folds
          (\<lambda>train_idx valid_idx. map (\<lambda>r. r ! 1)
             (predict_proba toy_sklearn
                (fit toy_sklearn (clone toy_sklearn ())
                   (rows [0, 1, 2, 3, 4, 5] train_idx) (rows [0, 1, 2, 3, 4, 5] train_idx))
                (rows [0, 1, 2, 3, 4, 5] valid_idx)))
          (oof_preds s)) \<and>
   (\<exists>mean_score oof test_score.
        score_features toy_sklearn 2 toy_folds None [0, 1, 2, 3, 4, 5] [0, 1, 2, 3, 4, 5] [7] [1] ()
          = Inr (mean_score, oof, test_score) \<and>
        length oof = 6 \<and>
        out_of_fold toy_folds
          (\<lambda>train_idx valid_idx. predict toy_sklearn
             (fit toy_sklearn (clone toy_sklearn ())
                (rows [0, 1, 2, 3, 4, 5] train_idx) (rows [0, 1, 2, 3, 4, 5] train_idx))
             (rows [0, 1, 2, 3, 4, 5] valid_idx))
          oof) \<and>
   (\<exists>oof proba.
        score_model toy_sklearn 2 toy_folds [0, 1, 2, 3, 4, 5] [0, 1, 2, 3, 4, 5]
          [1, 1, 1, 1, 1, 1] [7] () = Inr (oof, proba) \<and>
        length oof = 6 \<and>
        out_of_fold toy_folds
          (\<lambda>train_idx valid_idx. map (\<lambda>r. real (argmax_index r))
             (predict_proba toy_sklearn
                (fit_weighted toy_sklearn (clone toy_sklearn ())
                   (rows [0, 1, 2, 3, 4, 5] train_idx) (rows [0, 1, 2, 3, 4, 5] train_idx)
                   (rows [1, 1, 1, 1, 1, 1] train_idx))
                (rows [0, 1, 2, 3, 4, 5] valid_idx)))
          oof)"
proof -
  have K: "length toy_folds = 2" by (simp add: toy_folds_def)
  have l: "length [0, 1, 2, 3, 4, 5 :: nat] = 6" by simp
  have r: "\<forall>m X. length (predict_proba toy_sklearn m (X :: nat list)) = length X"
    by (simp add: toy_sklearn_def)
  have h1: "\<forall>m X. \<forall>r \<in> set (predict_proba toy_sklearn m (X :: nat list)). 1 < length r"
    by (simp add: toy_sklearn_def)
  have h2: "(\<forall>m X. length (predict toy_sklearn m (X :: nat list)) = length X) \<and>
     (\<forall>m X. \<forall>r \<in> set (predict_proba toy_sklearn m (X :: nat list)). length r = 6) \<and>
     apply_processing None [0, 1, 2, 3, 4, 5 :: nat] = Inr [0, 1, 2, 3, 4, 5] \<and>
     apply_processing None [7 :: nat] = Inr [7] \<and> length [0, 1, 2, 3, 4, 5 :: nat] = 6"
    by (simp add: toy_sklearn_def apply_processing_def)
  have h3: "(\<forall>m X. \<forall>r \<in> set (predict_proba toy_sklearn m (X :: nat list)).
               length r = length (remdups [0, 1, 2, 3, 4, 5 :: nat])) \<and>
     [0, 1, 2, 3, 4, 5 :: nat] \<noteq> [] \<and> length [1, 1, 1, 1, 1, 1 :: real] = 6"
    by (simp add: toy_sklearn_def)
  note t = oof_written_once_out_of_fold[OF toy_kfold K l l r,
      where e = "()" and test_X = "[7]" and LearningWithNoisyLabels = "\<lambda>e. e"
        and processing = None and X_temp = "[0, 1, 2, 3, 4, 5]" and X_test = "[7]"
        and test_y = "[1]" and sample_weight = "[1, 1, 1, 1, 1, 1]"]
  from t have c1: "count_list (concat (map snd toy_folds)) 3 = 1" by simp
  from t h1 h2 h3 c1 show ?thesis by blast
qed


lemma avg_done_fold_mean: "avg_done K P n K acc \<Longrightarrow> acc = fold_mean K P n"
  by (simp add: avg_done_def fold_mean_def sum_divide_distrib)

lemma sum2_done_fold_sum2: "sum2_done Q n C K acc \<Longrightarrow> acc = fold_sum2 K Q n C"
  by (simp add: sum2_done_def fold_sum2_def)

lemma sum2_done_fold_mean2:
  assumes "sum2_done (\<lambda>k. map (map (\<lambda>p. p / real K)) (P k)) n C K acc"
    and "\<forall>k<K. length (P k) = n \<and> (\<forall>r \<in> set (P k). length r = C)"
  shows "acc = fold_mean2 K P n C"
proof -
  have "(\<Sum>j<K. map (map (\<lambda>p. p / real K)) (P j) ! i ! c) = (\<Sum>k<K. P k ! i ! c) / real K"
    if "i < n" "c < C" for i c
  proof -
    have "(\<Sum>j<K. map (map (\<lambda>p. p / real K)) (P j) ! i ! c) = (\<Sum>j<K. P j ! i ! c / real K)"
      using assms(2) that by (intro sum.cong) auto
    then show ?thesis by (simp add: sum_divide_distrib)
  qed
  then show ?thesis using assms(1) by (simp add: sum2_done_def fold_mean2_def)
qed

text \<open>
  C3, amended. \<open>train_model\<close>, \<open>train_noisy_model\<close> and \<open>score_model\<close> return, and
  \<open>score_lightgbm\<close> accumulates in \<open>holdout_preds\<close> and scores, the sum over the folds of
  the per-fold test predictions divided by \<open>NUM_FOLDS\<close>. \<open>score_features\<close> accumulates the
  plain sum of the per-fold class probabilities, without the division, and returns the
  accuracy of its row-wise argmax.
\<close>

theorem test_predictions_fold_average:
  fixes sk :: "('e, 'm, 'x, 'y) sklearn"
    and lgbm_fit :: "'x list \<Rightarrow> 'y list \<Rightarrow> 'x list \<Rightarrow> 'y list \<Rightarrow> 'lm"
  assumes kf: "kfold_split n folds" and K: "length folds = NUM_FOLDS"
    and lens: "length train_X = n" "length train_y = n"
    and rows: "\<forall>m X. length (predict_proba sk m X) = length X"
  shows
    "((\<forall>m X. \<forall>r \<in> set (predict_proba sk m X). 1 < length r) \<longrightarrow>
       (\<exists>s. train_model sk NUM_FOLDS folds train_X train_y test_X e = Inr s \<and>
            test_preds s = fold_mean NUM_FOLDS
              (\<lambda>k. map (\<lambda>r. r ! 1) (predict_proba sk
                 (fit sk (clone sk e) (rows train_X (fst (folds ! k)))
                    (rows train_y (fst (folds ! k))))
                 test_X))
              (length test_X)) \<and>
       (\<exists>s. train_noisy_model sk LearningWithNoisyLabels NUM_FOLDS folds train_X train_y test_X e
                = Inr s \<and>
            test_preds s = fold_mean NUM_FOLDS
              (\<lambda>k. map (\<lambda>r. r ! 1) (predict_proba sk
                 (fit sk (LearningWithNoisyLabels (clone sk e)) (rows train_X (fst (folds ! k)))
                    (rows train_y (fst (folds ! k))))
                 test_X))
              (length test_X))) \<and>
     ((\<forall>m X. \<forall>r \<in> set (predict_proba sk m X). length r = length (remdups train_y)) \<and>
      train_y \<noteq> [] \<and> length sample_weight = n \<longrightarrow>
       (\<exists>oof proba.
            score_model sk NUM_FOLDS folds train_X train_y sample_weight test_X e
              = Inr (oof, proba) \<and>
            proba = fold_mean2 NUM_FOLDS
              (\<lambda>k. predict_proba sk
                 (fit_weighted sk (clone sk e) (rows train_X (fst (folds ! k)))
                    (rows train_y (fst (folds ! k))) (rows sample_weight (fst (folds ! k))))
                 test_X)
              (length test_X) (length (remdups train_y)))) \<and>
     ((\<forall>m X. length (lgbm_predict_proba m X) = length X) \<and>
      (\<forall>m X. \<forall>r \<in> set (lgbm_predict_proba m X). 1 < length r) \<and> 0 < NUM_FOLDS \<and>
      (\<forall>k<NUM_FOLDS.
         apply_preprocessing preprocessing (rows train_X (fst (folds ! k)))
           (rows train_X (snd (folds ! k))) holdout_X (rows train_y (fst (folds ! k)))
         = Inr (Xtr k, Xva k, Xte k) \<and> length (Xte k) = length holdout_X) \<longrightarrow>
       (\<exists>s m. score_lightgbm_loop lgbm_fit lgbm_predict_proba NUM_FOLDS folds preprocessing
                 train_X train_y holdout_X = Inr s \<and>
            holdout_preds s = fold_mean NUM_FOLDS
              (\<lambda>k. map (\<lambda>r. r ! 1) (lgbm_predict_proba
                 (lgbm_fit (Xtr k) (rows train_y (fst (folds ! k))) (Xva k)
                    (rows train_y (snd (folds ! k))))
                 (Xte k)))
              (length holdout_X) \<and>
            score_lightgbm lgbm_fit lgbm_predict_proba lgbm_roc_auc NUM_FOLDS folds
                preprocessing train_X train_y holdout_X holdout_y
              = Inr (lgbm_roc_auc holdout_y (holdout_preds s), m))) \<and>
     ((\<forall>m X. length (predict sk m X) = length X) \<and>
      (\<forall>m X. \<forall>r \<in> set (predict_proba sk m X). length r = 6) \<and>
      apply_processing processing train_X = Inr X_temp \<and>
      apply_processing processing test_X = Inr X_test \<and> length X_temp = n \<longrightarrow>
       (\<exists>s. score_features_loop sk NUM_FOLDS folds processing train_X train_y test_X e = Inr s \<and>
            test_preds s = fold_sum2 NUM_FOLDS
              (\<lambda>k. predict_proba sk
                 (fit sk (clone sk e) (rows X_temp (fst (folds ! k)))
                    (rows train_y (fst (folds ! k))))
                 X_test)
              (length X_test) 6 \<and>
            score_features sk NUM_FOLDS folds processing train_X train_y test_X test_y e
              = Inr (sum_list (scores s) / real NUM_FOLDS, oof_preds s,
                     accuracy_score sk test_y
                       (map (\<lambda>r. real (argmax_index r)) (test_preds s)))))"
proof (intro conjI impI)
  assume sh: "\<forall>m X. \<forall>r \<in> set (predict_proba sk m X). 1 < length r"
  from train_model_result[OF kf K lens rows sh refl refl, where e = e and test_X = test_X]
  show "\<exists>s. train_model sk NUM_FOLDS folds train_X train_y test_X e = Inr s \<and>
            test_preds s = fold_mean NUM_FOLDS
              (\<lambda>k. map (\<lambda>r. r ! 1) (predict_proba sk
                 (fit sk (clone sk e) (rows train_X (fst (folds ! k)))
                    (rows train_y (fst (folds ! k))))
                 test_X))
              (length test_X)"
    by (blast dest: avg_done_fold_mean)
next
  assume sh: "\<forall>m X. \<forall>r \<in> set (predict_proba sk m X). 1 < length r"
  let ?sk = "sk\<lparr>clone := \<lambda>e. LearningWithNoisyLabels (clone sk e)\<rparr>"
  have rows': "\<forall>m X. length (predict_proba ?sk m X) = length X"
    and sh': "\<forall>m X. \<forall>r \<in> set (predict_proba ?sk m X). 1 < length r"
    using rows sh by simp_all
  from train_model_result[OF kf K lens rows' sh' refl refl, where e = e and test_X = test_X]
  obtain s :: "real list cv_state" where
    s: "train_model ?sk NUM_FOLDS folds train_X train_y test_X e = Inr s"
    "avg_done NUM_FOLDS (\<lambda>k. map (\<lambda>r. r ! 1) (predict_proba sk
                 (fit sk (LearningWithNoisyLabels (clone sk e)) (rows train_X (fst (folds ! k)))
                    (rows train_y (fst (folds ! k))))
                 test_X)) (length test_X) NUM_FOLDS (test_preds s)"
    by auto
  show "\<exists>s. train_noisy_model sk LearningWithNoisyLabels NUM_FOLDS folds train_X train_y test_X e
                = Inr s \<and>
            test_preds s = fold_mean NUM_FOLDS
              (\<lambda>k. map (\<lambda>r. r ! 1) (predict_proba sk
                 (fit sk (LearningWithNoisyLabels (clone sk e)) (rows train_X (fst (folds ! k)))
                    (rows train_y (fst (folds ! k))))
                 test_X))
              (length test_X)"
    using s(1) avg_done_fold_mean[OF s(2)] by (auto simp: train_noisy_model_eq)
next
  assume h: "(\<forall>m X. \<forall>r \<in> set (predict_proba sk m X). length r = length (remdups train_y)) \<and>
      train_y \<noteq> [] \<and> length sample_weight = n"
  then have h1: "\<forall>m X. \<forall>r \<in> set (predict_proba sk m X). length r = length (remdups train_y)"
    and h2: "train_y \<noteq> []" and h3: "length sample_weight = n" by blast+
  let ?P = "\<lambda>k. predict_proba sk
                 (fit_weighted sk (clone sk e) (rows train_X (fst (folds ! k)))
                    (rows train_y (fst (folds ! k))) (rows sample_weight (fst (folds ! k))))
                 test_X"
  from score_model_result[OF kf lens h3 rows h1 h2 refl refl refl,
      where e = e and NUM_FOLDS = NUM_FOLDS and test_X = test_X]
  obtain oof tp where s:
    "score_model sk NUM_FOLDS folds train_X train_y sample_weight test_X e = Inr (oof, tp)"
    "sum2_done (\<lambda>k. map (map (\<lambda>p. p / real NUM_FOLDS)) (?P k)) (length test_X)
       (length (remdups train_y)) (length folds) tp"
    by blast
  have "tp = fold_mean2 NUM_FOLDS ?P (length test_X) (length (remdups train_y))"
    using s(2) rows h1 unfolding K by (intro sum2_done_fold_mean2) auto
  with s(1) show "\<exists>oof proba.
            score_model sk NUM_FOLDS folds train_X train_y sample_weight test_X e
              = Inr (oof, proba) \<and>
            proba = fold_mean2 NUM_FOLDS ?P (length test_X) (length (remdups train_y))"
    by blast
next
  assume h: "(\<forall>m X. length (lgbm_predict_proba m X) = length X) \<and>
      (\<forall>m X. \<forall>r \<in> set (lgbm_predict_proba m X). 1 < length r) \<and> 0 < NUM_FOLDS \<and>
      (\<forall>k<NUM_FOLDS.
         apply_preprocessing preprocessing (rows train_X (fst (folds ! k)))
           (rows train_X (snd (folds ! k))) holdout_X (rows train_y (fst (folds ! k)))
         = Inr (Xtr k, Xva k, Xte k) \<and> length (Xte k) = length holdout_X)"
  then have h1: "\<forall>m X. length (lgbm_predict_proba m X) = length X"
    and h2: "\<forall>m X. \<forall>r \<in> set (lgbm_predict_proba m X). 1 < length r"
    and h3: "0 < NUM_FOLDS"
    and h4: "\<forall>k<length folds.
         apply_preprocessing preprocessing (rows train_X (fst (folds ! k)))
           (rows train_X (snd (folds ! k))) holdout_X (rows train_y (fst (folds ! k)))
         = Inr (Xtr k, Xva k, Xte k) \<and> length (Xte k) = length holdout_X"
    using K by blast+
  let ?md = "\<lambda>k. lgbm_fit (Xtr k) (rows train_y (fst (folds ! k))) (Xva k)
                    (rows train_y (snd (folds ! k)))"
  from score_lightgbm_loop_result[OF kf lens h4 h1 h2 refl refl,
      where lgbm_fit = lgbm_fit and NUM_FOLDS = NUM_FOLDS]
  obtain s :: "'lm lgbm_state" where s:
    "score_lightgbm_loop lgbm_fit lgbm_predict_proba NUM_FOLDS folds preprocessing
                 train_X train_y holdout_X = Inr s"
    "avg_done NUM_FOLDS (\<lambda>k. map (\<lambda>r. r ! 1) (lgbm_predict_proba (?md k) (Xte k)))
       (length holdout_X) (length folds) (holdout_preds s)"
    "0 < length folds \<longrightarrow> model s = Some (?md (length folds - 1))"
    by blast
  have m: "model s = Some (?md (NUM_FOLDS - 1))" using s(3) h3 K by simp
  have "score_lightgbm lgbm_fit lgbm_predict_proba lgbm_roc_auc NUM_FOLDS folds
                preprocessing train_X train_y holdout_X holdout_y
              = Inr (lgbm_roc_auc holdout_y (holdout_preds s), ?md (NUM_FOLDS - 1))"
    by (simp add: score_lightgbm_def s(1) m)
  moreover have "holdout_preds s = fold_mean NUM_FOLDS
              (\<lambda>k. map (\<lambda>r. r ! 1) (lgbm_predict_proba (?md k) (Xte k))) (length holdout_X)"
    using s(2) unfolding K by (rule avg_done_fold_mean)
  ultimately show "\<exists>s m. score_lightgbm_loop lgbm_fit lgbm_predict_proba NUM_FOLDS folds preprocessing
                 train_X train_y holdout_X = Inr s \<and>
            holdout_preds s = fold_mean NUM_FOLDS
              (\<lambda>k. map (\<lambda>r. r ! 1) (lgbm_predict_proba (?md k) (Xte k)))
              (length holdout_X) \<and>
            score_lightgbm lgbm_fit lgbm_predict_proba lgbm_roc_auc NUM_FOLDS folds
                preprocessing train_X train_y holdout_X holdout_y
              = Inr (lgbm_roc_auc holdout_y (holdout_preds s), m)"
    using s(1) by blast
next
  assume h: "(\<forall>m X. length (predict sk m X) = length X) \<and>
      (\<forall>m X. \<forall>r \<in> set (predict_proba sk m X). length r = 6) \<and>
      apply_processing processing train_X = Inr X_temp \<and>
      apply_processing processing test_X = Inr X_test \<and> length X_temp = n"
  then have h1: "\<forall>m X. length (predict sk m X) = length X"
    and h2: "\<forall>m X. \<forall>r \<in> set (predict_proba sk m X). length r = 6"
    and h3: "apply_processing processing train_X = Inr X_temp"
    and h4: "apply_processing processing test_X = Inr X_test" and h5: "length X_temp = n"
    by blast+
  from score_features_result[OF kf K h3 h4 h5 lens(2) h1 rows h2 refl refl,
      where e = e and test_y = test_y]
  show "\<exists>s. score_features_loop sk NUM_FOLDS folds processing train_X train_y test_X e = Inr s \<and>
            test_preds s = fold_sum2 NUM_FOLDS
              (\<lambda>k. predict_proba sk
                 (fit sk (clone sk e) (rows X_temp (fst (folds ! k)))
                    (rows train_y (fst (folds ! k))))
                 X_test)
              (length X_test) 6 \<and>
            score_features sk NUM_FOLDS folds processing train_X train_y test_X test_y e
              = Inr (sum_list (scores s) / real NUM_FOLDS, oof_preds s,
                     accuracy_score sk test_y
                       (map (\<lambda>r. real (argmax_index r)) (test_preds s)))"
    by (blast dest: sum2_done_fold_sum2)
qed

text \<open>
  C3 as stated fails for \<open>score_features\<close>: with two folds whose models predict the
  probabilities \<open>9\<close> and \<open>6\<close> for class 1, the array after the loop holds \<open>15\<close>, and
  the average is \<open>15 / 2\<close>.
\<close>

theorem test_predictions_fold_average_counterexample:
  "score_features_loop toy_sklearn 2 toy_folds None [0, 1, 2, 3, 4, 5] [0, 1, 2, 3, 4, 5] [7] ()
     = Inr \<lparr>scores = [0, 0], test_preds = [[0, 15, 0, 0, 0, 0]],
            oof_preds = [9, 6, 9, 6, 9, 6]\<rparr> \<and>
   predict_proba toy_sklearn
     (fit toy_sklearn (clone toy_sklearn ()) (rows [0, 1, 2, 3, 4, 5] [1, 3, 5])
        (rows [0, 1, 2, 3, 4, 5] [1, 3, 5])) [7] = [[0, 9, 0, 0, 0, 0]] \<and>
   predict_proba toy_sklearn
     (fit toy_sklearn (clone toy_sklearn ()) (rows [0, 1, 2, 3, 4, 5] [0, 2, 4])
        (rows [0, 1, 2, 3, 4, 5] [0, 2, 4])) [7] = [[0, 6, 0, 0, 0, 0]] \<and>
   fold_mean2 2 (\<lambda>k. [[[0, 9, 0, 0, 0, 0]], [[0, 6, 0, 0, 0, 0]]] ! k) 1 6
     = [[0, 15 / 2, 0, 0, 0, 0]]"
  by code_simp

theorem test_predictions_fold_average_witness:
  "(\<exists>s. train_model toy_sklearn 2 toy_folds [0, 1, 2, 3, 4, 5] [0, 1, 2, 3, 4, 5] [7] () = Inr s \<and>
        test_preds s = fold_mean 2
          (\<lambda>k. map (\<lambda>r. r ! 1) (predict_proba toy_sklearn
             (fit toy_sklearn (clone toy_sklearn ()) (rows [0, 1, 2, 3, 4, 5] (fst (toy_folds ! k)))
                (rows [0, 1, 2, 3, 4, 5] (fst (toy_folds ! k))))
             [7])) 1) \<and>
   (\<exists>oof proba.
        score_model toy_sklearn 2 toy_folds [0, 1, 2, 3, 4, 5] [0, 1, 2, 3, 4, 5]
          [1, 1, 1, 1, 1, 1] [7] () = Inr (oof, proba) \<and>
        proba = fold_mean2 2
          (\<lambda>k. predict_proba toy_sklearn
             (fit_weighted toy_sklearn (clone toy_sklearn ())
                (rows [0, 1, 2, 3, 4, 5] (fst (toy_folds ! k)))
                (rows [0, 1, 2, 3, 4, 5] (fst (toy_folds ! k)))
                (rows [1, 1, 1, 1, 1, 1] (fst (toy_folds ! k))))
             [7]) 1 6) \<and>
   (\<exists>s m. score_lightgbm_loop toy_lgbm_fit (predict_proba toy_sklearn) 2 toy_folds None
             [0, 1, 2, 3, 4, 5] [0, 1, 2, 3, 4, 5] [7] = Inr s \<and>
        holdout_preds s = fold_mean 2
          (\<lambda>k. map (\<lambda>r. r ! 1) (predict_proba toy_sklearn
             (toy_lgbm_fit (rows [0, 1, 2, 3, 4, 5] (fst (toy_folds ! k)))
                (rows [0, 1, 2, 3, 4, 5] (fst (toy_folds ! k)))
                (rows [0, 1, 2, 3, 4, 5] (snd (toy_folds ! k)))
                (rows [0, 1, 2, 3, 4, 5] (snd (toy_folds ! k))))
             [7])) 1 \<and>
        score_lightgbm toy_lgbm_fit (predict_proba toy_sklearn) (roc_auc_score toy_sklearn) 2
            toy_folds None [0, 1, 2, 3, 4, 5] [0, 1, 2, 3, 4, 5] [7] [1]
          = Inr (roc_auc_score toy_sklearn [1] (holdout_preds s), m)) \<and>
   (\<exists>s. score_features_loop toy_sklearn 2 toy_folds None [0, 1, 2, 3, 4, 5] [0, 1, 2, 3, 4, 5]
          [7] () = Inr s \<and>
        test_preds s = fold_sum2 2
          (\<lambda>k. predict_proba toy_sklearn
             (fit toy_sklearn (clone toy_sklearn ()) (rows [0, 1, 2, 3, 4, 5] (fst (toy_folds ! k)))
                (rows [0, 1, 2, 3, 4, 5] (fst (toy_folds ! k))))
             [7]) 1 6)"
proof -
  have K: "length toy_folds = 2" by (simp add: toy_folds_def)
  have l: "length [0, 1, 2, 3, 4, 5 :: nat] = 6" by simp
  have r: "\<forall>m X. length (predict_proba toy_sklearn m (X :: nat list)) = length X"
    by (simp add: toy_sklearn_def)
  have h1: "\<forall>m X. \<forall>r \<in> set (predict_proba toy_sklearn m (X :: nat list)). 1 < length r"
    by (simp add: toy_sklearn_def)
  have h2: "(\<forall>m X. \<forall>r \<in> set (predict_proba toy_sklearn m (X :: nat list)).
               length r = length (remdups [0, 1, 2, 3, 4, 5 :: nat])) \<and>
     [0, 1, 2, 3, 4, 5 :: nat] \<noteq> [] \<and> length [1, 1, 1, 1, 1, 1 :: real] = 6"
    by (simp add: toy_sklearn_def)
  have h3: "(\<forall>m X. length (predict_proba toy_sklearn m (X :: nat list)) = length X) \<and>
      (\<forall>m X. \<forall>r \<in> set (predict_proba toy_sklearn m (X :: nat list)). 1 < length r) \<and> 0 < (2::nat) \<and>
      (\<forall>k<2.
         apply_preprocessing None (rows [0, 1, 2, 3, 4, 5 :: nat] (fst (toy_folds ! k)))
           (rows [0, 1, 2, 3, 4, 5] (snd (toy_folds ! k))) [7] (rows [0, 1, 2, 3, 4, 5 :: nat] (fst (toy_folds ! k)))
         = Inr (rows [0, 1, 2, 3, 4, 5] (fst (toy_folds ! k)),
                rows [0, 1, 2, 3, 4, 5] (snd (toy_folds ! k)), [7]) \<and>
         length [7 :: nat] = length [7 :: nat])"
    by (simp add: toy_sklearn_def apply_preprocessing_def)
  have h4: "(\<forall>m X. length (predict toy_sklearn m (X :: nat list)) = length X) \<and>
     (\<forall>m X. \<forall>r \<in> set (predict_proba toy_sklearn m (X :: nat list)). length r = 6) \<and>
     apply_processing None [0, 1, 2, 3, 4, 5 :: nat] = Inr [0, 1, 2, 3, 4, 5] \<and>
     apply_processing None [7 :: nat] = Inr [7] \<and> length [0, 1, 2, 3, 4, 5 :: nat] = 6"
    by (simp add: toy_sklearn_def apply_processing_def)
  note t = test_predictions_fold_average[OF toy_kfold K l l r,
      where e = "()" and test_X = "[7]" and LearningWithNoisyLabels = "\<lambda>e. e"
        and processing = None and X_temp = "[0, 1, 2, 3, 4, 5]" and X_test = "[7]"
        and test_y = "[1]" and sample_weight = "[1, 1, 1, 1, 1, 1]"
        and lgbm_fit = toy_lgbm_fit and lgbm_predict_proba = "predict_proba toy_sklearn"
        and lgbm_roc_auc = "roc_auc_score toy_sklearn" and preprocessing = None
        and holdout_X = "[7]" and holdout_y = "[1]"
        and Xtr = "\<lambda>k. rows [0, 1, 2, 3, 4, 5] (fst (toy_folds ! k))"
        and Xva = "\<lambda>k. rows [0, 1, 2, 3, 4, 5] (snd (toy_folds ! k))"
        and Xte = "\<lambda>k. [7]"]
  have a: "length [7::nat] = 1" by simp
  from t h1 have c1: "\<exists>s. train_model toy_sklearn 2 toy_folds [0, 1, 2, 3, 4, 5] [0, 1, 2, 3, 4, 5] [7] () = Inr s \<and>
        test_preds s = fold_mean 2
          (\<lambda>k. map (\<lambda>r. r ! 1) (predict_proba toy_sklearn
             (fit toy_sklearn (clone toy_sklearn ()) (rows [0, 1, 2, 3, 4, 5] (fst (toy_folds ! k)))
                (rows [0, 1, 2, 3, 4, 5] (fst (toy_folds ! k))))
             [7])) 1"
    unfolding a by blast
  from t h2 have c2: "\<exists>oof proba.
        score_model toy_sklearn 2 toy_folds [0, 1, 2, 3, 4, 5] [0, 1, 2, 3, 4, 5]
          [1, 1, 1, 1, 1, 1] [7] () = Inr (oof, proba) \<and>
        proba = fold_mean2 2
          (\<lambda>k. predict_proba toy_sklearn
             (fit_weighted toy_sklearn (clone toy_sklearn ())
                (rows [0, 1, 2, 3, 4, 5] (fst (toy_folds ! k)))
                (rows [0, 1, 2, 3, 4, 5] (fst (toy_folds ! k)))
                (rows [1, 1, 1, 1, 1, 1] (fst (toy_folds ! k))))
             [7]) 1 (length (remdups [0, 1, 2, 3, 4, 5 :: nat]))"
    unfolding a by blast
  have b: "length (remdups [0, 1, 2, 3, 4, 5 :: nat]) = 6" by simp
  from t h3 have c3: "\<exists>s m. score_lightgbm_loop toy_lgbm_fit (predict_proba toy_sklearn) 2 toy_folds None
             [0, 1, 2, 3, 4, 5] [0, 1, 2, 3, 4, 5] [7] = Inr s \<and>
        holdout_preds s = fold_mean 2
          (\<lambda>k. map (\<lambda>r. r ! 1) (predict_proba toy_sklearn
             (toy_lgbm_fit (rows [0, 1, 2, 3, 4, 5] (fst (toy_folds ! k)))
                (rows [0, 1, 2, 3, 4, 5] (fst (toy_folds ! k)))
                (rows [0, 1, 2, 3, 4, 5] (snd (toy_folds ! k)))
                (rows [0, 1, 2, 3, 4, 5] (snd (toy_folds ! k))))
             [7])) 1 \<and>
        score_lightgbm toy_lgbm_fit (predict_proba toy_sklearn) (roc_auc_score toy_sklearn) 2
            toy_folds None [0, 1, 2, 3, 4, 5] [0, 1, 2, 3, 4, 5] [7] [1]
          = Inr (roc_auc_score toy_sklearn [1] (holdout_preds s), m)"
    unfolding a by blast
  from t h4 have c4: "\<exists>s. score_features_loop toy_sklearn 2 toy_folds None [0, 1, 2, 3, 4, 5] [0, 1, 2, 3, 4, 5]
          [7] () = Inr s \<and>
        test_preds s = fold_sum2 2
          (\<lambda>k. predict_proba toy_sklearn
             (fit toy_sklearn (clone toy_sklearn ()) (rows [0, 1, 2, 3, 4, 5] (fst (toy_folds ! k)))
                (rows [0, 1, 2, 3, 4, 5] (fst (toy_folds ! k))))
             [7]) 1 6"
    unfolding a by blast
  from c1 c2[unfolded b] c3 c4 show ?thesis by blast
qed

section \<open>Feature engineering\<close>

text \<open>
  The feature functions take a DataFrame, copy it and assign derived columns to the copy.
\<close>

text \<open>
  A column has a dtype and its cells. \<open>dtype_name\<close> is \<open>dtype.name\<close>, and
  \<open>startswith s p\<close> is Python's \<open>s.startswith(p)\<close>.
\<close>

datatype dtype =
  Int8 | Int16 | Int32 | Int64 | UInt8 | UInt16 | UInt32 | UInt64
  | Float16 | Float32 | Float64 | Bool | Object

fun dtype_name :: "dtype \<Rightarrow> string" where
  "dtype_name Int8 = ''int8''"
| "dtype_name Int16 = ''int16''"
| "dtype_name Int32 = ''int32''"
| "dtype_name Int64 = ''int64''"
| "dtype_name UInt8 = ''uint8''"
| "dtype_name UInt16 = ''uint16''"
| "dtype_name UInt32 = ''uint32''"
| "dtype_name UInt64 = ''uint64''"
| "dtype_name Float16 = ''float16''"
| "dtype_name Float32 = ''float32''"
| "dtype_name Float64 = ''float64''"
| "dtype_name Bool = ''bool''"
| "dtype_name Object = ''object''"

definition startswith :: "string \<Rightarrow> string \<Rightarrow> bool" where
  "startswith s p \<longleftrightarrow> take (length p) s = p"

text \<open>
  Numbers are idealised to the reals: floating-point arithmetic does not round, and
  element-wise integer arithmetic does not overflow. Row sums of integer columns do wrap
  around (\<open>sum_axis1\<close> below). A cell is a number or missing (NaN, \<open>None\<close>).
\<close>

type_synonym cell = "real option"

record series =
  dtype :: dtype
  vals :: "cell list"

text \<open>
  What numpy decides and the repository does not: the dtype of a result, from the name of
  the function and the kinds of its operands (an array, a numpy scalar, a Python int or
  float), and the value a cast gives a cell. Both are parameters of every function below.
\<close>

datatype operand = Arr dtype | Scalar dtype | PyInt | PyFloat

record numpy =
  result_type :: "string \<Rightarrow> operand list \<Rightarrow> dtype"
  cast :: "dtype \<Rightarrow> dtype \<Rightarrow> real \<Rightarrow> real"

text \<open>
  Element-wise functions; a missing operand gives a missing result.
\<close>

definition unary :: "numpy \<Rightarrow> string \<Rightarrow> operand list \<Rightarrow> (real \<Rightarrow> cell) \<Rightarrow> series \<Rightarrow> series" where
  "unary np ufunc scalars f a =
     \<lparr>dtype = result_type np ufunc (Arr (dtype a) # scalars),
      vals = map (\<lambda>c. Option.bind c f) (vals a)\<rparr>"

definition binary :: "numpy \<Rightarrow> string \<Rightarrow> (real \<Rightarrow> real \<Rightarrow> cell) \<Rightarrow> series \<Rightarrow> series \<Rightarrow> series" where
  "binary np ufunc f a b =
     \<lparr>dtype = result_type np ufunc [Arr (dtype a), Arr (dtype b)],
      vals = map2 (\<lambda>x y. Option.bind x (\<lambda>u. Option.bind y (f u))) (vals a) (vals b)\<rparr>"

definition s_mod :: "numpy \<Rightarrow> series \<Rightarrow> real \<Rightarrow> series" where
  "s_mod np a k = unary np ''remainder'' [PyInt] (\<lambda>x. Some (x - k * of_int \<lfloor>x / k\<rfloor>)) a"

definition s_add_int :: "numpy \<Rightarrow> series \<Rightarrow> real \<Rightarrow> series" where
  "s_add_int np a k = unary np ''add'' [PyInt] (\<lambda>x. Some (x + k)) a"

definition s_sub_int :: "numpy \<Rightarrow> series \<Rightarrow> real \<Rightarrow> series" where
  "s_sub_int np a k = unary np ''subtract'' [PyInt] (\<lambda>x. Some (x - k)) a"

definition s_div_int :: "numpy \<Rightarrow> series \<Rightarrow> real \<Rightarrow> series" where
  "s_div_int np a k = unary np ''true_divide'' [PyInt] (\<lambda>x. Some (x / k)) a"

definition s_pow_int :: "numpy \<Rightarrow> series \<Rightarrow> nat \<Rightarrow> series" where
  "s_pow_int np a k = unary np ''power'' [PyInt] (\<lambda>x. Some (x ^ k)) a"

definition s_add_float :: "numpy \<Rightarrow> series \<Rightarrow> real \<Rightarrow> series" where
  "s_add_float np a k = unary np ''add'' [PyFloat] (\<lambda>x. Some (x + k)) a"

definition s_mul_float :: "numpy \<Rightarrow> series \<Rightarrow> real \<Rightarrow> series" where
  "s_mul_float np a k = unary np ''multiply'' [PyFloat] (\<lambda>x. Some (x * k)) a"

definition s_sqrt :: "numpy \<Rightarrow> series \<Rightarrow> series" where
  "s_sqrt np a = unary np ''sqrt'' [] (\<lambda>x. if x < 0 then None else Some (sqrt x)) a"

definition s_pow_half :: "numpy \<Rightarrow> series \<Rightarrow> series" where
  "s_pow_half np a = unary np ''power'' [PyFloat] (\<lambda>x. if x < 0 then None else Some (sqrt x)) a"

definition s_sin :: "numpy \<Rightarrow> series \<Rightarrow> series" where
  "s_sin np a = unary np ''sin'' [] (\<lambda>x. Some (sin x)) a"

definition s_sign :: "numpy \<Rightarrow> series \<Rightarrow> series" where
  "s_sign np a = unary np ''sign'' [] (\<lambda>x. Some (sgn x)) a"

definition s_abs :: "numpy \<Rightarrow> series \<Rightarrow> series" where
  "s_abs np a = unary np ''absolute'' [] (\<lambda>x. Some \<bar>x\<bar>) a"

definition s_clip :: "numpy \<Rightarrow> series \<Rightarrow> real \<Rightarrow> real \<Rightarrow> series" where
  "s_clip np a lower upper =
     unary np ''clip'' [PyInt, PyInt] (\<lambda>x. Some (min (max x lower) upper)) a"

definition s_add :: "numpy \<Rightarrow> series \<Rightarrow> series \<Rightarrow> series" where
  "s_add np a b = binary np ''add'' (\<lambda>x y. Some (x + y)) a b"

definition s_sub :: "numpy \<Rightarrow> series \<Rightarrow> series \<Rightarrow> series" where
  "s_sub np a b = binary np ''subtract'' (\<lambda>x y. Some (x - y)) a b"

definition s_mul :: "numpy \<Rightarrow> series \<Rightarrow> series \<Rightarrow> series" where
  "s_mul np a b = binary np ''multiply'' (\<lambda>x y. Some (x * y)) a b"

text \<open>
  \<open>a > k\<close> is a Boolean mask (false at a missing cell), and \<open>a.where(cond, other)\<close> keeps
  \<open>a\<close> where the mask holds and takes \<open>other\<close> elsewhere.
\<close>

definition s_gt_int :: "series \<Rightarrow> real \<Rightarrow> bool list" where
  "s_gt_int a k = map (\<lambda>c. case c of None \<Rightarrow> False | Some x \<Rightarrow> k < x) (vals a)"

definition s_where :: "numpy \<Rightarrow> series \<Rightarrow> bool list \<Rightarrow> series \<Rightarrow> series" where
  "s_where np a cond other =
     \<lparr>dtype = result_type np ''where'' [Arr (dtype a), Arr (dtype other)],
      vals = map (\<lambda>(x, c, y). if c then x else y) (zip (vals a) (zip cond (vals other)))\<rparr>"

text \<open>
  \<open>a.astype(d)\<close>: a column that has the dtype already is returned with its values as
  they are.
\<close>

definition astype :: "numpy \<Rightarrow> dtype \<Rightarrow> series \<Rightarrow> series" where
  "astype np d a =
     (if dtype a = d then a
      else \<lparr>dtype = d, vals = map (map_option (cast np (dtype a) d)) (vals a)\<rparr>)"

text \<open>
  The cells of a list that are not missing; \<open>series.min()\<close> skips the missing ones.
\<close>

definition present :: "cell list \<Rightarrow> real list" where
  "present cs = List.map_filter (\<lambda>c. c) cs"

definition s_min :: "series \<Rightarrow> cell" where
  "s_min a = (case present (vals a) of [] \<Rightarrow> None | x # xs \<Rightarrow> Some (fold min xs x))"

text \<open>
  \<^verbatim>\<open>
  def start_at_eps(series, eps=1e-10):
      return series - series.min() + eps
  \<close>
\<close>

definition start_at_eps :: "numpy \<Rightarrow> series \<Rightarrow> series" where
  "start_at_eps np series =
     (let eps = 1 / 10 ^ 10;
          m = s_min series
      in s_add_float np
           (unary np ''subtract'' [Scalar (dtype series)] (\<lambda>x. map_option (\<lambda>m. x - m) m) series)
           eps)"

text \<open>
  Row-wise reductions over the selected columns of a frame with \<open>n\<close> rows.
  \<open>sum\<close>, \<open>min\<close>, \<open>max\<close>, \<open>mean\<close> and \<open>median\<close> with \<open>axis=1\<close> skip missing cells, the
  sum of no cells is 0 and the others are then missing; Python's \<open>sum\<close> applied to a row
  and numpy's \<open>ndarray.sum\<close> do not skip them.
\<close>

definition row :: "series list \<Rightarrow> nat \<Rightarrow> cell list" where
  "row cols i = map (\<lambda>c. vals c ! i) cols"

definition rowwise :: "numpy \<Rightarrow> string \<Rightarrow> (cell list \<Rightarrow> cell) \<Rightarrow> nat \<Rightarrow> series list \<Rightarrow> series" where
  "rowwise np func f n cols =
     \<lparr>dtype = result_type np func (map (\<lambda>c. Arr (dtype c)) cols),
      vals = map (\<lambda>i. f (row cols i)) [0..<n]\<rparr>"

text \<open>
  An integer dtype holds the integers from its lowest value upwards, as many as its width
  allows; \<open>int_range\<close> gives the lowest value and their number. A sum computed in an
  integer dtype wraps around: \<open>wrap d x\<close> is the value of dtype \<open>d\<close> that differs from
  \<open>x\<close> by a multiple of that number. \<open>DataFrame.sum(axis=1)\<close> adds the cells of a row
  in the dtype of its result.
\<close>

fun int_range :: "dtype \<Rightarrow> (int \<times> int) option" where
  "int_range Int8 = Some (- (2 ^ 7), 2 ^ 8)"
| "int_range Int16 = Some (- (2 ^ 15), 2 ^ 16)"
| "int_range Int32 = Some (- (2 ^ 31), 2 ^ 32)"
| "int_range Int64 = Some (- (2 ^ 63), 2 ^ 64)"
| "int_range UInt8 = Some (0, 2 ^ 8)"
| "int_range UInt16 = Some (0, 2 ^ 16)"
| "int_range UInt32 = Some (0, 2 ^ 32)"
| "int_range UInt64 = Some (0, 2 ^ 64)"
| "int_range Float16 = None"
| "int_range Float32 = None"
| "int_range Float64 = None"
| "int_range Bool = None"
| "int_range Object = None"

definition wrap :: "dtype \<Rightarrow> real \<Rightarrow> real" where
  "wrap d x =
     (case int_range d of
        None \<Rightarrow> x
      | Some (lowest, number) \<Rightarrow> of_int ((\<lfloor>x\<rfloor> - lowest) mod number + lowest))"

definition sum_axis1 :: "numpy \<Rightarrow> nat \<Rightarrow> series list \<Rightarrow> series" where
  "sum_axis1 np n cols =
     rowwise np ''sum''
       (\<lambda>cs. Some (wrap (result_type np ''sum'' (map (\<lambda>c. Arr (dtype c)) cols))
                    (sum_list (present cs))))
       n cols"

definition max_axis1 :: "numpy \<Rightarrow> nat \<Rightarrow> series list \<Rightarrow> series" where
  "max_axis1 np n cols =
     rowwise np ''max''
       (\<lambda>cs. case present cs of [] \<Rightarrow> None | x # xs \<Rightarrow> Some (fold max xs x)) n cols"

definition min_axis1 :: "numpy \<Rightarrow> nat \<Rightarrow> series list \<Rightarrow> series" where
  "min_axis1 np n cols =
     rowwise np ''min''
       (\<lambda>cs. case present cs of [] \<Rightarrow> None | x # xs \<Rightarrow> Some (fold min xs x)) n cols"

definition apply_sum_axis1 :: "numpy \<Rightarrow> nat \<Rightarrow> series list \<Rightarrow> series" where
  "apply_sum_axis1 np n cols =
     rowwise np ''builtins.sum'' (\<lambda>cs. map_option sum_list (those cs)) n cols"

text \<open>
  The number of rows, and \<open>df[names]\<close> for a list of names.
\<close>

definition nrows :: "series frame \<Rightarrow> nat" where
  "nrows df = (case df of [] \<Rightarrow> 0 | (name, c) # rest \<Rightarrow> length (vals c))"

definition select :: "series frame \<Rightarrow> string list \<Rightarrow> error + series list" where
  "select df names = sequenceE (map (getitem df) names)"

text \<open>
  DataFrames are mutable objects: a program state is the list of the frames allocated so
  far, and a variable holds a position in it. A program returns a value or an exception,
  and the new state.
\<close>

type_synonym ref = nat
type_synonym heap = "series frame list"
type_synonym 'a prog = "heap \<Rightarrow> (error + 'a) \<times> heap"

definition ret :: "'a \<Rightarrow> 'a prog" where
  "ret x h = (Inr x, h)"

definition bnd :: "'a prog \<Rightarrow> ('a \<Rightarrow> 'b prog) \<Rightarrow> 'b prog" where
  "bnd m f h = (case m h of (Inl e, h') \<Rightarrow> (Inl e, h') | (Inr x, h') \<Rightarrow> f x h')"

fun seq :: "unit prog list \<Rightarrow> unit prog" where
  "seq [] = ret ()"
| "seq (s # ss) = bnd s (\<lambda>u. seq ss)"

text \<open>
  \<open>data.copy()\<close> allocates a new frame with the same columns; \<open>eval\<close> evaluates an
  expression; \<open>assign r name e\<close> is the statement \<open>r[name] = e\<close>, which replaces the
  column of that name or appends a new one.
\<close>

definition copy :: "ref \<Rightarrow> ref prog" where
  "copy r h = (Inr (length h), h @ [h ! r])"

definition eval :: "(heap \<Rightarrow> error + 'a) \<Rightarrow> 'a prog" where
  "eval e h = (e h, h)"

definition assign :: "ref \<Rightarrow> string \<Rightarrow> (heap \<Rightarrow> error + series) \<Rightarrow> unit prog" where
  "assign r name e h =
     (case e h of
        Inl err \<Rightarrow> (Inl err, h)
      | Inr s \<Rightarrow> (Inr (), h[r := AList.update name s (h ! r)]))"

text \<open>
  Expressions: \<open>r[name]\<close>, \<open>r[names]\<close>, and a function applied to one, two or three
  expressions, evaluated from left to right.
\<close>

definition item :: "ref \<Rightarrow> string \<Rightarrow> heap \<Rightarrow> error + series" where
  "item r name h = getitem (h ! r) name"

definition items :: "ref \<Rightarrow> string list \<Rightarrow> heap \<Rightarrow> error + series list" where
  "items r names h = select (h ! r) names"

definition e1 :: "('a \<Rightarrow> 'b) \<Rightarrow> (heap \<Rightarrow> error + 'a) \<Rightarrow> heap \<Rightarrow> error + 'b" where
  "e1 f a h = bindE (a h) (\<lambda>x. Inr (f x))"

definition e2 :: "('a \<Rightarrow> 'b \<Rightarrow> 'c) \<Rightarrow> (heap \<Rightarrow> error + 'a) \<Rightarrow> (heap \<Rightarrow> error + 'b) \<Rightarrow> heap \<Rightarrow> error + 'c" where
  "e2 f a b h = bindE (a h) (\<lambda>x. bindE (b h) (\<lambda>y. Inr (f x y)))"

definition e3 ::
  "('a \<Rightarrow> 'b \<Rightarrow> 'c \<Rightarrow> 'd) \<Rightarrow> (heap \<Rightarrow> error + 'a) \<Rightarrow> (heap \<Rightarrow> error + 'b) \<Rightarrow> (heap \<Rightarrow> error + 'c) \<Rightarrow>
     heap \<Rightarrow> error + 'd" where
  "e3 f a b c h = bindE (a h) (\<lambda>x. bindE (b h) (\<lambda>y. bindE (c h) (\<lambda>z. Inr (f x y z))))"

text \<open>
  The feature-engineering functions of the December 2021 notebooks.
  \<^verbatim>\<open>
  def aspect_features(data):
      df = data.copy()
      df['Aspect_360'] = df['Aspect'] % 360
      df['Aspect_Sine'] = (df['Aspect']* np.pi / 180).apply(np.sin)
      df['Aspect_Alt'] = (df['Aspect']-180).where(
          df['Aspect']+180 > 360, df['Aspect'] + 180
      )
      return df
  \<close>
\<close>

definition aspect_features :: "numpy \<Rightarrow> ref \<Rightarrow> ref prog" where
  "aspect_features np data =
     bnd (copy data) (\<lambda>df.
     bnd (seq
       [assign df ''Aspect_360'' (e1 (\<lambda>a. s_mod np a 360) (item df ''Aspect'')),
        assign df ''Aspect_Sine''
          (e1 (\<lambda>a. s_sin np (s_div_int np (s_mul_float np a pi) 180)) (item df ''Aspect'')),
        assign df ''Aspect_Alt''
          (e3 (\<lambda>a b c. s_where np (s_sub_int np a 180) (s_gt_int (s_add_int np b 180) 360)
                         (s_add_int np c 180))
             (item df ''Aspect'') (item df ''Aspect'') (item df ''Aspect''))])
       (\<lambda>u. ret df))"

text \<open>
  \<^verbatim>\<open>
  def hillshade_features(data):
      df = data.copy()
      shade_features = ['Hillshade_9am', 'Hillshade_Noon', 'Hillshade_3pm']
      df["Hillshade_9am_Clipped"] = df["Hillshade_9am"].clip(lower=0, upper=255)
      df["Hillshade_Noon_Clipped"] = df["Hillshade_9am"].clip(lower=0, upper=255)
      df["Hillshade_3pm_Clipped"] = df["Hillshade_9am"].clip(lower=0, upper=255)
      df["Hillshade_Sum"] = df[shade_features].sum(axis=1)
      df['Hillshade_Range'] = df[shade_features].max(axis=1) - df[shade_features].min(axis=1)
      return df
  \<close>
\<close>

definition hillshade_features :: "numpy \<Rightarrow> ref \<Rightarrow> ref prog" where
  "hillshade_features np data =
     bnd (copy data) (\<lambda>df.
       let shade_features = [''Hillshade_9am'', ''Hillshade_Noon'', ''Hillshade_3pm'']
       in
     bnd (seq
       [assign df ''Hillshade_9am_Clipped'' (e1 (\<lambda>a. s_clip np a 0 255) (item df ''Hillshade_9am'')),
        assign df ''Hillshade_Noon_Clipped'' (e1 (\<lambda>a. s_clip np a 0 255) (item df ''Hillshade_9am'')),
        assign df ''Hillshade_3pm_Clipped'' (e1 (\<lambda>a. s_clip np a 0 255) (item df ''Hillshade_9am'')),
        assign df ''Hillshade_Sum''
          (\<lambda>h. e1 (sum_axis1 np (nrows (h ! df))) (items df shade_features) h),
        assign df ''Hillshade_Range''
          (\<lambda>h. e2 (\<lambda>a b. s_sub np (max_axis1 np (nrows (h ! df)) a) (min_axis1 np (nrows (h ! df)) b))
                 (items df shade_features) (items df shade_features) h)])
       (\<lambda>u. ret df))"

text \<open>
  \<open>water_features\<close> computes its columns (\<open>water_features_compute\<close>) and then stores
  eight of them as float32 (\<open>water_features_store\<close>).
  \<^verbatim>\<open>
  def water_features(data):
      df = data.copy()
      # use float64 for squaring
      df["Horizontal_Distance_To_Hydrology"] = df["Horizontal_Distance_To_Hydrology"].astype('float64')
      df["Vertical_Distance_To_Hydrology"] = df["Vertical_Distance_To_Hydrology"].astype('float64')
      pos_h_hydrology = start_at_eps(df["Horizontal_Distance_To_Hydrology"])
      pos_v_hydrology = start_at_eps(df['Vertical_Distance_To_Hydrology'])
      # Manhatten Distances
      df["Hydro_Taxicab"] = np.abs(df["Horizontal_Distance_To_Hydrology"]) + np.abs(df["Vertical_Distance_To_Hydrology"])
      df['Hydro_Taxicab_Pos'] = (pos_h_hydrology ** 2 + pos_v_hydrology ** 2).apply(np.sqrt).rename('Euclidean_positive_hydrology').astype(np.float32)
      # Euclidean Distance
      df["Hydro_Euclid"] = (df["Horizontal_Distance_To_Hydrology"]**2 + np.abs(df["Vertical_Distance_To_Hydrology"])**2)**0.5
      df['Hydro_Euclid_Pos'] = (pos_h_hydrology ** 2 + pos_v_hydrology ** 2).apply(np.sqrt)
      # Misc Features
      df['Water_Direction'] = df['Vertical_Distance_To_Hydrology'].apply(np.sign)
      df['Water Elevation'] = df['Elevation'] - df['Vertical_Distance_To_Hydrology']
      # Store each as float32
      df["Horizontal_Distance_To_Hydrology"] = df["Horizontal_Distance_To_Hydrology"].astype('float32')
      ... (the same for the other seven columns)
      return df
  \<close>
  A Series has no name in this model, so \<open>rename\<close> does nothing.
\<close>

definition water_features_compute :: "numpy \<Rightarrow> ref \<Rightarrow> unit prog" where
  "water_features_compute np df =
     bnd (seq
       [assign df ''Horizontal_Distance_To_Hydrology''
          (e1 (astype np Float64) (item df ''Horizontal_Distance_To_Hydrology'')),
        assign df ''Vertical_Distance_To_Hydrology''
          (e1 (astype np Float64) (item df ''Vertical_Distance_To_Hydrology''))]) (\<lambda>u.
     bnd (eval (e1 (start_at_eps np) (item df ''Horizontal_Distance_To_Hydrology'')))
       (\<lambda>pos_h_hydrology.
     bnd (eval (e1 (start_at_eps np) (item df ''Vertical_Distance_To_Hydrology'')))
       (\<lambda>pos_v_hydrology.
     seq
       [assign df ''Hydro_Taxicab''
          (e2 (\<lambda>a b. s_add np (s_abs np a) (s_abs np b))
             (item df ''Horizontal_Distance_To_Hydrology'')
             (item df ''Vertical_Distance_To_Hydrology'')),
        assign df ''Hydro_Taxicab_Pos''
          (\<lambda>h. Inr (astype np Float32
             (s_sqrt np (s_add np (s_pow_int np pos_h_hydrology 2)
                                  (s_pow_int np pos_v_hydrology 2))))),
        assign df ''Hydro_Euclid''
          (e2 (\<lambda>a b. s_pow_half np (s_add np (s_pow_int np a 2) (s_pow_int np (s_abs np b) 2)))
             (item df ''Horizontal_Distance_To_Hydrology'')
             (item df ''Vertical_Distance_To_Hydrology'')),
        assign df ''Hydro_Euclid_Pos''
          (\<lambda>h. Inr (s_sqrt np (s_add np (s_pow_int np pos_h_hydrology 2)
                                        (s_pow_int np pos_v_hydrology 2)))),
        assign df ''Water_Direction''
          (e1 (s_sign np) (item df ''Vertical_Distance_To_Hydrology'')),
        assign df ''Water Elevation''
          (e2 (s_sub np) (item df ''Elevation'') (item df ''Vertical_Distance_To_Hydrology''))])))"

definition water_features_store :: "numpy \<Rightarrow> ref \<Rightarrow> unit prog" where
  "water_features_store np df =
     seq (map (\<lambda>name. assign df name (e1 (astype np Float32) (item df name)))
       [''Horizontal_Distance_To_Hydrology'', ''Vertical_Distance_To_Hydrology'',
        ''Hydro_Taxicab'', ''Hydro_Taxicab_Pos'', ''Hydro_Euclid'', ''Hydro_Euclid_Pos'',
        ''Water_Direction'', ''Water Elevation''])"

definition water_features :: "numpy \<Rightarrow> ref \<Rightarrow> ref prog" where
  "water_features np data =
     bnd (copy data) (\<lambda>df.
     bnd (water_features_compute np df) (\<lambda>u.
     bnd (water_features_store np df) (\<lambda>u. ret df)))"

text \<open>
  \<^verbatim>\<open>
  def count_features(data):
      df = data.copy()
      soil_features = [x for x in df.columns if x.startswith("Soil_Type")]
      wilderness_features = [x for x in df.columns if x.startswith("Wilderness_Area")]
      df["Soil_Count"] = df[soil_features].apply(sum, axis=1)
      df["Wilderness_Count"] = df[wilderness_features].apply(sum, axis=1)
      return df
  \<close>
\<close>

definition count_features :: "numpy \<Rightarrow> ref \<Rightarrow> ref prog" where
  "count_features np data =
     bnd (copy data) (\<lambda>df.
     bnd (eval (\<lambda>h. Inr [x \<leftarrow> columns (h ! df). startswith x ''Soil_Type'']))
       (\<lambda>soil_features.
     bnd (eval (\<lambda>h. Inr [x \<leftarrow> columns (h ! df). startswith x ''Wilderness_Area'']))
       (\<lambda>wilderness_features.
     bnd (seq
       [assign df ''Soil_Count''
          (\<lambda>h. e1 (apply_sum_axis1 np (nrows (h ! df))) (items df soil_features) h),
        assign df ''Wilderness_Count''
          (\<lambda>h. e1 (apply_sum_axis1 np (nrows (h ! df))) (items df wilderness_features) h)])
       (\<lambda>u. ret df))))"

text \<open>
  \<^verbatim>\<open>
  def hydrofire_interactions(data):
      df = data.copy()
      df['Hydro_Fire_Sum'] = df['Horizontal_Distance_To_Hydrology'] + df['Horizontal_Distance_To_Fire_Points']
      df['Hydro_Fire_AbsDiff'] = abs(df['Horizontal_Distance_To_Hydrology'] - df['Horizontal_Distance_To_Fire_Points'])
      df['Hydro_Fire_EpsSum'] = start_at_eps(df['Horizontal_Distance_To_Hydrology']) + start_at_eps(df['Horizontal_Distance_To_Fire_Points'])
      df['Hydro_Fire_Diff'] = df['Horizontal_Distance_To_Hydrology'] - df['Horizontal_Distance_To_Fire_Points']
      return df
  \<close>
\<close>

definition hydrofire_interactions :: "numpy \<Rightarrow> ref \<Rightarrow> ref prog" where
  "hydrofire_interactions np data =
     bnd (copy data) (\<lambda>df.
     bnd (seq
       [assign df ''Hydro_Fire_Sum''
          (e2 (s_add np) (item df ''Horizontal_Distance_To_Hydrology'')
             (item df ''Horizontal_Distance_To_Fire_Points'')),
        assign df ''Hydro_Fire_AbsDiff''
          (e2 (\<lambda>a b. s_abs np (s_sub np a b)) (item df ''Horizontal_Distance_To_Hydrology'')
             (item df ''Horizontal_Distance_To_Fire_Points'')),
        assign df ''Hydro_Fire_EpsSum''
          (e2 (\<lambda>a b. s_add np (start_at_eps np a) (start_at_eps np b))
             (item df ''Horizontal_Distance_To_Hydrology'')
             (item df ''Horizontal_Distance_To_Fire_Points'')),
        assign df ''Hydro_Fire_Diff''
          (e2 (s_sub np) (item df ''Horizontal_Distance_To_Hydrology'')
             (item df ''Horizontal_Distance_To_Fire_Points''))])
       (\<lambda>u. ret df))"

text \<open>
  \<^verbatim>\<open>
  def roadway_interactions(data):
      df = data.copy()
      df['Hydro_Road_1'] = abs(df['Horizontal_Distance_To_Hydrology'] + df['Horizontal_Distance_To_Roadways'])
      df['Hydro_Road_2'] = abs(df['Horizontal_Distance_To_Hydrology'] - df['Horizontal_Distance_To_Roadways'])
      df['Fire_Road_1'] = abs(df['Horizontal_Distance_To_Fire_Points'] + df['Horizontal_Distance_To_Roadways'])
      df['Fire_Road_2'] = abs(df['Horizontal_Distance_To_Fire_Points'] - df['Horizontal_Distance_To_Roadways'])
      return df
  \<close>
\<close>

definition roadway_interactions :: "numpy \<Rightarrow> ref \<Rightarrow> ref prog" where
  "roadway_interactions np data =
     bnd (copy data) (\<lambda>df.
     bnd (seq
       [assign df ''Hydro_Road_1''
          (e2 (\<lambda>a b. s_abs np (s_add np a b)) (item df ''Horizontal_Distance_To_Hydrology'')
             (item df ''Horizontal_Distance_To_Roadways'')),
        assign df ''Hydro_Road_2''
          (e2 (\<lambda>a b. s_abs np (s_sub np a b)) (item df ''Horizontal_Distance_To_Hydrology'')
             (item df ''Horizontal_Distance_To_Roadways'')),
        assign df ''Fire_Road_1''
          (e2 (\<lambda>a b. s_abs np (s_add np a b)) (item df ''Horizontal_Distance_To_Fire_Points'')
             (item df ''Horizontal_Distance_To_Roadways'')),
        assign df ''Fire_Road_2''
          (e2 (\<lambda>a b. s_abs np (s_sub np a b)) (item df ''Horizontal_Distance_To_Fire_Points'')
             (item df ''Horizontal_Distance_To_Roadways''))])
       (\<lambda>u. ret df))"

text \<open>
  \<open>df.Elevation\<close> is attribute access: a missing column is an AttributeError.
  \<^verbatim>\<open>
  def elevation_interactions(data):
      df = data.copy()
      df['Road_Elev_Int'] = df['Horizontal_Distance_To_Roadways'] * df['Elevation']
      df['VHydro_Elev_Int'] = df['Vertical_Distance_To_Hydrology'] * df['Elevation']
      df['Elev_VHydro_Diff'] = df.Elevation - df.Vertical_Distance_To_Hydrology
      df['Elev_HHydro_Diff'] = df.Elevation - df.Horizontal_Distance_To_Hydrology * 0.2
      return df
  \<close>
\<close>

definition attr :: "ref \<Rightarrow> string \<Rightarrow> heap \<Rightarrow> error + series" where
  "attr r name h =
     (case map_of (h ! r) name of None \<Rightarrow> Inl (AttributeError name) | Some c \<Rightarrow> Inr c)"

definition elevation_interactions :: "numpy \<Rightarrow> ref \<Rightarrow> ref prog" where
  "elevation_interactions np data =
     bnd (copy data) (\<lambda>df.
     bnd (seq
       [assign df ''Road_Elev_Int''
          (e2 (s_mul np) (item df ''Horizontal_Distance_To_Roadways'') (item df ''Elevation'')),
        assign df ''VHydro_Elev_Int''
          (e2 (s_mul np) (item df ''Vertical_Distance_To_Hydrology'') (item df ''Elevation'')),
        assign df ''Elev_VHydro_Diff''
          (e2 (s_sub np) (attr df ''Elevation'') (attr df ''Vertical_Distance_To_Hydrology'')),
        assign df ''Elev_HHydro_Diff''
          (e2 (\<lambda>a b. s_sub np a (s_mul_float np b (2 / 10)))
             (attr df ''Elevation'') (attr df ''Horizontal_Distance_To_Hydrology''))])
       (\<lambda>u. ret df))"

text \<open>
  The median of a non-empty list: the middle value of the sorted list, or the mean of the
  two middle values.
\<close>

definition median :: "real list \<Rightarrow> real" where
  "median xs =
     (let s = sort xs; n = length s
      in if even n then (s ! (n div 2 - 1) + s ! (n div 2)) / 2 else s ! (n div 2))"

definition mean_axis1 :: "numpy \<Rightarrow> nat \<Rightarrow> series list \<Rightarrow> series" where
  "mean_axis1 np n cols =
     rowwise np ''mean''
       (\<lambda>cs. case present cs of [] \<Rightarrow> None | x # xs \<Rightarrow> Some (sum_list (x # xs) / real (length (x # xs))))
       n cols"

definition median_axis1 :: "numpy \<Rightarrow> nat \<Rightarrow> series list \<Rightarrow> series" where
  "median_axis1 np n cols =
     rowwise np ''median''
       (\<lambda>cs. case present cs of [] \<Rightarrow> None | x # xs \<Rightarrow> Some (median (x # xs))) n cols"

definition ndarray_sum_axis1 :: "numpy \<Rightarrow> nat \<Rightarrow> series list \<Rightarrow> series" where
  "ndarray_sum_axis1 np n cols =
     rowwise np ''ndarray.sum'' (\<lambda>cs. map_option sum_list (those cs)) n cols"

text \<open>
  The statistics of pandas and scipy that no claim is about are parameters:
  \<open>std(axis=1)\<close>, \<open>skew(axis=1)\<close>, \<open>stats.median_abs_deviation(..., axis=1)\<close> and
  \<open>stats.zscore\<close>, each given the number of rows and the selected columns.
\<close>

record statistics =
  std_axis1 :: "nat \<Rightarrow> series list \<Rightarrow> series"
  skew_axis1 :: "nat \<Rightarrow> series list \<Rightarrow> series"
  median_abs_deviation :: "nat \<Rightarrow> series list \<Rightarrow> series"
  zscore :: "nat \<Rightarrow> series list \<Rightarrow> series list"

text \<open>
  The feature-engineering notebook of October 2021.
  \<^verbatim>\<open>
  def create_row_stats(data):
      cont_cols, cat_cols = list(), list()
      for col in data.columns:
          if data[col].dtype.name.startswith("int"):
              cat_cols.append(col)
          else:
              cont_cols.append(col)
      new_data = data.copy()
      new_data['binary_count'] = data[cat_cols].sum(axis=1)
      new_data['binary_std'] = data[cat_cols].std(axis=1)
      new_data['min'] = data[cont_cols].min(axis=1)
      new_data['std'] = data[cont_cols].std(axis=1)
      new_data['max'] = data[cont_cols].max(axis=1)
      new_data['median'] = data[cont_cols].median(axis=1)
      new_data['mean'] = data[cont_cols].mean(axis=1)
      new_data['skew'] = data[cont_cols].skew(axis=1)
      new_data['median_abs_dev'] = stats.median_abs_deviation(data[cont_cols], axis=1)
      new_data['zscore'] = (np.abs(stats.zscore(data[cont_cols]))).sum(axis=1)
      return new_data
  \<close>
  \<open>split_columns\<close> is the loop, \<open>row_stats_columns\<close> the ten assignments.
\<close>

fun split_columns ::
  "series frame \<Rightarrow> string list \<Rightarrow> string list \<times> string list \<Rightarrow> error + string list \<times> string list" where
  "split_columns data [] (cont_cols, cat_cols) = Inr (cont_cols, cat_cols)"
| "split_columns data (col # rest) (cont_cols, cat_cols) =
     bindE (getitem data col) (\<lambda>c.
       if startswith (dtype_name (dtype c)) ''int''
       then split_columns data rest (cont_cols, cat_cols @ [col])
       else split_columns data rest (cont_cols @ [col], cat_cols))"

definition row_stats_columns ::
  "numpy \<Rightarrow> statistics \<Rightarrow> ref \<Rightarrow> ref \<Rightarrow> string list \<Rightarrow> string list \<Rightarrow> unit prog" where
  "row_stats_columns np stats data new_data cont_cols cat_cols =
     seq
       [assign new_data ''binary_count''
          (\<lambda>h. e1 (sum_axis1 np (nrows (h ! data))) (items data cat_cols) h),
        assign new_data ''binary_std''
          (\<lambda>h. e1 (std_axis1 stats (nrows (h ! data))) (items data cat_cols) h),
        assign new_data ''min''
          (\<lambda>h. e1 (min_axis1 np (nrows (h ! data))) (items data cont_cols) h),
        assign new_data ''std''
          (\<lambda>h. e1 (std_axis1 stats (nrows (h ! data))) (items data cont_cols) h),
        assign new_data ''max''
          (\<lambda>h. e1 (max_axis1 np (nrows (h ! data))) (items data cont_cols) h),
        assign new_data ''median''
          (\<lambda>h. e1 (median_axis1 np (nrows (h ! data))) (items data cont_cols) h),
        assign new_data ''mean''
          (\<lambda>h. e1 (mean_axis1 np (nrows (h ! data))) (items data cont_cols) h),
        assign new_data ''skew''
          (\<lambda>h. e1 (skew_axis1 stats (nrows (h ! data))) (items data cont_cols) h),
        assign new_data ''median_abs_dev''
          (\<lambda>h. e1 (median_abs_deviation stats (nrows (h ! data))) (items data cont_cols) h),
        assign new_data ''zscore''
          (\<lambda>h. e1 (\<lambda>cs. ndarray_sum_axis1 np (nrows (h ! data))
                          (map (s_abs np) (zscore stats (nrows (h ! data)) cs)))
                 (items data cont_cols) h)]"

definition create_row_stats :: "numpy \<Rightarrow> statistics \<Rightarrow> ref \<Rightarrow> ref prog" where
  "create_row_stats np stats data =
     bnd (eval (\<lambda>h. split_columns (h ! data) (columns (h ! data)) ([], [])))
       (\<lambda>(cont_cols, cat_cols).
     bnd (copy data) (\<lambda>new_data.
     bnd (row_stats_columns np stats data new_data cont_cols cat_cols)
       (\<lambda>u. ret new_data)))"

text \<open>
  \<open>writes_only r W m\<close>: the program \<open>m\<close> allocates nothing, leaves every frame but
  \<open>r\<close> as it is, and in \<open>r\<close> changes or adds only columns named in \<open>W\<close>.
\<close>

definition writes_only :: "ref \<Rightarrow> string set \<Rightarrow> 'a prog \<Rightarrow> bool" where
  "writes_only r W m \<longleftrightarrow>
     (\<forall>h. r < length h \<longrightarrow>
        (case m h of (res, h') \<Rightarrow>
           length h' = length h \<and>
           (\<forall>q<length h. q \<noteq> r \<longrightarrow> h' ! q = h ! q) \<and>
           (\<forall>name. name \<notin> W \<longrightarrow> map_of (h' ! r) name = map_of (h ! r) name) \<and>
           set (columns (h ! r)) \<subseteq> set (columns (h' ! r)) \<and>
           set (columns (h' ! r)) \<subseteq> set (columns (h ! r)) \<union> W))"

text \<open>
  \<open>pure_extension f W\<close>: run on any state, \<open>f data\<close> leaves every frame of that state
  as it is, the argument among them; when it returns, it returns a frame allocated by the
  call, in which every column not named in \<open>W\<close> is the column of \<open>data\<close> of that name,
  every column of \<open>data\<close> is present, and every other column is named in \<open>W\<close>.
\<close>

definition pure_extension :: "(ref \<Rightarrow> ref prog) \<Rightarrow> string set \<Rightarrow> bool" where
  "pure_extension f W \<longleftrightarrow>
     (\<forall>data h. data < length h \<longrightarrow>
        (case f data h of (res, h') \<Rightarrow>
           (\<forall>q<length h. h' ! q = h ! q) \<and>
           (\<forall>df. res = Inr df \<longrightarrow>
              df = length h \<and> length h' = Suc (length h) \<and>
              (\<forall>name. name \<notin> W \<longrightarrow> map_of (h' ! df) name = map_of (h ! data) name) \<and>
              set (columns (h ! data)) \<subseteq> set (columns (h' ! df)) \<and>
              set (columns (h' ! df)) \<subseteq> set (columns (h ! data)) \<union> W)))"

text \<open>
  The test of \<open>create_row_stats\<close> on a column. \<open>representable d x\<close>: the number \<open>x\<close> is
  a value of dtype \<open>d\<close>, which for an integer dtype means an integer in its range.
\<close>

definition is_int :: "series \<Rightarrow> bool" where
  "is_int c \<longleftrightarrow> startswith (dtype_name (dtype c)) ''int''"

definition representable :: "dtype \<Rightarrow> real \<Rightarrow> bool" where
  "representable d x =
     (case int_range d of
        None \<Rightarrow> True
      | Some (lowest, number) \<Rightarrow>
          x = of_int \<lfloor>x\<rfloor> \<and> lowest \<le> \<lfloor>x\<rfloor> \<and> \<lfloor>x\<rfloor> < lowest + number)"

text \<open>
  Modelled from the spec: the integer-typed columns, those whose dtype is one of the
  signed or unsigned integer types.
\<close>

definition integer_typed :: "series \<Rightarrow> bool" where
  "integer_typed c \<longleftrightarrow>
     dtype c \<in> set [Int8, Int16, Int32, Int64, UInt8, UInt16, UInt32, UInt64]"

text \<open>
  For concrete runs: numpy's result types on integer and float64 data, with exact casts;
  three frames, one with a missing cell and one with an unsigned column; and statistics
  that return missing values.
\<close>

definition numpy64 :: numpy where
  "numpy64 =
     \<lparr>result_type = (\<lambda>ufunc operands.
        if ufunc \<in> set [''sin'', ''sqrt'', ''true_divide'', ''mean'', ''median''] \<or>
           (\<exists>x \<in> set operands. x \<in> set [Arr Float64, Scalar Float64, PyFloat])
        then Float64 else Int64),
      cast = (\<lambda>source target x. x)\<rparr>"

definition int64 :: "real list \<Rightarrow> series" where
  "int64 xs = \<lparr>dtype = Int64, vals = map Some xs\<rparr>"

definition float64 :: "real list \<Rightarrow> series" where
  "float64 xs = \<lparr>dtype = Float64, vals = map Some xs\<rparr>"

definition forest_frame :: "series frame" where
  "forest_frame =
     [(''Elevation'', int64 [2500, 3000]),
      (''Horizontal_Distance_To_Hydrology'', int64 [3, 0]),
      (''Vertical_Distance_To_Hydrology'', int64 [4, -2]),
      (''Hillshade_9am'', int64 [260, 100]),
      (''Hillshade_Noon'', int64 [200, 220]),
      (''Hillshade_3pm'', int64 [-5, 130])]"

text \<open>
  \<open>water_features\<close> up to its final casts, and the expression both \<open>Hydro_Taxicab_Pos\<close> and
  \<open>Hydro_Euclid_Pos\<close> are computed from: the square root of the sum of the squares of the
  two distances, each cast to float64 and shifted to start at \<open>eps\<close>.
\<close>

definition water_features_before_store :: "numpy \<Rightarrow> ref \<Rightarrow> ref prog" where
  "water_features_before_store np data =
     bnd (copy data) (\<lambda>df. bnd (water_features_compute np df) (\<lambda>u. ret df))"

definition hydro_euclid_pos :: "numpy \<Rightarrow> series \<Rightarrow> series \<Rightarrow> series" where
  "hydro_euclid_pos np horizontal vertical =
     s_sqrt np (s_add np
       (s_pow_int np (start_at_eps np (astype np Float64 horizontal)) 2)
       (s_pow_int np (start_at_eps np (astype np Float64 vertical)) 2))"

definition toy_statistics :: statistics where
  "toy_statistics =
     \<lparr>std_axis1 = (\<lambda>n cs. \<lparr>dtype = Float64, vals = replicate n None\<rparr>),
      skew_axis1 = (\<lambda>n cs. \<lparr>dtype = Float64, vals = replicate n None\<rparr>),
      median_abs_deviation = (\<lambda>n cs. \<lparr>dtype = Float64, vals = replicate n None\<rparr>),
      zscore = (\<lambda>n cs. cs)\<rparr>"

definition toy_frame :: "series frame" where
  "toy_frame =
     [(''f0'', float64 [1, 4]),
      (''b0'', int64 [1, 0]),
      (''f1'', float64 [3, 2]),
      (''b1'', int64 [1, 1]),
      (''f2'', \<lparr>dtype = Float64, vals = [Some 11, None]\<rparr>)]"

definition uint8 :: "real list \<Rightarrow> series" where
  "uint8 xs = \<lparr>dtype = UInt8, vals = map Some xs\<rparr>"

definition mixed_frame :: "series frame" where
  "mixed_frame =
     [(''b0'', int64 [1, 0]),
      (''u0'', uint8 [5, 7]),
      (''f0'', float64 [2, 9])]"

lemma writes_only_ret: "writes_only r W (ret x)"
  by (simp add: writes_only_def ret_def)

lemma writes_only_eval: "writes_only r W (eval e)"
  by (simp add: writes_only_def eval_def)

lemma writes_only_assign: "name \<in> W \<Longrightarrow> writes_only r W (assign r name e)"
  by (auto simp: writes_only_def assign_def AList.update_conv' columns_def AList.dom_update
      split: sum.splits)

lemma writes_onlyD:
  assumes "writes_only r W m" "r < length h" "m h = (res, h')"
  shows "length h' = length h"
    and "\<forall>q<length h. q \<noteq> r \<longrightarrow> h' ! q = h ! q"
    and "\<forall>name. name \<notin> W \<longrightarrow> map_of (h' ! r) name = map_of (h ! r) name"
    and "set (columns (h ! r)) \<subseteq> set (columns (h' ! r))"
    and "set (columns (h' ! r)) \<subseteq> set (columns (h ! r)) \<union> W"
  using assms(1)[unfolded writes_only_def, rule_format, OF assms(2)] assms(3) by simp_all

lemma writes_only_bnd:
  assumes "writes_only r W m" "\<And>x. writes_only r W (f x)"
  shows "writes_only r W (bnd m f)"
  unfolding writes_only_def
proof (intro allI impI)
  fix h :: heap assume r: "r < length h"
  obtain res h1 where m: "m h = (res, h1)" by (cases "m h")
  note 1 = writes_onlyD[OF assms(1) r m]
  show "case bnd m f h of (res, h') \<Rightarrow>
           length h' = length h \<and>
           (\<forall>q<length h. q \<noteq> r \<longrightarrow> h' ! q = h ! q) \<and>
           (\<forall>name. name \<notin> W \<longrightarrow> map_of (h' ! r) name = map_of (h ! r) name) \<and>
           set (columns (h ! r)) \<subseteq> set (columns (h' ! r)) \<and>
           set (columns (h' ! r)) \<subseteq> set (columns (h ! r)) \<union> W"
  proof (cases res)
    case (Inl e)
    then show ?thesis using m 1 by (simp add: bnd_def)
  next
    case (Inr x)
    obtain res2 h2 where f: "f x h1 = (res2, h2)" by (cases "f x h1")
    have r1: "r < length h1" using r 1(1) by simp
    note 2 = writes_onlyD[OF assms(2)[of x] r1 f]
    have "bnd m f h = (res2, h2)" using m Inr f by (simp add: bnd_def)
    then show ?thesis using 1 2 by auto
  qed
qed

lemma writes_only_seq: "(\<And>s. s \<in> set ss \<Longrightarrow> writes_only r W s) \<Longrightarrow> writes_only r W (seq ss)"
  by (induction ss) (auto intro: writes_only_ret writes_only_bnd)

lemma pure_extension_copy:
  assumes "\<And>data df. writes_only df W (body data df)"
    and "\<And>data df h x h'. body data df h = (Inr x, h') \<Longrightarrow> x = df"
  shows "pure_extension (\<lambda>data. bnd (copy data) (body data)) W"
  unfolding pure_extension_def
proof (intro allI impI)
  fix data and h :: heap assume d: "data < length h"
  let ?h1 = "h @ [h ! data]" and ?df = "length h"
  obtain res h' where b: "body data ?df ?h1 = (res, h')" by (cases "body data ?df ?h1")
  have r: "bnd (copy data) (body data) h = (res, h')"
    using b by (simp add: bnd_def copy_def)
  have df: "?df < length ?h1" by simp
  note 0 = writes_onlyD[OF assms(1)[of ?df data] df b]
  have 1: "length h' = Suc (length h)"
    "\<forall>q<Suc (length h). q \<noteq> ?df \<longrightarrow> h' ! q = ?h1 ! q"
    "\<forall>name. name \<notin> W \<longrightarrow> map_of (h' ! ?df) name = map_of (h ! data) name"
    "set (columns (h ! data)) \<subseteq> set (columns (h' ! ?df))"
    "set (columns (h' ! ?df)) \<subseteq> set (columns (h ! data)) \<union> W"
    using 0 by simp_all
  have 2: "\<forall>q<length h. h' ! q = h ! q"
    using 1(2) by (auto simp: nth_append)
  have 3: "res = Inr df \<longrightarrow> df = ?df" for df
    using assms(2)[of data ?df ?h1 df h'] b by auto
  show "case bnd (copy data) (body data) h of (res, h') \<Rightarrow>
           (\<forall>q<length h. h' ! q = h ! q) \<and>
           (\<forall>df. res = Inr df \<longrightarrow>
              df = length h \<and> length h' = Suc (length h) \<and>
              (\<forall>name. name \<notin> W \<longrightarrow> map_of (h' ! df) name = map_of (h ! data) name) \<and>
              set (columns (h ! data)) \<subseteq> set (columns (h' ! df)) \<and>
              set (columns (h' ! df)) \<subseteq> set (columns (h ! data)) \<union> W)"
    using r 1 2 3 by auto
qed

lemma bnd_ret_result: "bnd m (\<lambda>u. ret df) h = (Inr x, h') \<Longrightarrow> x = df"
  by (auto simp: bnd_def ret_def split: prod.splits sum.splits)

lemma aspect_pure:
  "pure_extension (aspect_features np) {''Aspect_360'', ''Aspect_Sine'', ''Aspect_Alt''}"
  unfolding aspect_features_def
  by (rule pure_extension_copy)
     (auto intro!: writes_only_bnd writes_only_seq writes_only_assign writes_only_ret
           dest: bnd_ret_result)

lemma pure_extension_eval_copy:
  assumes "\<And>x. pure_extension (\<lambda>data. bnd (copy data) (body x data)) W"
  shows "pure_extension (\<lambda>data. bnd (eval (e data)) (\<lambda>x. bnd (copy data) (body x data))) W"
  unfolding pure_extension_def
proof (intro allI impI)
  fix data and h :: heap assume d: "data < length h"
  show "case bnd (eval (e data)) (\<lambda>x. bnd (copy data) (body x data)) h of (res, h') \<Rightarrow>
           (\<forall>q<length h. h' ! q = h ! q) \<and>
           (\<forall>df. res = Inr df \<longrightarrow>
              df = length h \<and> length h' = Suc (length h) \<and>
              (\<forall>name. name \<notin> W \<longrightarrow> map_of (h' ! df) name = map_of (h ! data) name) \<and>
              set (columns (h ! data)) \<subseteq> set (columns (h' ! df)) \<and>
              set (columns (h' ! df)) \<subseteq> set (columns (h ! data)) \<union> W)"
  proof (cases "e data h")
    case (Inl err)
    then show ?thesis by (simp add: bnd_def eval_def)
  next
    case (Inr x)
    then have "bnd (eval (e data)) (\<lambda>x. bnd (copy data) (body x data)) h
        = bnd (copy data) (body x data) h"
      by (simp add: bnd_def eval_def)
    then show ?thesis
      using assms[of x, unfolded pure_extension_def, rule_format, OF d] by simp
  qed
qed

lemmas writes_intros = writes_only_bnd writes_only_seq writes_only_assign writes_only_ret
  writes_only_eval

lemma hillshade_pure:
  "pure_extension (hillshade_features np)
     {''Hillshade_9am_Clipped'', ''Hillshade_Noon_Clipped'', ''Hillshade_3pm_Clipped'',
      ''Hillshade_Sum'', ''Hillshade_Range''}"
  unfolding hillshade_features_def Let_def
  by (rule pure_extension_copy) (auto intro!: writes_intros dest: bnd_ret_result)

lemma water_pure:
  "pure_extension (water_features np)
     {''Horizontal_Distance_To_Hydrology'', ''Vertical_Distance_To_Hydrology'',
      ''Hydro_Taxicab'', ''Hydro_Taxicab_Pos'', ''Hydro_Euclid'', ''Hydro_Euclid_Pos'',
      ''Water_Direction'', ''Water Elevation''}"
  unfolding water_features_def
proof (rule pure_extension_copy)
  fix df
  show "writes_only df
     {''Horizontal_Distance_To_Hydrology'', ''Vertical_Distance_To_Hydrology'',
      ''Hydro_Taxicab'', ''Hydro_Taxicab_Pos'', ''Hydro_Euclid'', ''Hydro_Euclid_Pos'',
      ''Water_Direction'', ''Water Elevation''}
     (bnd (water_features_compute np df) (\<lambda>u. bnd (water_features_store np df) (\<lambda>u. ret df)))"
    unfolding water_features_compute_def water_features_store_def
    by (auto intro!: writes_intros)
next
  fix df h x h'
  assume "bnd (water_features_compute np df) (\<lambda>u. bnd (water_features_store np df) (\<lambda>u. ret df)) h
            = (Inr x, h')"
  then show "x = df"
    by (auto simp: bnd_def ret_def split: prod.splits sum.splits)
qed

lemma count_pure:
  "pure_extension (count_features np) {''Soil_Count'', ''Wilderness_Count''}"
  unfolding count_features_def
proof (rule pure_extension_copy)
  fix df
  show "writes_only df {''Soil_Count'', ''Wilderness_Count''}
     (bnd (eval (\<lambda>h. Inr (filter (\<lambda>x. startswith x ''Soil_Type'') (columns (h ! df)))))
       (\<lambda>soil_features.
           bnd (eval (\<lambda>h. Inr (filter (\<lambda>x. startswith x ''Wilderness_Area'') (columns (h ! df)))))
            (\<lambda>wilderness_features.
                bnd (seq
                      [assign df ''Soil_Count''
                        (\<lambda>h. e1 (apply_sum_axis1 np (nrows (h ! df))) (items df soil_features) h),
                       assign df ''Wilderness_Count''
                        (\<lambda>h. e1 (apply_sum_axis1 np (nrows (h ! df)))
                              (items df wilderness_features) h)])
                 (\<lambda>u. ret df))))"
    by (auto intro!: writes_intros)
next
  fix df h x h'
  assume "bnd (eval (\<lambda>h. Inr (filter (\<lambda>x. startswith x ''Soil_Type'') (columns (h ! df)))))
       (\<lambda>soil_features.
           bnd (eval (\<lambda>h. Inr (filter (\<lambda>x. startswith x ''Wilderness_Area'') (columns (h ! df)))))
            (\<lambda>wilderness_features.
                bnd (seq
                      [assign df ''Soil_Count''
                        (\<lambda>h. e1 (apply_sum_axis1 np (nrows (h ! df))) (items df soil_features) h),
                       assign df ''Wilderness_Count''
                        (\<lambda>h. e1 (apply_sum_axis1 np (nrows (h ! df)))
                              (items df wilderness_features) h)])
                 (\<lambda>u. ret df))) h = (Inr x, h')"
  then show "x = df"
    by (auto simp: bnd_def ret_def eval_def split: prod.splits sum.splits)
qed

lemma hydrofire_pure:
  "pure_extension (hydrofire_interactions np)
     {''Hydro_Fire_Sum'', ''Hydro_Fire_AbsDiff'', ''Hydro_Fire_EpsSum'', ''Hydro_Fire_Diff''}"
  unfolding hydrofire_interactions_def
  by (rule pure_extension_copy) (auto intro!: writes_intros dest: bnd_ret_result)

lemma roadway_pure:
  "pure_extension (roadway_interactions np)
     {''Hydro_Road_1'', ''Hydro_Road_2'', ''Fire_Road_1'', ''Fire_Road_2''}"
  unfolding roadway_interactions_def
  by (rule pure_extension_copy) (auto intro!: writes_intros dest: bnd_ret_result)

lemma elevation_pure:
  "pure_extension (elevation_interactions np)
     {''Road_Elev_Int'', ''VHydro_Elev_Int'', ''Elev_VHydro_Diff'', ''Elev_HHydro_Diff''}"
  unfolding elevation_interactions_def
  by (rule pure_extension_copy) (auto intro!: writes_intros dest: bnd_ret_result)

lemma create_row_stats_pure:
  "pure_extension (create_row_stats np stats)
     {''binary_count'', ''binary_std'', ''min'', ''std'', ''max'', ''median'', ''mean'', ''skew'',
      ''median_abs_dev'', ''zscore''}"
proof -
  let ?W = "{''binary_count'', ''binary_std'', ''min'', ''std'', ''max'', ''median'', ''mean'',
      ''skew'', ''median_abs_dev'', ''zscore''}"
  have eq: "create_row_stats np stats =
     (\<lambda>data. bnd (eval (\<lambda>h. split_columns (h ! data) (columns (h ! data)) ([], [])))
       (\<lambda>x. bnd (copy data) (\<lambda>new_data.
          bnd (row_stats_columns np stats data new_data (fst x) (snd x)) (\<lambda>u. ret new_data))))"
    by (intro ext) (simp add: create_row_stats_def split_def)
  have "pure_extension (\<lambda>data. bnd (copy data) (\<lambda>new_data.
          bnd (row_stats_columns np stats data new_data (fst x) (snd x)) (\<lambda>u. ret new_data))) ?W"
    for x :: "string list \<times> string list"
    unfolding row_stats_columns_def
    by (rule pure_extension_copy) (auto intro!: writes_intros dest: bnd_ret_result)
  then show ?thesis
    unfolding eq by (rule pure_extension_eval_copy)
qed

lemma map_of_distinct_nth:
  "distinct (map fst al) \<Longrightarrow> (k, v) \<in> set al \<Longrightarrow> map_of al k = Some v"
  by simp

lemma split_columns_filter:
  assumes "\<forall>n \<in> set names. \<exists>c. map_of data n = Some c"
  shows "split_columns data names (cont_cols, cat_cols) =
     Inr (cont_cols @ [n \<leftarrow> names. \<not> is_int (the (map_of data n))],
          cat_cols @ [n \<leftarrow> names. is_int (the (map_of data n))])"
  using assms
proof (induction names arbitrary: cont_cols cat_cols)
  case Nil
  then show ?case by simp
next
  case (Cons a names)
  then obtain c where c: "map_of data a = Some c" by auto
  then have g: "getitem data a = Inr c" by (simp add: getitem_def)
  show ?case
    using Cons.IH[of cont_cols "cat_cols @ [a]"] Cons.IH[of "cont_cols @ [a]" cat_cols] Cons.prems
    by (simp add: g c is_int_def)
qed

lemma select_ok:
  assumes "\<forall>n \<in> set names. \<exists>c. map_of df n = Some c"
  shows "select df names = Inr (map (\<lambda>n. the (map_of df n)) names)"
proof -
  have "map (getitem df) names = map Inr (map (\<lambda>n. the (map_of df n)) names)"
    using assms by (auto simp: getitem_def)
  then show ?thesis by (simp only: select_def sequenceE_Inr)
qed

lemma columns_map_of:
  "distinct (columns df) \<Longrightarrow> \<forall>n \<in> set (columns df). \<exists>c. map_of df n = Some c"
  by (auto simp: columns_def map_of_eq_None_iff[symmetric])

lemma filter_columns_series:
  assumes "distinct (columns df)"
  shows "map (\<lambda>n. the (map_of df n)) [n \<leftarrow> columns df. P (the (map_of df n))]
         = [c \<leftarrow> map snd df. P c]"
proof -
  have e: "the (map_of df (fst p)) = snd p" if "p \<in> set df" for p
    using assms that by (cases p) (simp add: columns_def)
  have 1: "[p \<leftarrow> df. P (the (map_of df (fst p)))] = [p \<leftarrow> df. P (snd p)]"
    by (rule filter_cong) (simp_all add: e)
  have 2: "map (\<lambda>p. the (map_of df (fst p))) [p \<leftarrow> df. P (snd p)] = map snd [p \<leftarrow> df. P (snd p)]"
    by (rule map_cong) (simp_all add: e)
  show ?thesis
    using 1 2 by (simp add: columns_def filter_map comp_def)
qed

lemma create_row_stats_exec:
  assumes d: "data < length h" and dist: "distinct (columns (h ! data))"
    and cat: "cat = [c \<leftarrow> map snd (h ! data). is_int c]"
    and cont: "cont = [c \<leftarrow> map snd (h ! data). \<not> is_int c]"
    and n: "n = nrows (h ! data)"
  shows "\<exists>h'. create_row_stats np stats data h = (Inr (length h), h') \<and>
           map_of (h' ! length h) ''binary_count'' = Some (sum_axis1 np n cat) \<and>
           map_of (h' ! length h) ''min'' = Some (min_axis1 np n cont) \<and>
           map_of (h' ! length h) ''max'' = Some (max_axis1 np n cont) \<and>
           map_of (h' ! length h) ''median'' = Some (median_axis1 np n cont) \<and>
           map_of (h' ! length h) ''mean'' = Some (mean_axis1 np n cont)"
proof -
  let ?df = "h ! data"
  let ?ncont = "[n \<leftarrow> columns ?df. \<not> is_int (the (map_of ?df n))]"
  let ?ncat = "[n \<leftarrow> columns ?df. is_int (the (map_of ?df n))]"
  have sp: "split_columns ?df (columns ?df) ([], []) = Inr (?ncont, ?ncat)"
    using split_columns_filter[OF columns_map_of[OF dist], of "[]" "[]"] by simp
  have s1: "select ?df ?ncat = Inr cat"
    using select_ok[of ?ncat ?df] columns_map_of[OF dist]
      filter_columns_series[OF dist, of is_int] by (simp add: cat)
  have s2: "select ?df ?ncont = Inr cont"
    using select_ok[of ?ncont ?df] columns_map_of[OF dist]
      filter_columns_series[OF dist, of "\<lambda>c. \<not> is_int c"] by (simp add: cont)
  show ?thesis
    using d
    by (simp add: create_row_stats_def row_stats_columns_def ret_def bnd_def copy_def eval_def
        assign_def items_def e1_def sp s1 s2 n nth_append AList.update_conv')
qed

lemma rowwise_nth: "i < n \<Longrightarrow> vals (rowwise np func f n cs) ! i = f (row cs i)"
  by (simp add: rowwise_def)

lemma fold_min_Min: "fold min xs (x::real) = Min (set (x # xs))"
  by (simp only: Min.set_eq_fold)

lemma fold_max_Max: "fold max xs (x::real) = Max (set (x # xs))"
  by (simp only: Max.set_eq_fold)

lemma int_range_pos: "int_range d = Some (lowest, number) \<Longrightarrow> 0 < number"
  by (cases d) auto

lemma wrap_representable: "representable d x \<Longrightarrow> wrap d x = x"
  by (auto simp: representable_def wrap_def split: option.splits)

lemma wrap_congruent:
  assumes "int_range d = Some (lowest, number)" and "x = of_int \<lfloor>x\<rfloor>"
  shows "\<exists>k. wrap d x = x + of_int (k * number) \<and> representable d (x + of_int (k * number))"
proof -
  let ?a = "\<lfloor>x\<rfloor> - lowest"
  have pos: "0 < number" using assms(1) by (rule int_range_pos)
  have w: "wrap d x = of_int (?a mod number + lowest)"
    using assms(1) by (simp add: wrap_def)
  have "?a mod number + lowest = \<lfloor>x\<rfloor> + (- (?a div number)) * number"
    by (simp add: minus_div_mult_eq_mod[symmetric])
  then have "of_int (?a mod number + lowest) = (of_int \<lfloor>x\<rfloor> :: real) + of_int ((- (?a div number)) * number)"
    by (simp only: of_int_add)
  then have e: "wrap d x = x + of_int ((- (?a div number)) * number)"
    using w assms(2) by simp
  have "0 \<le> ?a mod number" "?a mod number < number" using pos by simp_all
  then have "representable d (wrap d x)"
    unfolding w using assms(1) by (simp add: representable_def)
  with e show ?thesis by metis
qed

lemma median_sorted:
  "\<exists>s. sorted s \<and> mset s = mset xs \<and>
     median xs = (if even (length s) then (s ! (length s div 2 - 1) + s ! (length s div 2)) / 2
                  else s ! (length s div 2))"
  by (rule exI[of _ "sort xs"]) (simp add: median_def Let_def)

lemma sum_axis1_dtype:
  "dtype (sum_axis1 np n cs) = result_type np ''sum'' (map (\<lambda>c. Arr (dtype c)) cs)"
  by (simp add: sum_axis1_def rowwise_def)

lemma row_stats_values:
  assumes "i < n"
  shows "vals (sum_axis1 np n cs) ! i
           = Some (wrap (dtype (sum_axis1 np n cs)) (sum_list (present (row cs i))))"
    and "present (row cs i) \<noteq> [] \<Longrightarrow>
           vals (min_axis1 np n cs) ! i = Some (Min (set (present (row cs i)))) \<and>
           vals (max_axis1 np n cs) ! i = Some (Max (set (present (row cs i)))) \<and>
           vals (median_axis1 np n cs) ! i = Some (median (present (row cs i))) \<and>
           vals (mean_axis1 np n cs) ! i
             = Some (sum_list (present (row cs i)) / real (length (present (row cs i))))"
    and "present (row cs i) = [] \<Longrightarrow>
           vals (min_axis1 np n cs) ! i = None \<and> vals (max_axis1 np n cs) ! i = None \<and>
           vals (median_axis1 np n cs) ! i = None \<and> vals (mean_axis1 np n cs) ! i = None"
proof -
  show "vals (sum_axis1 np n cs) ! i
           = Some (wrap (dtype (sum_axis1 np n cs)) (sum_list (present (row cs i))))"
    using assms by (simp add: sum_axis1_dtype) (simp add: sum_axis1_def rowwise_nth)
  show "vals (min_axis1 np n cs) ! i = None \<and> vals (max_axis1 np n cs) ! i = None \<and>
        vals (median_axis1 np n cs) ! i = None \<and> vals (mean_axis1 np n cs) ! i = None"
    if "present (row cs i) = []"
    using assms that
    by (simp add: min_axis1_def max_axis1_def median_axis1_def mean_axis1_def rowwise_nth)
  assume "present (row cs i) \<noteq> []"
  then obtain x xs where p: "present (row cs i) = x # xs" by (cases "present (row cs i)") auto
  show "vals (min_axis1 np n cs) ! i = Some (Min (set (present (row cs i)))) \<and>
        vals (max_axis1 np n cs) ! i = Some (Max (set (present (row cs i)))) \<and>
        vals (median_axis1 np n cs) ! i = Some (median (present (row cs i))) \<and>
        vals (mean_axis1 np n cs) ! i
          = Some (sum_list (present (row cs i)) / real (length (present (row cs i))))"
    using assms
    by (simp add: min_axis1_def max_axis1_def median_axis1_def mean_axis1_def rowwise_nth p
        fold_min_Min fold_max_Max del: list.set)
qed

text \<open>
  C5, amended. On a frame with distinct column names \<open>create_row_stats\<close> returns a new
  frame, leaves its argument as it is, and carries over every input column that is not
  named like one of its ten statistics. It splits the input columns by the name of their
  dtype: those whose name starts with \<open>int\<close>, and all others, unsigned integers among
  them. In every row, over the cells that are not missing, \<open>binary_count\<close> is the sum of
  the former, computed in the dtype of the result: it is the sum when that is a value of
  the dtype, and for an integer dtype it differs from the sum by a multiple of the number
  of values of the dtype; \<open>min\<close>, \<open>max\<close>, \<open>median\<close> and \<open>mean\<close> are the least and the
  greatest of the latter, the middle of them in sorted order (the mean of the two middle
  ones when their number is even) and their arithmetic mean, and all four are missing
  when the row has no such cell.
\<close>

theorem create_row_stats_row_statistics:
  assumes d: "data < length h" and dist: "distinct (columns (h ! data))"
  shows "\<exists>h' binary_count mn mx med mean.
     create_row_stats np stats data h = (Inr (length h), h') \<and>
     h' ! data = h ! data \<and>
     (\<forall>name. name \<notin> {''binary_count'', ''binary_std'', ''min'', ''std'', ''max'', ''median'',
                      ''mean'', ''skew'', ''median_abs_dev'', ''zscore''} \<longrightarrow>
        map_of (h' ! length h) name = map_of (h ! data) name) \<and>
     map_of (h' ! length h) ''binary_count'' = Some binary_count \<and>
     map_of (h' ! length h) ''min'' = Some mn \<and>
     map_of (h' ! length h) ''max'' = Some mx \<and>
     map_of (h' ! length h) ''median'' = Some med \<and>
     map_of (h' ! length h) ''mean'' = Some mean \<and>
     dtype binary_count
       = result_type np ''sum'' (map (\<lambda>c. Arr (dtype c)) [c \<leftarrow> map snd (h ! data). is_int c]) \<and>
     (\<forall>i<nrows (h ! data).
        (let ints = present (row [c \<leftarrow> map snd (h ! data). is_int c] i);
             others = present (row [c \<leftarrow> map snd (h ! data). \<not> is_int c] i)
         in
           (representable (dtype binary_count) (sum_list ints) \<longrightarrow>
              vals binary_count ! i = Some (sum_list ints)) \<and>
           (\<forall>lowest number.
              int_range (dtype binary_count) = Some (lowest, number) \<and>
              sum_list ints = of_int \<lfloor>sum_list ints\<rfloor> \<longrightarrow>
              (\<exists>k. vals binary_count ! i = Some (sum_list ints + of_int (k * number)) \<and>
                   representable (dtype binary_count) (sum_list ints + of_int (k * number)))) \<and>
           (others \<noteq> [] \<longrightarrow>
              vals mn ! i = Some (Min (set others)) \<and>
              vals mx ! i = Some (Max (set others)) \<and>
              (\<exists>s. sorted s \<and> mset s = mset others \<and>
                   vals med ! i
                     = Some (if even (length s)
                             then (s ! (length s div 2 - 1) + s ! (length s div 2)) / 2
                             else s ! (length s div 2))) \<and>
              vals mean ! i = Some (sum_list others / real (length others))) \<and>
           (others = [] \<longrightarrow>
              vals mn ! i = None \<and> vals mx ! i = None \<and> vals med ! i = None \<and>
              vals mean ! i = None)))"
proof -
  let ?cat = "[c \<leftarrow> map snd (h ! data). is_int c]"
  let ?cont = "[c \<leftarrow> map snd (h ! data). \<not> is_int c]"
  let ?n = "nrows (h ! data)"
  define W where "W = {''binary_count'', ''binary_std'', ''min'', ''std'', ''max'', ''median'',
    ''mean'', ''skew'', ''median_abs_dev'', ''zscore''}"
  have pure: "pure_extension (create_row_stats np stats) W"
    unfolding W_def by (rule create_row_stats_pure)
  from create_row_stats_exec[OF d dist refl refl refl, of np stats] obtain h' where
    ex: "create_row_stats np stats data h = (Inr (length h), h')"
    and c: "map_of (h' ! length h) ''binary_count'' = Some (sum_axis1 np ?n ?cat)"
      "map_of (h' ! length h) ''min'' = Some (min_axis1 np ?n ?cont)"
      "map_of (h' ! length h) ''max'' = Some (max_axis1 np ?n ?cont)"
      "map_of (h' ! length h) ''median'' = Some (median_axis1 np ?n ?cont)"
      "map_of (h' ! length h) ''mean'' = Some (mean_axis1 np ?n ?cont)"
    by blast
  note pe0 = pure[unfolded pure_extension_def, THEN spec, THEN spec, THEN mp, OF d]
  note pe = pe0[unfolded ex prod.case]
  have keep: "\<forall>q<length h. h' ! q = h ! q"
    using pe by (rule conjunct1)
  note pe2 = pe[THEN conjunct2, THEN spec, THEN mp, OF refl]
  have same: "\<forall>name. name \<notin> W \<longrightarrow> map_of (h' ! length h) name = map_of (h ! data) name"
    using pe2 by (elim conjE)
  have 1: "h' ! data = h ! data" using keep d by simp
  have row_i: "(let ints = present (row ?cat i); others = present (row ?cont i)
         in
           (representable (dtype (sum_axis1 np ?n ?cat)) (sum_list ints) \<longrightarrow>
              vals (sum_axis1 np ?n ?cat) ! i = Some (sum_list ints)) \<and>
           (\<forall>lowest number.
              int_range (dtype (sum_axis1 np ?n ?cat)) = Some (lowest, number) \<and>
              sum_list ints = of_int \<lfloor>sum_list ints\<rfloor> \<longrightarrow>
              (\<exists>k. vals (sum_axis1 np ?n ?cat) ! i = Some (sum_list ints + of_int (k * number)) \<and>
                   representable (dtype (sum_axis1 np ?n ?cat)) (sum_list ints + of_int (k * number)))) \<and>
           (others \<noteq> [] \<longrightarrow>
              vals (min_axis1 np ?n ?cont) ! i = Some (Min (set others)) \<and>
              vals (max_axis1 np ?n ?cont) ! i = Some (Max (set others)) \<and>
              (\<exists>s. sorted s \<and> mset s = mset others \<and>
                   vals (median_axis1 np ?n ?cont) ! i
                     = Some (if even (length s)
                             then (s ! (length s div 2 - 1) + s ! (length s div 2)) / 2
                             else s ! (length s div 2))) \<and>
              vals (mean_axis1 np ?n ?cont) ! i = Some (sum_list others / real (length others))) \<and>
           (others = [] \<longrightarrow>
              vals (min_axis1 np ?n ?cont) ! i = None \<and> vals (max_axis1 np ?n ?cont) ! i = None \<and>
              vals (median_axis1 np ?n ?cont) ! i = None \<and>
              vals (mean_axis1 np ?n ?cont) ! i = None))"
    if i: "i < ?n" for i
  proof -
    let ?ints = "present (row ?cat i)" and ?others = "present (row ?cont i)"
    let ?d = "dtype (sum_axis1 np ?n ?cat)"
    note s = row_stats_values(1)[OF i, of np ?cat]
    have a: "representable ?d (sum_list ?ints) \<longrightarrow>
               vals (sum_axis1 np ?n ?cat) ! i = Some (sum_list ?ints)"
      using s by (simp add: wrap_representable)
    have b: "\<forall>lowest number.
              int_range ?d = Some (lowest, number) \<and>
              sum_list ?ints = of_int \<lfloor>sum_list ?ints\<rfloor> \<longrightarrow>
              (\<exists>k. vals (sum_axis1 np ?n ?cat) ! i = Some (sum_list ?ints + of_int (k * number)) \<and>
                   representable ?d (sum_list ?ints + of_int (k * number)))"
    proof (intro allI impI)
      fix lowest number
      assume "int_range ?d = Some (lowest, number) \<and> sum_list ?ints = of_int \<lfloor>sum_list ?ints\<rfloor>"
      then have "\<exists>k. wrap ?d (sum_list ?ints) = sum_list ?ints + of_int (k * number) \<and>
                   representable ?d (sum_list ?ints + of_int (k * number))"
        by (intro wrap_congruent) simp_all
      then show "\<exists>k. vals (sum_axis1 np ?n ?cat) ! i = Some (sum_list ?ints + of_int (k * number)) \<and>
                   representable ?d (sum_list ?ints + of_int (k * number))"
        unfolding s by simp
    qed
    have c1: "?others \<noteq> [] \<longrightarrow>
              vals (min_axis1 np ?n ?cont) ! i = Some (Min (set ?others)) \<and>
              vals (max_axis1 np ?n ?cont) ! i = Some (Max (set ?others)) \<and>
              (\<exists>s. sorted s \<and> mset s = mset ?others \<and>
                   vals (median_axis1 np ?n ?cont) ! i
                     = Some (if even (length s)
                             then (s ! (length s div 2 - 1) + s ! (length s div 2)) / 2
                             else s ! (length s div 2))) \<and>
              vals (mean_axis1 np ?n ?cont) ! i = Some (sum_list ?others / real (length ?others))"
    proof
      assume ne: "?others \<noteq> []"
      note v = row_stats_values(2)[OF i ne, of np]
      from median_sorted[of ?others] obtain s where
        s: "sorted s" "mset s = mset ?others"
        "median ?others = (if even (length s) then (s ! (length s div 2 - 1) + s ! (length s div 2)) / 2
                  else s ! (length s div 2))" by blast
      have m: "vals (median_axis1 np ?n ?cont) ! i
                     = Some (if even (length s)
                             then (s ! (length s div 2 - 1) + s ! (length s div 2)) / 2
                             else s ! (length s div 2))"
        using v s(3) by (simp only:)
      have e: "\<exists>s. sorted s \<and> mset s = mset ?others \<and>
                   vals (median_axis1 np ?n ?cont) ! i
                     = Some (if even (length s)
                             then (s ! (length s div 2 - 1) + s ! (length s div 2)) / 2
                             else s ! (length s div 2))"
        by (rule exI[of _ s]) (intro conjI s(1) s(2) m)
      show "vals (min_axis1 np ?n ?cont) ! i = Some (Min (set ?others)) \<and>
              vals (max_axis1 np ?n ?cont) ! i = Some (Max (set ?others)) \<and>
              (\<exists>s. sorted s \<and> mset s = mset ?others \<and>
                   vals (median_axis1 np ?n ?cont) ! i
                     = Some (if even (length s)
                             then (s ! (length s div 2 - 1) + s ! (length s div 2)) / 2
                             else s ! (length s div 2))) \<and>
              vals (mean_axis1 np ?n ?cont) ! i = Some (sum_list ?others / real (length ?others))"
        by (intro conjI e v[THEN conjunct1] v[THEN conjunct2, THEN conjunct1]
            v[THEN conjunct2, THEN conjunct2, THEN conjunct2])
    qed
    have c2: "?others = [] \<longrightarrow>
              vals (min_axis1 np ?n ?cont) ! i = None \<and> vals (max_axis1 np ?n ?cont) ! i = None \<and>
              vals (median_axis1 np ?n ?cont) ! i = None \<and>
              vals (mean_axis1 np ?n ?cont) ! i = None"
      using row_stats_values(3)[OF i, of ?cont np] by (intro impI)
    show ?thesis
      unfolding Let_def by (intro conjI a b c1 c2)
  qed
  have 5: "\<forall>i<?n. (let ints = present (row ?cat i); others = present (row ?cont i)
         in
           (representable (dtype (sum_axis1 np ?n ?cat)) (sum_list ints) \<longrightarrow>
              vals (sum_axis1 np ?n ?cat) ! i = Some (sum_list ints)) \<and>
           (\<forall>lowest number.
              int_range (dtype (sum_axis1 np ?n ?cat)) = Some (lowest, number) \<and>
              sum_list ints = of_int \<lfloor>sum_list ints\<rfloor> \<longrightarrow>
              (\<exists>k. vals (sum_axis1 np ?n ?cat) ! i = Some (sum_list ints + of_int (k * number)) \<and>
                   representable (dtype (sum_axis1 np ?n ?cat)) (sum_list ints + of_int (k * number)))) \<and>
           (others \<noteq> [] \<longrightarrow>
              vals (min_axis1 np ?n ?cont) ! i = Some (Min (set others)) \<and>
              vals (max_axis1 np ?n ?cont) ! i = Some (Max (set others)) \<and>
              (\<exists>s. sorted s \<and> mset s = mset others \<and>
                   vals (median_axis1 np ?n ?cont) ! i
                     = Some (if even (length s)
                             then (s ! (length s div 2 - 1) + s ! (length s div 2)) / 2
                             else s ! (length s div 2))) \<and>
              vals (mean_axis1 np ?n ?cont) ! i = Some (sum_list others / real (length others))) \<and>
           (others = [] \<longrightarrow>
              vals (min_axis1 np ?n ?cont) ! i = None \<and> vals (max_axis1 np ?n ?cont) ! i = None \<and>
              vals (median_axis1 np ?n ?cont) ! i = None \<and>
              vals (mean_axis1 np ?n ?cont) ! i = None))"
    by (intro allI impI row_i)
  have 6: "dtype (sum_axis1 np ?n ?cat) = result_type np ''sum'' (map (\<lambda>c. Arr (dtype c)) ?cat)"
    by (rule sum_axis1_dtype)
  show ?thesis
    apply (rule exI[of _ h'])
    apply (rule exI[of _ "sum_axis1 np ?n ?cat"])
    apply (rule exI[of _ "min_axis1 np ?n ?cont"])
    apply (rule exI[of _ "max_axis1 np ?n ?cont"])
    apply (rule exI[of _ "median_axis1 np ?n ?cont"])
    apply (rule exI[of _ "mean_axis1 np ?n ?cont"])
    using ex 1 same[unfolded W_def] c 6 5 apply (intro conjI)
             apply assumption+
    done
qed

text \<open>
  C5 as stated fails on a frame with an unsigned integer column: \<open>u0\<close> is integer-typed
  and \<open>create_row_stats\<close> counts it among the other columns. \<open>binary_count\<close> is 1 and 0
  where the integer-typed columns sum to 6 and 7, and \<open>median\<close> is 7/2 and 8 where the
  one column that is not integer-typed holds 2 and 9.
\<close>

theorem create_row_stats_row_statistics_counterexample:
  "fst (create_row_stats numpy64 toy_statistics 0 [mixed_frame]) = Inr 1 \<and>
   map_of (snd (create_row_stats numpy64 toy_statistics 0 [mixed_frame]) ! 1) ''binary_count''
     = Some \<lparr>dtype = Int64, vals = [Some 1, Some 0]\<rparr> \<and>
   map_of (snd (create_row_stats numpy64 toy_statistics 0 [mixed_frame]) ! 1) ''median''
     = Some \<lparr>dtype = Float64, vals = [Some (7 / 2), Some 8]\<rparr> \<and>
   [c \<leftarrow> map snd mixed_frame. integer_typed c] = [int64 [1, 0], uint8 [5, 7]] \<and>
   [c \<leftarrow> map snd mixed_frame. \<not> integer_typed c] = [float64 [2, 9]] \<and>
   map (\<lambda>i. sum_list (present (row [c \<leftarrow> map snd mixed_frame. integer_typed c] i))) [0, 1] = [6, 7] \<and>
   map (\<lambda>i. present (row [c \<leftarrow> map snd mixed_frame. \<not> integer_typed c] i)) [0, 1] = [[2], [9]]"
proof -
  have d: "0 < length [mixed_frame]" by simp
  have dist: "distinct (columns ([mixed_frame] ! 0))"
    by (simp add: mixed_frame_def columns_def)
  have cat: "[c \<leftarrow> map snd ([mixed_frame] ! 0). is_int c] = [int64 [1, 0]]"
    and cont: "[c \<leftarrow> map snd ([mixed_frame] ! 0). \<not> is_int c] = [uint8 [5, 7], float64 [2, 9]]"
    by (simp_all add: mixed_frame_def is_int_def startswith_def int64_def uint8_def float64_def)
  have n: "nrows ([mixed_frame] ! 0) = 2"
    by (simp add: mixed_frame_def nrows_def int64_def)
  have s: "sum_axis1 numpy64 2 [int64 [1, 0]] = \<lparr>dtype = Int64, vals = [Some 1, Some 0]\<rparr>"
    by (simp add: sum_axis1_def rowwise_def row_def present_def int64_def
        numpy64_def wrap_def upt_rec)
  have m: "median [5, 2 :: real] = 7 / 2" "median [7, 9 :: real] = 8"
    by (simp_all add: median_def)
  have md: "median_axis1 numpy64 2 [uint8 [5, 7], float64 [2, 9]]
              = \<lparr>dtype = Float64, vals = [Some (7 / 2), Some 8]\<rparr>"
    by (simp add: median_axis1_def rowwise_def row_def present_def uint8_def
        float64_def numpy64_def upt_rec m)
  from create_row_stats_exec[OF d dist refl refl refl, of numpy64 toy_statistics,
      unfolded cat cont n]
  obtain h' where
    r: "create_row_stats numpy64 toy_statistics 0 [mixed_frame] = (Inr (length [mixed_frame]), h')"
      "map_of (h' ! length [mixed_frame]) ''binary_count'' = Some (sum_axis1 numpy64 2 [int64 [1, 0]])"
      "map_of (h' ! length [mixed_frame]) ''median''
         = Some (median_axis1 numpy64 2 [uint8 [5, 7], float64 [2, 9]])"
    by blast
  have i: "[c \<leftarrow> map snd mixed_frame. integer_typed c] = [int64 [1, 0], uint8 [5, 7]]"
    and o: "[c \<leftarrow> map snd mixed_frame. \<not> integer_typed c] = [float64 [2, 9]]"
    by (simp_all add: mixed_frame_def integer_typed_def int64_def uint8_def float64_def)
  have v: "map (\<lambda>i. sum_list (present (row [int64 [1, 0], uint8 [5, 7]] i))) [0, 1] = [6, 7]"
    "map (\<lambda>i. present (row [float64 [2, 9]] i)) [0, 1] = [[2], [9]]"
    by (simp_all add: row_def present_def int64_def uint8_def float64_def)
  show ?thesis
    using r v by (simp add: s md i o)
qed

lemma astype_idem: "astype np d (astype np d a) = astype np d a"
  by (simp add: astype_def)

lemmas exec_defs = ret_def bnd_def copy_def eval_def assign_def item_def items_def attr_def
  e1_def e2_def e3_def select_def

lemma water_exec:
  assumes "data < length h"
    and "map_of (h ! data) ''Horizontal_Distance_To_Hydrology'' = Some a"
    and "map_of (h ! data) ''Vertical_Distance_To_Hydrology'' = Some b"
    and "map_of (h ! data) ''Elevation'' = Some c"
  shows "\<exists>h1. water_features_before_store np data h = (Inr (length h), h1) \<and>
           map_of (h1 ! length h) ''Hydro_Taxicab_Pos''
             = Some (astype np Float32 (hydro_euclid_pos np a b)) \<and>
           map_of (h1 ! length h) ''Hydro_Euclid_Pos'' = Some (hydro_euclid_pos np a b) \<and>
           map_of (h1 ! length h) ''Hydro_Taxicab''
             = Some (s_add np (s_abs np (astype np Float64 a)) (s_abs np (astype np Float64 b)))"
    and "\<exists>h'. water_features np data h = (Inr (length h), h') \<and>
           map_of (h' ! length h) ''Hydro_Taxicab_Pos''
             = Some (astype np Float32 (hydro_euclid_pos np a b)) \<and>
           map_of (h' ! length h) ''Hydro_Euclid_Pos''
             = Some (astype np Float32 (hydro_euclid_pos np a b)) \<and>
           map_of (h' ! length h) ''Hydro_Taxicab''
             = Some (astype np Float32
                 (s_add np (s_abs np (astype np Float64 a)) (s_abs np (astype np Float64 b)))) \<and>
           map_of (h' ! length h) ''Horizontal_Distance_To_Hydrology''
             = Some (astype np Float32 (astype np Float64 a))"
  using assms
  by (simp_all add: water_features_before_store_def water_features_def
      water_features_compute_def water_features_store_def exec_defs getitem_def
      AList.update_conv' hydro_euclid_pos_def astype_idem)

text \<open>
  C8. On a frame with the three hillshade columns, \<open>hillshade_features\<close> returns a frame
  whose columns \<open>Hillshade_9am_Clipped\<close>, \<open>Hillshade_Noon_Clipped\<close> and
  \<open>Hillshade_3pm_Clipped\<close> are one and the same column: \<open>Hillshade_9am\<close> clipped to
  \<open>[0, 255]\<close>. \<open>Hillshade_Noon\<close> (\<open>b\<close>) and \<open>Hillshade_3pm\<close> (\<open>c\<close>) do not occur in it.
\<close>

theorem hillshade_clipped_from_9am:
  assumes "data < length h"
    and "map_of (h ! data) ''Hillshade_9am'' = Some a"
    and "map_of (h ! data) ''Hillshade_Noon'' = Some b"
    and "map_of (h ! data) ''Hillshade_3pm'' = Some c"
  shows "\<exists>h'. hillshade_features np data h = (Inr (length h), h') \<and>
           map_of (h' ! length h) ''Hillshade_9am_Clipped'' = Some (s_clip np a 0 255) \<and>
           map_of (h' ! length h) ''Hillshade_Noon_Clipped'' = Some (s_clip np a 0 255) \<and>
           map_of (h' ! length h) ''Hillshade_3pm_Clipped'' = Some (s_clip np a 0 255) \<and>
           vals (s_clip np a 0 255) = map (map_option (\<lambda>x. min (max x 0) 255)) (vals a)"
proof -
  have "vals (s_clip np a 0 255) = map (map_option (\<lambda>x. min (max x 0) 255)) (vals a)"
    by (auto simp: s_clip_def unary_def split: option.splits bind_splits)
  then show ?thesis
    using assms
    by (simp add: hillshade_features_def exec_defs getitem_def AList.update_conv')
qed

theorem hillshade_clipped_from_9am_witness:
  "\<exists>h'. hillshade_features numpy64 0 [forest_frame] = (Inr 1, h') \<and>
     map_of (h' ! 1) ''Hillshade_9am_Clipped'' = Some (int64 [255, 100]) \<and>
     map_of (h' ! 1) ''Hillshade_Noon_Clipped'' = Some (int64 [255, 100]) \<and>
     map_of (h' ! 1) ''Hillshade_3pm_Clipped'' = Some (int64 [255, 100])"
proof -
  have d: "0 < length [forest_frame]" by simp
  have a: "map_of ([forest_frame] ! 0) ''Hillshade_9am'' = Some (int64 [260, 100])"
    and b: "map_of ([forest_frame] ! 0) ''Hillshade_Noon'' = Some (int64 [200, 220])"
    and c: "map_of ([forest_frame] ! 0) ''Hillshade_3pm'' = Some (int64 [-5, 130])"
    by (simp_all add: forest_frame_def)
  have e: "s_clip numpy64 (int64 [260, 100]) 0 255 = int64 [255, 100]"
    by (simp add: s_clip_def unary_def int64_def numpy64_def)
  from hillshade_clipped_from_9am[OF d a b c, of numpy64] show ?thesis
    unfolding e by auto
qed

text \<open>
  C9, amended. In the frame \<open>water_features\<close> returns, \<open>Hydro_Taxicab_Pos\<close> and
  \<open>Hydro_Euclid_Pos\<close> are the same column, the float32 cast of \<open>hydro_euclid_pos\<close>, and the
  Manhattan distance is \<open>Hydro_Taxicab\<close>. Before the final casts \<open>Hydro_Euclid_Pos\<close> is
  \<open>hydro_euclid_pos\<close> itself and \<open>Hydro_Taxicab_Pos\<close> is already its float32 cast.
\<close>

theorem water_taxicab_pos_is_euclid_pos:
  assumes "data < length h"
    and "map_of (h ! data) ''Horizontal_Distance_To_Hydrology'' = Some a"
    and "map_of (h ! data) ''Vertical_Distance_To_Hydrology'' = Some b"
    and "map_of (h ! data) ''Elevation'' = Some c"
  shows "(\<exists>h'. water_features np data h = (Inr (length h), h') \<and>
           map_of (h' ! length h) ''Hydro_Taxicab_Pos''
             = Some (astype np Float32 (hydro_euclid_pos np a b)) \<and>
           map_of (h' ! length h) ''Hydro_Euclid_Pos''
             = Some (astype np Float32 (hydro_euclid_pos np a b)) \<and>
           map_of (h' ! length h) ''Hydro_Taxicab''
             = Some (astype np Float32
                 (s_add np (s_abs np (astype np Float64 a)) (s_abs np (astype np Float64 b))))) \<and>
         (\<exists>h1. water_features_before_store np data h = (Inr (length h), h1) \<and>
           map_of (h1 ! length h) ''Hydro_Taxicab_Pos''
             = Some (astype np Float32 (hydro_euclid_pos np a b)) \<and>
           map_of (h1 ! length h) ''Hydro_Euclid_Pos'' = Some (hydro_euclid_pos np a b))"
  using water_exec[OF assms, of np] by blast

lemma forest_water_columns:
  "map_of ([forest_frame] ! 0) ''Horizontal_Distance_To_Hydrology'' = Some (int64 [3, 0])"
  "map_of ([forest_frame] ! 0) ''Vertical_Distance_To_Hydrology'' = Some (int64 [4, -2])"
  "map_of ([forest_frame] ! 0) ''Elevation'' = Some (int64 [2500, 3000])"
  by (simp_all add: forest_frame_def)

theorem water_taxicab_pos_is_euclid_pos_witness:
  "(\<exists>h'. water_features numpy64 0 [forest_frame] = (Inr 1, h') \<and>
      map_of (h' ! 1) ''Hydro_Taxicab_Pos'' = map_of (h' ! 1) ''Hydro_Euclid_Pos'' \<and>
      map_of (h' ! 1) ''Hydro_Taxicab''
        = Some \<lparr>dtype = Float32, vals = [Some 7, Some 2]\<rparr>)"
proof -
  have d: "0 < length [forest_frame]" by simp
  have t: "astype numpy64 Float32
             (s_add numpy64 (s_abs numpy64 (astype numpy64 Float64 (int64 [3, 0])))
                (s_abs numpy64 (astype numpy64 Float64 (int64 [4, -2]))))
           = \<lparr>dtype = Float32, vals = [Some 7, Some 2]\<rparr>"
    by (simp add: astype_def s_add_def s_abs_def unary_def binary_def int64_def numpy64_def)
  from water_taxicab_pos_is_euclid_pos[OF d forest_water_columns, of numpy64]
  show ?thesis unfolding t by auto
qed

text \<open>
  C9 as stated fails: before the final casts the two columns differ, one is float32 and
  the other float64.
\<close>

theorem water_taxicab_pos_is_euclid_pos_counterexample:
  "fst (water_features_before_store numpy64 0 [forest_frame]) = Inr 1 \<and>
   dtype (the (map_of (snd (water_features_before_store numpy64 0 [forest_frame]) ! 1)
                 ''Hydro_Taxicab_Pos'')) = Float32 \<and>
   dtype (the (map_of (snd (water_features_before_store numpy64 0 [forest_frame]) ! 1)
                 ''Hydro_Euclid_Pos'')) = Float64 \<and>
   map_of (snd (water_features_before_store numpy64 0 [forest_frame]) ! 1) ''Hydro_Taxicab_Pos''
     \<noteq> map_of (snd (water_features_before_store numpy64 0 [forest_frame]) ! 1) ''Hydro_Euclid_Pos''"
proof -
  have d: "0 < length [forest_frame]" by simp
  from water_exec(1)[OF d forest_water_columns, of numpy64] obtain h1 where
    h1: "water_features_before_store numpy64 0 [forest_frame] = (Inr 1, h1)"
      "map_of (h1 ! 1) ''Hydro_Taxicab_Pos''
         = Some (astype numpy64 Float32 (hydro_euclid_pos numpy64 (int64 [3, 0]) (int64 [4, -2])))"
      "map_of (h1 ! 1) ''Hydro_Euclid_Pos''
         = Some (hydro_euclid_pos numpy64 (int64 [3, 0]) (int64 [4, -2]))"
    by auto
  have e: "dtype (hydro_euclid_pos numpy64 (int64 [3, 0]) (int64 [4, -2])) = Float64"
    by (simp add: hydro_euclid_pos_def s_sqrt_def unary_def numpy64_def)
  have t: "dtype (astype numpy64 Float32 (hydro_euclid_pos numpy64 (int64 [3, 0]) (int64 [4, -2])))
             = Float32"
    by (simp add: astype_def)
  have "astype numpy64 Float32 (hydro_euclid_pos numpy64 (int64 [3, 0]) (int64 [4, -2]))
          \<noteq> hydro_euclid_pos numpy64 (int64 [3, 0]) (int64 [4, -2])"
  proof
    assume "astype numpy64 Float32 (hydro_euclid_pos numpy64 (int64 [3, 0]) (int64 [4, -2]))
          = hydro_euclid_pos numpy64 (int64 [3, 0]) (int64 [4, -2])"
    then have "Float32 = Float64" using e t by simp
    then show False by simp
  qed
  then show ?thesis using h1 e t by simp
qed

text \<open>
  C4, amended. Each feature-engineering function leaves every frame it is given as it
  is and returns a new frame in which the columns it does not assign are those of its
  argument; the columns it assigns are the ones listed. For \<open>water_features\<close> they include
  two input columns, \<open>Horizontal_Distance_To_Hydrology\<close> and
  \<open>Vertical_Distance_To_Hydrology\<close>.
\<close>

theorem feature_functions_extend_a_copy:
  "pure_extension (aspect_features np) {''Aspect_360'', ''Aspect_Sine'', ''Aspect_Alt''} \<and>
   pure_extension (hillshade_features np)
     {''Hillshade_9am_Clipped'', ''Hillshade_Noon_Clipped'', ''Hillshade_3pm_Clipped'',
      ''Hillshade_Sum'', ''Hillshade_Range''} \<and>
   pure_extension (water_features np)
     {''Horizontal_Distance_To_Hydrology'', ''Vertical_Distance_To_Hydrology'',
      ''Hydro_Taxicab'', ''Hydro_Taxicab_Pos'', ''Hydro_Euclid'', ''Hydro_Euclid_Pos'',
      ''Water_Direction'', ''Water Elevation''} \<and>
   pure_extension (count_features np) {''Soil_Count'', ''Wilderness_Count''} \<and>
   pure_extension (hydrofire_interactions np)
     {''Hydro_Fire_Sum'', ''Hydro_Fire_AbsDiff'', ''Hydro_Fire_EpsSum'', ''Hydro_Fire_Diff''} \<and>
   pure_extension (roadway_interactions np)
     {''Hydro_Road_1'', ''Hydro_Road_2'', ''Fire_Road_1'', ''Fire_Road_2''} \<and>
   pure_extension (elevation_interactions np)
     {''Road_Elev_Int'', ''VHydro_Elev_Int'', ''Elev_VHydro_Diff'', ''Elev_HHydro_Diff''} \<and>
   pure_extension (create_row_stats np stats)
     {''binary_count'', ''binary_std'', ''min'', ''std'', ''max'', ''median'', ''mean'', ''skew'',
      ''median_abs_dev'', ''zscore''}"
  by (intro conjI aspect_pure hillshade_pure water_pure count_pure hydrofire_pure roadway_pure
      elevation_pure create_row_stats_pure)

text \<open>
  C4 as stated fails for \<open>water_features\<close>: the input column
  \<open>Horizontal_Distance_To_Hydrology\<close> is int64 and the column of the result is float32.
\<close>

theorem feature_functions_extend_a_copy_counterexample:
  "fst (water_features numpy64 0 [forest_frame]) = Inr 1 \<and>
   map_of ([forest_frame] ! 0) ''Horizontal_Distance_To_Hydrology''
     = Some \<lparr>dtype = Int64, vals = [Some 3, Some 0]\<rparr> \<and>
   map_of (snd (water_features numpy64 0 [forest_frame]) ! 1) ''Horizontal_Distance_To_Hydrology''
     = Some \<lparr>dtype = Float32, vals = [Some 3, Some 0]\<rparr>"
proof -
  have d: "0 < length [forest_frame]" by simp
  have c: "astype numpy64 Float32 (astype numpy64 Float64 (int64 [3, 0]))
             = \<lparr>dtype = Float32, vals = [Some 3, Some 0]\<rparr>"
    by (simp add: astype_def int64_def numpy64_def)
  have i: "int64 [3, 0] = \<lparr>dtype = Int64, vals = [Some 3, Some 0]\<rparr>"
    by (simp add: int64_def)
  from water_exec(2)[OF d forest_water_columns, of numpy64] obtain h' where
    r: "water_features numpy64 0 [forest_frame] = (Inr 1, h')"
    and hx: "map_of (h' ! 1) ''Horizontal_Distance_To_Hydrology''
        = Some (astype numpy64 Float32 (astype numpy64 Float64 (int64 [3, 0])))"
    by auto
  show ?thesis
    using hx[unfolded c] forest_water_columns(1)[unfolded i] by (simp add: r)
qed

theorem feature_functions_extend_a_copy_witness:
  "fst (water_features numpy64 0 [forest_frame]) = Inr 1 \<and>
   snd (water_features numpy64 0 [forest_frame]) ! 0 = forest_frame \<and>
   length (snd (water_features numpy64 0 [forest_frame])) = 2 \<and>
   map_of (snd (water_features numpy64 0 [forest_frame]) ! 1) ''Elevation''
     = Some (int64 [2500, 3000]) \<and>
   map_of (snd (water_features numpy64 0 [forest_frame]) ! 1) ''Hillshade_Noon''
     = Some (int64 [200, 220])"
proof -
  let ?W = "{''Horizontal_Distance_To_Hydrology'', ''Vertical_Distance_To_Hydrology'',
      ''Hydro_Taxicab'', ''Hydro_Taxicab_Pos'', ''Hydro_Euclid'', ''Hydro_Euclid_Pos'',
      ''Water_Direction'', ''Water Elevation''}"
  obtain res h' where r: "water_features numpy64 0 [forest_frame] = (res, h')"
    by (cases "water_features numpy64 0 [forest_frame]")
  have d: "0 < length [forest_frame]" by simp
  from water_exec(2)[OF d forest_water_columns, of numpy64] r
  have res: "res = Inr 1" by auto
  have p: "pure_extension (water_features numpy64) ?W"
    using feature_functions_extend_a_copy[of numpy64] by blast
  note pe = p[unfolded pure_extension_def, THEN spec, THEN spec, THEN mp, OF d,
      unfolded r prod.case]
  have keep: "\<forall>q<length [forest_frame]. h' ! q = [forest_frame] ! q"
    using pe by (rule conjunct1)
  note pe2 = pe[THEN conjunct2, THEN spec, THEN mp, OF res]
  have len: "length h' = Suc (length [forest_frame])"
    using pe2 by (elim conjE)
  have same: "\<forall>name. name \<notin> ?W \<longrightarrow>
      map_of (h' ! 1) name = map_of ([forest_frame] ! 0) name"
    using pe2 by (elim conjE)
  have e: "map_of (h' ! 1) ''Elevation'' = map_of ([forest_frame] ! 0) ''Elevation''"
    using same[THEN spec, of "''Elevation''"] by simp
  have n: "map_of (h' ! 1) ''Hillshade_Noon'' = map_of ([forest_frame] ! 0) ''Hillshade_Noon''"
    using same[THEN spec, of "''Hillshade_Noon''"] by simp
  have n': "map_of forest_frame ''Hillshade_Noon'' = Some (int64 [200, 220])"
    and e': "map_of forest_frame ''Elevation'' = Some (int64 [2500, 3000])"
    by (simp_all add: forest_frame_def)
  show ?thesis
    using res keep len e n by (simp add: r e' n')
qed

theorem create_row_stats_row_statistics_witness:
  "\<exists>h' binary_count mn mx med mean.
     create_row_stats numpy64 toy_statistics 0 [toy_frame] = (Inr 1, h') \<and>
     h' ! 0 = toy_frame \<and>
     map_of (h' ! 1) ''f0'' = Some (float64 [1, 4]) \<and>
     map_of (h' ! 1) ''binary_count'' = Some binary_count \<and>
     map_of (h' ! 1) ''min'' = Some mn \<and>
     map_of (h' ! 1) ''max'' = Some mx \<and>
     map_of (h' ! 1) ''median'' = Some med \<and>
     map_of (h' ! 1) ''mean'' = Some mean \<and>
     dtype binary_count = Int64 \<and>
     vals binary_count ! 0 = Some 2 \<and> vals binary_count ! 1 = Some 1 \<and>
     vals mn ! 0 = Some 1 \<and> vals mn ! 1 = Some 2 \<and>
     vals mx ! 0 = Some 11 \<and> vals mx ! 1 = Some 4 \<and>
     vals med ! 0 = Some 3 \<and> vals med ! 1 = Some 3 \<and>
     vals mean ! 0 = Some 5 \<and> vals mean ! 1 = Some 3"
proof -
  have d: "0 < length [toy_frame]" by simp
  have dist: "distinct (columns ([toy_frame] ! 0))"
    by (simp add: toy_frame_def columns_def)
  have cat: "[c \<leftarrow> map snd ([toy_frame] ! 0). is_int c] = [int64 [1, 0], int64 [1, 1]]"
    and cont: "[c \<leftarrow> map snd ([toy_frame] ! 0). \<not> is_int c]
                 = [float64 [1, 4], float64 [3, 2], \<lparr>dtype = Float64, vals = [Some 11, None]\<rparr>]"
    by (simp_all add: toy_frame_def is_int_def startswith_def int64_def float64_def)
  have n: "nrows ([toy_frame] ! 0) = 2"
    by (simp add: toy_frame_def nrows_def float64_def)
  have f0: "map_of ([toy_frame] ! 0) ''f0'' = Some (float64 [1, 4])"
    by (simp add: toy_frame_def)
  have rt: "result_type numpy64 ''sum'' (map (\<lambda>c. Arr (dtype c)) [int64 [1, 0], int64 [1, 1]]) = Int64"
    by (simp add: numpy64_def int64_def)
  have p: "present (row [int64 [1, 0], int64 [1, 1]] 0) = [1, 1]"
    "present (row [int64 [1, 0], int64 [1, 1]] 1) = [0, 1]"
    "present (row [float64 [1, 4], float64 [3, 2], \<lparr>dtype = Float64, vals = [Some 11, None]\<rparr>] 0)
       = [1, 3, 11]"
    "present (row [float64 [1, 4], float64 [3, 2], \<lparr>dtype = Float64, vals = [Some 11, None]\<rparr>] 1)
       = [4, 2]"
    by (simp_all add: row_def present_def int64_def float64_def)
  from create_row_stats_row_statistics[OF d dist, of numpy64 toy_statistics,
      unfolded cat cont n rt]
  obtain h' binary_count mn mx med mean where
    r: "create_row_stats numpy64 toy_statistics 0 [toy_frame] = (Inr (length [toy_frame]), h')"
      "h' ! 0 = [toy_frame] ! 0"
      "\<forall>name. name \<notin> {''binary_count'', ''binary_std'', ''min'', ''std'', ''max'', ''median'',
                      ''mean'', ''skew'', ''median_abs_dev'', ''zscore''} \<longrightarrow>
        map_of (h' ! length [toy_frame]) name = map_of ([toy_frame] ! 0) name"
      "map_of (h' ! length [toy_frame]) ''binary_count'' = Some binary_count"
      "map_of (h' ! length [toy_frame]) ''min'' = Some mn"
      "map_of (h' ! length [toy_frame]) ''max'' = Some mx"
      "map_of (h' ! length [toy_frame]) ''median'' = Some med"
      "map_of (h' ! length [toy_frame]) ''mean'' = Some mean"
      "dtype binary_count = Int64"
    and v: "\<forall>i<2.
        (let ints = present (row [int64 [1, 0], int64 [1, 1]] i);
             others = present (row [float64 [1, 4], float64 [3, 2],
                                    \<lparr>dtype = Float64, vals = [Some 11, None]\<rparr>] i)
         in
           (representable (dtype binary_count) (sum_list ints) \<longrightarrow>
              vals binary_count ! i = Some (sum_list ints)) \<and>
           (\<forall>lowest number.
              int_range (dtype binary_count) = Some (lowest, number) \<and>
              sum_list ints = of_int \<lfloor>sum_list ints\<rfloor> \<longrightarrow>
              (\<exists>k. vals binary_count ! i = Some (sum_list ints + of_int (k * number)) \<and>
                   representable (dtype binary_count) (sum_list ints + of_int (k * number)))) \<and>
           (others \<noteq> [] \<longrightarrow>
              vals mn ! i = Some (Min (set others)) \<and>
              vals mx ! i = Some (Max (set others)) \<and>
              (\<exists>s. sorted s \<and> mset s = mset others \<and>
                   vals med ! i
                     = Some (if even (length s)
                             then (s ! (length s div 2 - 1) + s ! (length s div 2)) / 2
                             else s ! (length s div 2))) \<and>
              vals mean ! i = Some (sum_list others / real (length others))) \<and>
           (others = [] \<longrightarrow>
              vals mn ! i = None \<and> vals mx ! i = None \<and> vals med ! i = None \<and>
              vals mean ! i = None))"
    by (elim exE conjE) (rule that; assumption)
  have rep: "representable Int64 2" "representable Int64 1"
    by (simp_all add: representable_def)
  have lt: "0 < (2 :: nat)" "1 < (2 :: nat)" by simp_all
  note v0 = v[THEN spec, of 0, THEN mp, OF lt(1), unfolded Let_def p r(9)]
  note v1 = v[THEN spec, of 1, THEN mp, OF lt(2), unfolded Let_def p r(9)]
  have b: "vals binary_count ! 0 = Some 2" "vals binary_count ! 1 = Some 1"
    using v0[THEN conjunct1] v1[THEN conjunct1] rep by simp_all
  note o0 = v0[THEN conjunct2, THEN conjunct2, THEN conjunct1, THEN mp, OF list.distinct(2)]
  note o1 = v1[THEN conjunct2, THEN conjunct2, THEN conjunct1, THEN mp, OF list.distinct(2)]
  have mm: "vals mn ! 0 = Some 1" "vals mx ! 0 = Some 11" "vals mean ! 0 = Some 5"
    "vals mn ! 1 = Some 2" "vals mx ! 1 = Some 4" "vals mean ! 1 = Some 3"
    using o0[THEN conjunct1] o0[THEN conjunct2, THEN conjunct1]
      o0[THEN conjunct2, THEN conjunct2, THEN conjunct2]
      o1[THEN conjunct1] o1[THEN conjunct2, THEN conjunct1]
      o1[THEN conjunct2, THEN conjunct2, THEN conjunct2]
    by simp_all
  from o0[THEN conjunct2, THEN conjunct2, THEN conjunct1]
  obtain s0 where s0: "sorted s0" "mset s0 = mset [1, 3, 11 :: real]"
    "vals med ! 0 = Some (if even (length s0)
                             then (s0 ! (length s0 div 2 - 1) + s0 ! (length s0 div 2)) / 2
                             else s0 ! (length s0 div 2))"
    by (elim exE conjE) (rule that; assumption)
  from o1[THEN conjunct2, THEN conjunct2, THEN conjunct1]
  obtain s1 where s1: "sorted s1" "mset s1 = mset [4, 2 :: real]"
    "vals med ! 1 = Some (if even (length s1)
                             then (s1 ! (length s1 div 2 - 1) + s1 ! (length s1 div 2)) / 2
                             else s1 ! (length s1 div 2))"
    by (elim exE conjE) (rule that; assumption)
  have e0: "s0 = [1, 3, 11]" using properties_for_sort[OF s0(2) s0(1)] by simp
  have e1: "s1 = [2, 4]" using properties_for_sort[OF s1(2) s1(1)] by simp
  have md: "vals med ! 0 = Some 3" "vals med ! 1 = Some 3"
    using s0(3) s1(3) by (simp_all add: e0 e1)
  have k: "map_of (h' ! 1) ''f0'' = Some (float64 [1, 4])"
    using r(3)[THEN spec, of "''f0''"] f0 by simp
  show ?thesis
    apply (rule exI[of _ h'])
    apply (rule exI[of _ binary_count])
    apply (rule exI[of _ mn])
    apply (rule exI[of _ mx])
    apply (rule exI[of _ med])
    apply (rule exI[of _ mean])
    using r(1,2,4-9) k b mm md apply simp
    done
qed

section \<open>The notebooks' top levels and the files they write\<close>

text \<open>
  A notebook is run from top to bottom: every step is a top-level statement (or a cell of
  several), it transforms the variables of the session or raises, and a raise stops the
  run. The only files the notebooks write are written by \<open>DataFrame.to_csv\<close>; the
  output directory is a list of paths with the frame written there, and writing to a path
  creates the file or replaces it. The frames read by the loading cells
  (\<open>train\<close>, \<open>test\<close>, \<open>submission = pd.read_csv('../data/sample_submission.csv')\<close>)
  are parameters, as are the estimators.
\<close>

type_synonym 'c files = "(string \<times> 'c list frame) list"

definition run :: "('s \<Rightarrow> error + 's) list \<Rightarrow> 's \<Rightarrow> error + 's" where
  "run steps st = for_each (\<lambda>st step. step st) steps st"

definition to_csv :: "'c list frame \<Rightarrow> string \<Rightarrow> 'c files \<Rightarrow> 'c files" where
  "to_csv df path fs = AList.update path df fs"

text \<open>
  \<open>df[key] = val\<close> for an array: a column is replaced in place or appended, and an array
  whose length is not the number of rows is a ValueError. The number of rows is read from
  the first column; a frame without columns takes the array as its only column.
\<close>

definition setitem :: "'c list frame \<Rightarrow> string \<Rightarrow> 'c list \<Rightarrow> error + 'c list frame" where
  "setitem df key val =
     (case df of
        [] \<Rightarrow> Inr [(key, val)]
      | (c, v) # rest \<Rightarrow>
          if length val = length v then Inr (AList.update key val df) else Inl ValueError)"

text \<open>
  \<open>df[key] = s\<close> for a Series \<open>s\<close>: pandas aligns the series with the index of the
  frame instead of comparing lengths. Both carry the default index \<open>0, 1, ...\<close> here, so
  the series is cut to the number of rows, or filled up with \<open>NaN\<close>.
\<close>

definition setitem_series :: "'c \<Rightarrow> 'c list frame \<Rightarrow> string \<Rightarrow> 'c list \<Rightarrow> 'c list frame" where
  "setitem_series NaN df key s =
     (case df of
        [] \<Rightarrow> [(key, s)]
      | (c, v) # rest \<Rightarrow>
          AList.update key (take (length v) s @ replicate (length v - length s) NaN) df)"

text \<open>
  \<open>str(n)\<close> of a natural number, for the paths built with an f-string.
\<close>

fun str :: "nat \<Rightarrow> string" where
  "str n = (if n < 10 then [''0123456789'' ! n]
            else str (n div 10) @ [''0123456789'' ! (n mod 10)])"

declare str.simps [simp del]

subsection \<open>Notebook 2 (Handling Noisy Labels)\<close>

text \<open>
  Each estimator has two cells of this form, one with \<open>train_model\<close> and one with
  \<open>train_noisy_model\<close>:
  \<^verbatim>\<open>
  logit_scores, logit_preds, logit_oof = train_model(logit_pipeline)
  submission['target'] = logit_preds
  submission.to_csv('../output/logit_submission.csv', index=False)
  \<close>
  The session state is the frame \<open>submission\<close> and the output directory.
\<close>

definition submission_cell ::
  "(error + real list cv_state) \<Rightarrow> string \<Rightarrow>
     real list frame \<times> real files \<Rightarrow> error + real list frame \<times> real files" where
  "submission_cell harness path =
     (\<lambda>(submission, fs).
        bindE harness (\<lambda>s.
        bindE (setitem submission ''target'' (test_preds s)) (\<lambda>submission.
          Inr (submission, to_csv submission path fs))))"

text \<open>
  The fourteen training cells in the order of the notebook, each as the path it writes and
  the call whose test predictions it writes.
\<close>

definition Notebook_2_cells ::
  "('e, 'm, 'x, 'y) sklearn \<Rightarrow> ('e \<Rightarrow> 'e) \<Rightarrow> nat \<Rightarrow> (nat list \<times> nat list) list \<Rightarrow>
     'x list \<Rightarrow> 'y list \<Rightarrow> 'x list \<Rightarrow> 'e \<Rightarrow> 'e \<Rightarrow> 'e \<Rightarrow> 'e \<Rightarrow> 'e \<Rightarrow> 'e \<Rightarrow> 'e \<Rightarrow>
     (string \<times> (error + real list cv_state)) list" where
  "Notebook_2_cells sk LearningWithNoisyLabels NUM_FOLDS folds train_X train_y test_X
       logit_pipeline ridge_pipeline lda_pipeline sgd_pipeline nb_pipeline mlp_pipeline
       xgb_pipeline =
       [(''../output/logit_submission.csv'',
         train_model sk NUM_FOLDS folds train_X train_y test_X logit_pipeline),
        (''../output/noisy_logit_submission.csv'',
         train_noisy_model sk LearningWithNoisyLabels NUM_FOLDS folds train_X train_y test_X
           logit_pipeline),
        (''../output/ridge_submission.csv'',
         train_model sk NUM_FOLDS folds train_X train_y test_X ridge_pipeline),
        (''../output/noisy_ridge_submission.csv'',
         train_noisy_model sk LearningWithNoisyLabels NUM_FOLDS folds train_X train_y test_X
           ridge_pipeline),
        (''../output/lda_submission.csv'',
         train_model sk NUM_FOLDS folds train_X train_y test_X lda_pipeline),
        (''../output/noisy_lda_submission.csv'',
         train_noisy_model sk LearningWithNoisyLabels NUM_FOLDS folds train_X train_y test_X
           lda_pipeline),
        (''../output/sgd_submission.csv'',
         train_model sk NUM_FOLDS folds train_X train_y test_X sgd_pipeline),
        (''../output/noisy_sgd_submission.csv'',
         train_noisy_model sk LearningWithNoisyLabels NUM_FOLDS folds train_X train_y test_X
           sgd_pipeline),
        (''../output/nb_submission.csv'',
         train_model sk NUM_FOLDS folds train_X train_y test_X nb_pipeline),
        (''../output/noisy_nb_submission.csv'',
         train_noisy_model sk LearningWithNoisyLabels NUM_FOLDS folds train_X train_y test_X
           nb_pipeline),
        (''../output/mlp_submission.csv'',
         train_model sk NUM_FOLDS folds train_X train_y test_X mlp_pipeline),
        (''../output/noisy_mlp_submission.csv'',
         train_noisy_model sk LearningWithNoisyLabels NUM_FOLDS folds train_X train_y test_X
           mlp_pipeline),
        (''../output/xgb_submission.csv'',
         train_model sk NUM_FOLDS folds train_X train_y test_X xgb_pipeline),
        (''../output/noisy_xgb_submission.csv'',
         train_noisy_model sk LearningWithNoisyLabels NUM_FOLDS folds train_X train_y test_X
           xgb_pipeline)]"

definition Notebook_2 ::
  "('e, 'm, 'x, 'y) sklearn \<Rightarrow> ('e \<Rightarrow> 'e) \<Rightarrow> nat \<Rightarrow> (nat list \<times> nat list) list \<Rightarrow>
     'x list \<Rightarrow> 'y list \<Rightarrow> 'x list \<Rightarrow> 'e \<Rightarrow> 'e \<Rightarrow> 'e \<Rightarrow> 'e \<Rightarrow> 'e \<Rightarrow> 'e \<Rightarrow> 'e \<Rightarrow>
     real list frame \<Rightarrow> real files \<Rightarrow> error + real list frame \<times> real files" where
  "Notebook_2 sk LearningWithNoisyLabels NUM_FOLDS folds train_X train_y test_X
       logit_pipeline ridge_pipeline lda_pipeline sgd_pipeline nb_pipeline mlp_pipeline
       xgb_pipeline submission fs =
     run
       (map (\<lambda>(path, harness). submission_cell harness path)
          (Notebook_2_cells sk LearningWithNoisyLabels NUM_FOLDS folds train_X train_y test_X
             logit_pipeline ridge_pipeline lda_pipeline sgd_pipeline nb_pipeline mlp_pipeline
             xgb_pipeline))
       (submission, fs)"

subsection \<open>Notebook 2b (XGBoost Feature Engineering) and its two variants\<close>

text \<open>
  The notebook scores the baseline and seven feature functions, one cell each:
  \<^verbatim>\<open>
  cv_score, oof_preds, test_score, fi_scores = score_features(xgb_pipeline, aspect_features)
  new_rows.append(('Aspect_Features', cv_score, test_score,
                   *recall_score(y_train, oof_preds, average = None)))
  \<close>
  and ends with a table of \<open>new_rows\<close>. No cell writes a file. The feature functions
  enter through what they do to the rows handed to \<open>score_features\<close>; the recall columns
  of the table are left out. The two feature-engineering notebooks of December 2021 with
  other estimators have the same cells.
\<close>

definition score_cell ::
  "(error + real \<times> real list \<times> real) \<Rightarrow> string \<Rightarrow>
     (string \<times> real \<times> real) list \<times> 'c files \<Rightarrow> error + (string \<times> real \<times> real) list \<times> 'c files" where
  "score_cell harness name =
     (\<lambda>(new_rows, fs).
        bindE harness (\<lambda>(cv_score, oof_preds, test_score).
          Inr (new_rows @ [(name, cv_score, test_score)], fs)))"

definition Notebook_2b ::
  "('e, 'm, 'x, 'y) sklearn \<Rightarrow> nat \<Rightarrow> (nat list \<times> nat list) list \<Rightarrow>
     'x list \<Rightarrow> 'y list \<Rightarrow> 'x list \<Rightarrow> 'y list \<Rightarrow> 'e \<Rightarrow>
     ('x list \<Rightarrow> error + 'x list) \<Rightarrow> ('x list \<Rightarrow> error + 'x list) \<Rightarrow>
     ('x list \<Rightarrow> error + 'x list) \<Rightarrow> ('x list \<Rightarrow> error + 'x list) \<Rightarrow>
     ('x list \<Rightarrow> error + 'x list) \<Rightarrow> ('x list \<Rightarrow> error + 'x list) \<Rightarrow>
     ('x list \<Rightarrow> error + 'x list) \<Rightarrow>
     'c files \<Rightarrow> error + (string \<times> real \<times> real) list \<times> 'c files" where
  "Notebook_2b sk NUM_FOLDS folds train_X train_y test_X test_y xgb_pipeline
       aspect hillshade water counts hydrofire roadway elevation fs =
     run
       [score_cell
          (score_features sk NUM_FOLDS folds None train_X train_y test_X test_y xgb_pipeline)
          ''Baseline'',
        score_cell
          (score_features sk NUM_FOLDS folds (Some aspect) train_X train_y test_X test_y
             xgb_pipeline)
          ''Aspect_Features'',
        score_cell
          (score_features sk NUM_FOLDS folds (Some hillshade) train_X train_y test_X test_y
             xgb_pipeline)
          ''Hillshade_Features'',
        score_cell
          (score_features sk NUM_FOLDS folds (Some water) train_X train_y test_X test_y
             xgb_pipeline)
          ''Water_Features'',
        score_cell
          (score_features sk NUM_FOLDS folds (Some counts) train_X train_y test_X test_y
             xgb_pipeline)
          ''Count_Features'',
        score_cell
          (score_features sk NUM_FOLDS folds (Some hydrofire) train_X train_y test_X test_y
             xgb_pipeline)
          ''Water_Fire'',
        score_cell
          (score_features sk NUM_FOLDS folds (Some roadway) train_X train_y test_X test_y
             xgb_pipeline)
          ''Road_Interactions'',
        score_cell
          (score_features sk NUM_FOLDS folds (Some elevation) train_X train_y test_X test_y
             xgb_pipeline)
          ''Elev_Interactions'']
       ([], fs)"

subsection \<open>Notebook 8 (Class Probabilities)\<close>

text \<open>
  \<open>encoder.inverse_transform(y)\<close> of a fitted LabelEncoder with the classes
  \<open>classes\<close>: a label that is not a position of \<open>classes\<close> is a ValueError.
\<close>

definition inverse_transform :: "'l list \<Rightarrow> nat list \<Rightarrow> error + 'l list" where
  "inverse_transform classes y =
     (if \<forall>i \<in> set y. i < length classes then Inr (map (\<lambda>i. classes ! i) y)
      else Inl ValueError)"

text \<open>
  \<open>a + b\<close> on one-dimensional arrays, where the array of length one is repeated, and
  \<open>M + b\<close> for a two-dimensional \<open>M\<close>, which adds \<open>b\<close> to every row. An array without
  rows has no row length in this model, and adding to it returns it.
\<close>

definition add :: "real list \<Rightarrow> real list \<Rightarrow> error + real list" where
  "add a b =
     (let n = (if length a = 1 then length b else length a)
      in bindE (broadcast a n) (\<lambda>a'.
         bindE (broadcast b n) (\<lambda>b'. Inr (map2 (+) a' b'))))"

definition add_rows :: "real list list \<Rightarrow> real list \<Rightarrow> error + real list list" where
  "add_rows M b = sequenceE (map (\<lambda>r. add r b) M)"

text \<open>
  Each of the three estimators has a cell that scores it and a cell that shifts the class
  probabilities and writes the predictions:
  \<^verbatim>\<open>
  oof_preds, test_proba = score_model(ExtraTreesClassifier(**EXT_PARAMS))
  y_preds = encoder.inverse_transform(np.argmax(test_proba, axis=1))
  \<close>
  \<^verbatim>\<open>
  new_proba = test_proba + np.array([0, 0, 0.01, 0.03, 0, 0, 0, 0, 0, 0])
  y_preds = encoder.inverse_transform(np.argmax(new_proba, axis=1))
  submission['target'] = y_preds
  submission.to_csv('../submissions/extratrees_tweaked.csv', index=False)
  \<close>
  The two cells are one step here; \<open>classes\<close> is \<open>encoder.classes_\<close>. The three
  pairs of cells are listed in the order of the notebook, each as the path written, the
  call that scores the estimator and the shift of the probabilities.
\<close>

definition tweak_cell ::
  "(error + real list \<times> real list list) \<Rightarrow> real list \<Rightarrow> 'l list \<Rightarrow> string \<Rightarrow>
     'l list frame \<times> 'l files \<Rightarrow> error + 'l list frame \<times> 'l files" where
  "tweak_cell harness bias classes path =
     (\<lambda>(submission, fs).
        bindE harness (\<lambda>(oof_preds, test_proba).
        bindE (sequenceE (map argmax test_proba)) (\<lambda>labels.
        bindE (inverse_transform classes labels) (\<lambda>y_preds.
        bindE (add_rows test_proba bias) (\<lambda>new_proba.
        bindE (sequenceE (map argmax new_proba)) (\<lambda>labels.
        bindE (inverse_transform classes labels) (\<lambda>y_preds.
        bindE (setitem submission ''target'' y_preds) (\<lambda>submission.
          Inr (submission, to_csv submission path fs)))))))))"

definition Notebook_8_cells ::
  "('e, 'm, 'x, 'y) sklearn \<Rightarrow> nat \<Rightarrow> (nat list \<times> nat list) list \<Rightarrow>
     'x list \<Rightarrow> 'y list \<Rightarrow> real list \<Rightarrow> 'x list \<Rightarrow> 'e \<Rightarrow> 'e \<Rightarrow> 'e \<Rightarrow>
     (string \<times> (error + real list \<times> real list list) \<times> real list) list" where
  "Notebook_8_cells sk NUM_FOLDS folds train_X train_y sample_weight test_X
       ExtraTrees Bagging FourResolutions =
       [(''../submissions/extratrees_tweaked.csv'',
         score_model sk NUM_FOLDS folds train_X train_y sample_weight test_X ExtraTrees,
         [0, 0, 0.01, 0.03, 0, 0, 0, 0, 0, 0]),
        (''../submissions/bagging_tweaked.csv'',
         score_model sk NUM_FOLDS folds train_X train_y sample_weight test_X Bagging,
         [0, 0, 0.01, 0.022, 0, 0, 0, 0, 0, 0]),
        (''../submissions/four_models_tweaked.csv'',
         score_model sk NUM_FOLDS folds train_X train_y sample_weight test_X FourResolutions,
         [0, 0, 0.015, 0.035, 0, 0, 0, 0, 0, 0])]"

definition Notebook_8 ::
  "('e, 'm, 'x, 'y) sklearn \<Rightarrow> nat \<Rightarrow> (nat list \<times> nat list) list \<Rightarrow>
     'x list \<Rightarrow> 'y list \<Rightarrow> real list \<Rightarrow> 'x list \<Rightarrow> 'e \<Rightarrow> 'e \<Rightarrow> 'e \<Rightarrow> 'l list \<Rightarrow>
     'l list frame \<Rightarrow> 'l files \<Rightarrow> error + 'l list frame \<times> 'l files" where
  "Notebook_8 sk NUM_FOLDS folds train_X train_y sample_weight test_X
       ExtraTrees Bagging FourResolutions classes submission fs =
     run
       (map (\<lambda>(path, harness, bias). tweak_cell harness bias classes path)
          (Notebook_8_cells sk NUM_FOLDS folds train_X train_y sample_weight test_X
             ExtraTrees Bagging FourResolutions))
       (submission, fs)"

subsection \<open>The stacking notebook\<close>

text \<open>
  The training functions of this notebook (\<open>train_xgboost\<close>, \<open>train_lightgbm\<close>,
  \<open>train_catboost\<close>, \<open>train_histgbm\<close>, each called with \<open>model_params\<close> and
  \<open>new_features\<close>) and its two stacking functions, which read the frames \<open>oof_preds\<close>
  and \<open>test_preds\<close>, are parameters. The session state is the two frames of
  predictions, \<open>submission\<close> and the output directory. The first cell of the notebook sets
  \<open>SUBMIT = True\<close> and \<open>NUM_FOLDS = 3\<close>.
  \<^verbatim>\<open>
  oof_preds = pd.DataFrame(data = dict(kfold = train['kfold']))
  test_preds = pd.DataFrame(data = dict(id = test['id']))
  ...
  test_preds['XGBoost'], oof_preds['XGBoost'] = train_xgboost()
  test_preds['XGB_Hist'], oof_preds['XGB_Hist'] = train_xgboost(model_params = dict(tree_method = 'hist'))
  test_preds['XGB_Stats'], oof_preds['XGB_Stats'] = train_xgboost(new_features = True)
  ...
  submission['target'] = test_preds['XGBoost']
  if SUBMIT: submission.to_csv(f'../output/xgboost_cpu_{NUM_FOLDS}fold_submission.csv', index=False)
  ...
  submission['target'] = stack_lightgbm()
  if SUBMIT: submission.to_csv(f'../output/stack_lgbm_{NUM_FOLDS}fold_submission.csv', index=False)
  \<close>
\<close>

type_synonym stacking =
  "real list frame \<times> real list frame \<times> real list frame \<times> real files"

definition train_step :: "(error + real list \<times> real list) \<Rightarrow> string \<Rightarrow> stacking \<Rightarrow> error + stacking" where
  "train_step harness name =
     (\<lambda>(test_preds, oof_preds, submission, fs).
        bindE harness (\<lambda>(preds, oof).
        bindE (setitem test_preds name preds) (\<lambda>test_preds.
        bindE (setitem oof_preds name oof) (\<lambda>oof_preds.
          Inr (test_preds, oof_preds, submission, fs)))))"

definition model_submission :: "real \<Rightarrow> string \<Rightarrow> bool \<Rightarrow> string \<Rightarrow> stacking \<Rightarrow> error + stacking" where
  "model_submission NaN name SUBMIT path =
     (\<lambda>(test_preds, oof_preds, submission, fs).
        bindE (getitem test_preds name) (\<lambda>s.
          let submission = setitem_series NaN submission ''target'' s
          in Inr (test_preds, oof_preds, submission,
                  if SUBMIT then to_csv submission path fs else fs)))"

definition stack_submission ::
  "(real list frame \<Rightarrow> real list frame \<Rightarrow> error + real list) \<Rightarrow> bool \<Rightarrow> string \<Rightarrow>
     stacking \<Rightarrow> error + stacking" where
  "stack_submission stack SUBMIT path =
     (\<lambda>(test_preds, oof_preds, submission, fs).
        bindE (stack oof_preds test_preds) (\<lambda>preds.
        bindE (setitem submission ''target'' preds) (\<lambda>submission.
          Inr (test_preds, oof_preds, submission,
               if SUBMIT then to_csv submission path fs else fs))))"

definition Stacking ::
  "real \<Rightarrow> bool \<Rightarrow> nat \<Rightarrow>
     ((string \<times> string) list \<Rightarrow> bool \<Rightarrow> error + real list \<times> real list) \<Rightarrow>
     ((string \<times> string) list \<Rightarrow> bool \<Rightarrow> error + real list \<times> real list) \<Rightarrow>
     ((string \<times> string) list \<Rightarrow> bool \<Rightarrow> error + real list \<times> real list) \<Rightarrow>
     ((string \<times> string) list \<Rightarrow> bool \<Rightarrow> error + real list \<times> real list) \<Rightarrow>
     (real list frame \<Rightarrow> real list frame \<Rightarrow> error + real list) \<Rightarrow>
     (real list frame \<Rightarrow> real list frame \<Rightarrow> error + real list) \<Rightarrow>
     real list \<Rightarrow> real list \<Rightarrow> real list frame \<Rightarrow> real files \<Rightarrow> error + stacking" where
  "Stacking NaN SUBMIT NUM_FOLDS train_xgboost train_lightgbm train_catboost train_histgbm
       stack_lightgbm stack_xgboost kfold test_id submission fs =
     run
       [train_step (train_xgboost [] False) ''XGBoost'',
        train_step (train_xgboost [(''tree_method'', ''hist'')] False) ''XGB_Hist'',
        train_step (train_xgboost [] True) ''XGB_Stats'',
        train_step (train_lightgbm [] False) ''LightGBM'',
        train_step (train_lightgbm [] True) ''LGBM_Stats'',
        train_step (train_catboost [] False) ''CatBoost'',
        train_step (train_catboost [] True) ''Cat_Stats'',
        train_step (train_histgbm [] False) ''HistGBM'',
        train_step (train_histgbm [] True) ''Hist_Stats'',
        model_submission NaN ''XGBoost'' SUBMIT
          (''../output/xgboost_cpu_'' @ str NUM_FOLDS @ ''fold_submission.csv''),
        model_submission NaN ''CatBoost'' SUBMIT
          (''../output/catboost_cpu_'' @ str NUM_FOLDS @ ''fold_submission.csv''),
        stack_submission stack_lightgbm SUBMIT
          (''../output/stack_lgbm_'' @ str NUM_FOLDS @ ''fold_submission.csv''),
        stack_submission stack_xgboost SUBMIT
          (''../output/stack_xgb_'' @ str NUM_FOLDS @ ''fold_submission.csv'')]
       ([(''id'', test_id)], [(''kfold'', kfold)], submission, fs)"

subsection \<open>The neural-network baseline\<close>

text \<open>
  The notebook has one training cell, of the form of those of Notebook 2; its
  \<open>train_model\<close>, which scales the features in every fold, is a parameter.
  \<^verbatim>\<open>
  scores, test_preds, oof_preds = train_model(baseline_model)
  submission['target'] = test_preds
  submission.to_csv('../output/simple_nn_submission.csv', index=False)
  \<close>
\<close>

definition Neural_Network_Baseline ::
  "('e \<Rightarrow> error + real list cv_state) \<Rightarrow> 'e \<Rightarrow> real list frame \<Rightarrow> real files \<Rightarrow>
     error + real list frame \<times> real files" where
  "Neural_Network_Baseline nn_train_model baseline_model submission fs =
     run [submission_cell (nn_train_model baseline_model) ''../output/simple_nn_submission.csv'']
       (submission, fs)"

subsection \<open>The baselines and the feature-engineering notebook of October 2021\<close>

text \<open>
  Both notebooks call their scoring functions and print or tabulate the scores:
  \<^verbatim>\<open>
  lgbm_score, lgbm_time = score_lightgbm()
  print("Holdout (AUC):", lgbm_score)
  \<close>
  \<^verbatim>\<open>
  stats_score, stats_time, model = score_lightgbm(row_stats)
  data['scores'].append(stats_score)
  \<close>
  The session state is the list of scores and the output directory. The two scoring
  functions of the baselines are parameters; the preprocessing functions of the
  feature-engineering notebook enter as the arguments of \<open>score_lightgbm\<close>. That notebook sets
  \<open>SUBMIT = True\<close> and never reads it.
\<close>

definition report_cell ::
  "(error + real \<times> 'r) \<Rightarrow> real list \<times> 'c files \<Rightarrow> error + real list \<times> 'c files" where
  "report_cell harness =
     (\<lambda>(scores, fs). bindE harness (\<lambda>(score, rest). Inr (scores @ [score], fs)))"

definition Baselines ::
  "(error + real \<times> real) \<Rightarrow> (error + real \<times> real) \<Rightarrow> 'c files \<Rightarrow> error + real list \<times> 'c files" where
  "Baselines lgbm_baseline histgbm_baseline fs =
     run [report_cell lgbm_baseline, report_cell histgbm_baseline] ([], fs)"

definition Feature_Engineering ::
  "('x list \<Rightarrow> 'y list \<Rightarrow> 'x list \<Rightarrow> 'y list \<Rightarrow> 'm) \<Rightarrow> ('m \<Rightarrow> 'x list \<Rightarrow> real list list) \<Rightarrow>
     ('y list \<Rightarrow> real list \<Rightarrow> real) \<Rightarrow> nat \<Rightarrow> (nat list \<times> nat list) list \<Rightarrow>
     'x list \<Rightarrow> 'y list \<Rightarrow> 'x list \<Rightarrow> 'y list \<Rightarrow>
     ('x list \<Rightarrow> 'x list \<Rightarrow> 'x list \<Rightarrow> 'y list option \<Rightarrow> error + 'x list \<times> 'x list \<times> 'x list) list \<Rightarrow>
     'c files \<Rightarrow> error + real list \<times> 'c files" where
  "Feature_Engineering lgbm_fit lgbm_predict_proba lgbm_roc_auc NUM_FOLDS folds
       train_X train_y holdout_X holdout_y preprocessings fs =
     run
       (report_cell
          (score_lightgbm lgbm_fit lgbm_predict_proba lgbm_roc_auc NUM_FOLDS folds None
             train_X train_y holdout_X holdout_y)
        # map (\<lambda>preprocessing.
                 report_cell
                   (score_lightgbm lgbm_fit lgbm_predict_proba lgbm_roc_auc NUM_FOLDS folds
                      (Some preprocessing) train_X train_y holdout_X holdout_y))
            preprocessings)
       ([], fs)"

subsection \<open>What a run has written\<close>

text \<open>
  \<open>has_rows df n\<close>: the frame has \<open>n\<close> rows, or no column yet.
  \<open>written fs path submission preds\<close>: the directory holds a file at \<open>path\<close> whose
  \<open>target\<close> column is \<open>preds\<close> and whose other columns are those of \<open>submission\<close>.
  \<open>writes_file step path preds n\<close>: on every frame of \<open>n\<close> rows the step returns, sets
  the \<open>target\<close> column to \<open>preds\<close> and writes the frame to \<open>path\<close>.
\<close>

definition has_rows :: "'c list frame \<Rightarrow> nat \<Rightarrow> bool" where
  "has_rows df n = (case df of [] \<Rightarrow> True | (c, v) # rest \<Rightarrow> length v = n)"

definition written :: "'c files \<Rightarrow> string \<Rightarrow> 'c list frame \<Rightarrow> 'c list \<Rightarrow> bool" where
  "written fs path submission preds =
     (case map_of fs path of
        None \<Rightarrow> False
      | Some df \<Rightarrow>
          map_of df ''target'' = Some preds \<and>
          (\<forall>c \<in> set (columns submission). c \<noteq> ''target'' \<longrightarrow> map_of df c = map_of submission c))"

definition writes_file ::
  "('c list frame \<times> 'c files \<Rightarrow> error + 'c list frame \<times> 'c files) \<Rightarrow> string \<Rightarrow> 'c list \<Rightarrow> nat \<Rightarrow> bool" where
  "writes_file step path preds n \<longleftrightarrow>
     (\<forall>sub fs. has_rows sub n \<longrightarrow>
        (\<exists>sub'. step (sub, fs) = Inr (sub', to_csv sub' path fs) \<and> has_rows sub' n \<and>
                map_of sub' = (map_of sub)(''target'' \<mapsto> preds)))"

text \<open>
  An estimator with ten classes and a split of ten rows, for concrete runs of Notebook 8.
\<close>

definition toy_sklearn10 :: "(unit, real, nat, nat) sklearn" where
  "toy_sklearn10 =
     toy_sklearn\<lparr>predict_proba := (\<lambda>m X. map (\<lambda>x. [0, m, 0, 0, 0, 0, 0, 0, 0, 0]) X)\<rparr>"

definition toy_folds10 :: "(nat list \<times> nat list) list" where
  "toy_folds10 = [([1, 3, 5, 7, 9], [0, 2, 4, 6, 8]), ([0, 2, 4, 6, 8], [1, 3, 5, 7, 9])]"

subsection \<open>The files of each notebook\<close>

lemma run_Nil: "run [] st = Inr st"
  by (simp add: run_def)

lemma run_Cons: "run (step # steps) st = bindE (step st) (run steps)"
proof -
  have "run steps = for_each (\<lambda>st step. step st) steps"
    by (rule ext) (simp add: run_def)
  then show ?thesis by (simp add: run_def)
qed

lemma has_rows_update:
  "has_rows df n \<Longrightarrow> length val = n \<Longrightarrow> has_rows (AList.update key val df) n"
  by (cases df) (auto simp: has_rows_def)

lemma setitem_ok:
  assumes "has_rows df n" "length val = n"
  shows "\<exists>df'. setitem df key val = Inr df' \<and> has_rows df' n \<and>
           map_of df' = (map_of df)(key \<mapsto> val)"
proof (cases df)
  case Nil
  then show ?thesis using assms by (simp add: setitem_def has_rows_def)
next
  case (Cons a rest)
  obtain c v where a: "a = (c, v)" by (cases a)
  have "setitem df key val = Inr (AList.update key val df)"
    using assms Cons a by (simp add: setitem_def has_rows_def)
  then show ?thesis
    using has_rows_update[OF assms] by (simp add: update_conv')
qed

lemma setitem_series_ok:
  assumes "has_rows df n" "length s = n"
  shows "has_rows (setitem_series NaN df key s) n \<and>
         map_of (setitem_series NaN df key s) = (map_of df)(key \<mapsto> s)"
proof (cases df)
  case Nil
  then show ?thesis using assms by (simp add: setitem_series_def has_rows_def)
next
  case (Cons a rest)
  obtain c v where a: "a = (c, v)" by (cases a)
  have "setitem_series NaN df key s = AList.update key s df"
    using assms Cons a by (simp add: setitem_series_def has_rows_def)
  then show ?thesis
    using has_rows_update[OF assms] by (simp add: update_conv')
qed

lemma submission_cell_writes:
  assumes "harness = Inr s" "length (test_preds s) = n"
  shows "writes_file (submission_cell harness path) path (test_preds s) n"
  unfolding writes_file_def
proof (intro allI impI)
  fix sub :: "real list frame" and fs :: "real files"
  assume "has_rows sub n"
  from setitem_ok[OF this assms(2), of "''target''"] obtain sub' where
    "setitem sub ''target'' (test_preds s) = Inr sub'" "has_rows sub' n"
    "map_of sub' = (map_of sub)(''target'' \<mapsto> test_preds s)" by blast
  then show "\<exists>sub'. submission_cell harness path (sub, fs) = Inr (sub', to_csv sub' path fs) \<and>
       has_rows sub' n \<and> map_of sub' = (map_of sub)(''target'' \<mapsto> test_preds s)"
    using assms(1) by (simp add: submission_cell_def)
qed

lemma written_to_csv:
  assumes "map_of sub' = (map_of sub)(''target'' \<mapsto> preds)"
  shows "written (to_csv sub' path fs) path sub preds"
  using assms by (simp add: written_def to_csv_def update_conv')

lemma written_cong:
  assumes "written fs path sub' preds" "\<forall>c. c \<noteq> ''target'' \<longrightarrow> map_of sub' c = map_of sub c"
  shows "written fs path sub preds"
proof -
  have "c \<in> set (columns sub')" if "c \<in> set (columns sub)" "c \<noteq> ''target''" for c
  proof -
    from that(1) have "map_of sub c \<noteq> None"
      by (simp add: columns_def map_of_eq_None_iff)
    with assms(2) that(2) have "map_of sub' c \<noteq> None" by simp
    then show ?thesis by (simp add: columns_def map_of_eq_None_iff)
  qed
  with assms show ?thesis
    by (auto simp: written_def split: option.splits)
qed

lemma run_writes:
  assumes "\<forall>(step, path, preds) \<in> set cells. writes_file step path preds n"
    and "distinct (map (\<lambda>(step, path, preds). path) cells)"
    and "has_rows sub n"
  shows "\<exists>sub' fs'. run (map fst cells) (sub, fs) = Inr (sub', fs') \<and> has_rows sub' n \<and>
           (\<forall>c. c \<noteq> ''target'' \<longrightarrow> map_of sub' c = map_of sub c) \<and>
           (\<forall>(step, path, preds) \<in> set cells. written fs' path sub preds) \<and>
           (\<forall>p. p \<notin> set (map (\<lambda>(step, path, preds). path) cells) \<longrightarrow> map_of fs' p = map_of fs p)"
  using assms
proof (induction cells arbitrary: sub fs)
  case Nil
  then show ?case by (simp add: run_Nil)
next
  case (Cons a cells)
  obtain step path preds where a: "a = (step, path, preds)" by (cases a)
  from Cons.prems(1) a have w: "writes_file step path preds n" by simp
  from w Cons.prems(3) obtain sub1 where
    s1: "step (sub, fs) = Inr (sub1, to_csv sub1 path fs)" and h1: "has_rows sub1 n"
    and m1: "map_of sub1 = (map_of sub)(''target'' \<mapsto> preds)"
    unfolding writes_file_def by blast
  from Cons.prems(1) have p1: "\<forall>(step, path, preds) \<in> set cells. writes_file step path preds n"
    by simp
  from Cons.prems(2) a have d: "distinct (map (\<lambda>(step, path, preds). path) cells)"
    and np: "path \<notin> set (map (\<lambda>(step, path, preds). path) cells)" by simp_all
  from Cons.IH[OF p1 d h1, of "to_csv sub1 path fs"] obtain sub' fs' where
    r: "run (map fst cells) (sub1, to_csv sub1 path fs) = Inr (sub', fs')" and h': "has_rows sub' n"
    and c': "\<forall>c. c \<noteq> ''target'' \<longrightarrow> map_of sub' c = map_of sub1 c"
    and w': "\<forall>(step, path, preds) \<in> set cells. written fs' path sub1 preds"
    and o': "\<forall>p. p \<notin> set (map (\<lambda>(step, path, preds). path) cells) \<longrightarrow>
                map_of fs' p = map_of (to_csv sub1 path fs) p"
    by blast
  have c1: "\<forall>c. c \<noteq> ''target'' \<longrightarrow> map_of sub1 c = map_of sub c" using m1 by simp
  have run: "run (map fst (a # cells)) (sub, fs) = Inr (sub', fs')"
    using s1 r a by (simp add: run_Cons)
  have first: "written fs' path sub preds"
  proof -
    have "written (to_csv sub1 path fs) path sub preds" by (rule written_to_csv[OF m1])
    moreover have "map_of fs' path = map_of (to_csv sub1 path fs) path" using o' np by blast
    ultimately show ?thesis by (simp add: written_def)
  qed
  have rest: "\<forall>(step, path, preds) \<in> set cells. written fs' path sub preds"
    using w' c1 by (auto intro: written_cong)
  have other: "\<forall>p. p \<notin> set (map (\<lambda>(step, path, preds). path) (a # cells)) \<longrightarrow> map_of fs' p = map_of fs p"
    using o' a by (auto simp: to_csv_def update_conv')
  show ?case
    using run h' c' c1 first rest other a by auto
qed

lemma run_cells:
  assumes "\<forall>x \<in> set xs. writes_file (cell x) (path x) (preds x) n"
    and "distinct (map path xs)" and "has_rows sub n"
  shows "\<exists>sub' fs'. run (map cell xs) (sub, fs) = Inr (sub', fs') \<and>
           (\<forall>x \<in> set xs. written fs' (path x) sub (preds x)) \<and>
           (\<forall>p. p \<notin> path ` set xs \<longrightarrow> map_of fs' p = map_of fs p)"
proof -
  let ?cells = "map (\<lambda>x. (cell x, path x, preds x)) xs"
  have 1: "\<forall>(step, path, preds) \<in> set ?cells. writes_file step path preds n"
    using assms(1) by auto
  have 2: "map (\<lambda>(step, path, preds). path) ?cells = map path xs" by simp
  have 3: "map fst ?cells = map cell xs" by simp
  from run_writes[OF 1 _ assms(3), of fs] assms(2)
  show ?thesis unfolding 2 3 by fastforce
qed

lemma run_preserves:
  assumes "\<forall>step \<in> set steps. \<forall>a fs r. step (a, fs) = Inr r \<longrightarrow> snd r = fs"
    and "run steps (a, fs) = Inr (a', fs')"
  shows "fs' = fs"
  using assms
proof (induction steps arbitrary: a)
  case Nil
  then show ?case by (simp add: run_Nil)
next
  case (Cons step steps)
  from Cons.prems(2) obtain r where r: "step (a, fs) = Inr r" and rest: "run steps r = Inr (a', fs')"
    by (auto simp: run_Cons bindE_def split: sum.splits)
  have "\<forall>a fs r. step (a, fs) = Inr r \<longrightarrow> snd r = fs" using Cons.prems(1) by simp
  with r have "snd r = fs" by blast
  then obtain a1 where "r = (a1, fs)" by (cases r) simp
  with Cons.IH[of a1] Cons.prems(1) rest show ?case by simp
qed

lemma score_cell_preserves: "score_cell harness name (a, fs) = Inr r \<Longrightarrow> snd r = fs"
  by (auto simp: score_cell_def bindE_def split: sum.splits prod.splits)

lemma report_cell_preserves: "report_cell harness (a, fs) = Inr r \<Longrightarrow> snd r = fs"
  by (auto simp: report_cell_def bindE_def split: sum.splits prod.splits)

lemma Notebook_2b_preserves:
  "Notebook_2b sk NUM_FOLDS folds train_X train_y test_X test_y xgb_pipeline
     aspect hillshade water counts hydrofire roadway elevation fs = Inr (new_rows, fs')
   \<Longrightarrow> fs' = fs"
  unfolding Notebook_2b_def
  by (erule run_preserves[rotated]) (auto dest: score_cell_preserves)

lemma Baselines_preserves:
  "Baselines lgbm_baseline histgbm_baseline fs = Inr (sc, fs') \<Longrightarrow> fs' = fs"
  unfolding Baselines_def
  by (erule run_preserves[rotated]) (auto dest: report_cell_preserves)

lemma Feature_Engineering_preserves:
  "Feature_Engineering lgbm_fit lgbm_predict_proba lgbm_roc_auc NUM_FOLDS folds
     train_X train_y holdout_X holdout_y preprocessings fs = Inr (sc, fs')
   \<Longrightarrow> fs' = fs"
  unfolding Feature_Engineering_def
  by (erule run_preserves[rotated]) (auto dest: report_cell_preserves)

lemma train_model_returns:
  fixes sk :: "('e, 'm, 'x, 'y) sklearn"
  assumes "kfold_split n folds" "length folds = NUM_FOLDS"
    and "length train_X = n" "length train_y = n"
    and "\<forall>m X. length (predict_proba sk m X) = length X"
        "\<forall>m X. \<forall>r \<in> set (predict_proba sk m X). 1 < length r"
  shows "\<exists>s. train_model sk NUM_FOLDS folds train_X train_y test_X e = Inr s \<and>
           length (test_preds s) = length test_X"
  using train_model_result[OF assms refl refl, of test_X e]
  by (auto simp: avg_done_def)

lemma train_noisy_model_returns:
  fixes sk :: "('e, 'm, 'x, 'y) sklearn"
  assumes "kfold_split n folds" "length folds = NUM_FOLDS"
    and "length train_X = n" "length train_y = n"
    and "\<forall>m X. length (predict_proba sk m X) = length X"
        "\<forall>m X. \<forall>r \<in> set (predict_proba sk m X). 1 < length r"
  shows "\<exists>s. train_noisy_model sk L NUM_FOLDS folds train_X train_y test_X e = Inr s \<and>
           length (test_preds s) = length test_X"
  unfolding train_noisy_model_eq
  by (rule train_model_returns[OF assms(1-4)]) (use assms(5,6) in simp_all)

lemma Notebook_2_writes:
  fixes sk :: "('e, 'm, 'x, 'y) sklearn"
  assumes "kfold_split n folds" "length folds = NUM_FOLDS"
    and "length train_X = n" "length train_y = n"
    and "\<forall>m X. length (predict_proba sk m X) = length X"
        "\<forall>m X. \<forall>r \<in> set (predict_proba sk m X). 1 < length r"
    and "has_rows submission (length test_X)"
  shows "\<exists>submission' fs'.
           Notebook_2 sk L NUM_FOLDS folds train_X train_y test_X
             logit_pipeline ridge_pipeline lda_pipeline sgd_pipeline nb_pipeline mlp_pipeline
             xgb_pipeline submission fs = Inr (submission', fs') \<and>
           (\<forall>(path, harness) \<in> set (Notebook_2_cells sk L NUM_FOLDS folds train_X train_y test_X
                 logit_pipeline ridge_pipeline lda_pipeline sgd_pipeline nb_pipeline mlp_pipeline
                 xgb_pipeline).
              \<exists>s. harness = Inr s \<and> written fs' path submission (test_preds s))"
proof -
  let ?cells = "Notebook_2_cells sk L NUM_FOLDS folds train_X train_y test_X
                 logit_pipeline ridge_pipeline lda_pipeline sgd_pipeline nb_pipeline mlp_pipeline
                 xgb_pipeline"
  note tm = train_model_returns[OF assms(1-6), of test_X]
  note tn = train_noisy_model_returns[OF assms(1-6), of L test_X]
  have ret: "\<forall>(path, harness) \<in> set ?cells.
               \<exists>s. harness = Inr s \<and> length (test_preds s) = length test_X"
    unfolding Notebook_2_cells_def using tm tn by simp
  have w: "\<forall>x \<in> set ?cells.
             writes_file ((\<lambda>(path, harness). submission_cell harness path) x) (fst x)
               ((\<lambda>(path, harness). test_preds (projr harness)) x) (length test_X)"
  proof
    fix x assume x: "x \<in> set ?cells"
    obtain path harness where xp: "x = (path, harness)" by (cases x)
    with ret x obtain s where "harness = Inr s" "length (test_preds s) = length test_X" by blast
    from submission_cell_writes[OF this, of path] xp \<open>harness = Inr s\<close>
    show "writes_file ((\<lambda>(path, harness). submission_cell harness path) x) (fst x)
               ((\<lambda>(path, harness). test_preds (projr harness)) x) (length test_X)"
      by simp
  qed
  have d: "distinct (map fst ?cells)"
    by (simp add: Notebook_2_cells_def)
  from run_cells[OF w d assms(7), of fs] obtain submission' fs' where
    r: "run (map (\<lambda>(path, harness). submission_cell harness path) ?cells) (submission, fs)
          = Inr (submission', fs')"
    and wr: "\<forall>x \<in> set ?cells. written fs' (fst x) submission
               ((\<lambda>(path, harness). test_preds (projr harness)) x)"
    by blast
  have "\<forall>(path, harness) \<in> set ?cells.
          \<exists>s. harness = Inr s \<and> written fs' path submission (test_preds s)"
  proof (clarify)
    fix path harness assume x: "(path, harness) \<in> set ?cells"
    with ret obtain s where s: "harness = Inr s" by blast
    from wr x have "written fs' path submission (test_preds (projr harness))" by fastforce
    with s show "\<exists>s. harness = Inr s \<and> written fs' path submission (test_preds s)" by simp
  qed
  with r show ?thesis unfolding Notebook_2_def by blast
qed

lemma argmax_index_less: "r \<noteq> [] \<Longrightarrow> argmax_index r < length r"
proof -
  assume "r \<noteq> []"
  then have "Max (set r) \<in> set r" by (intro Max_in) simp_all
  then have "0 < length (dropWhile (\<lambda>x. x \<noteq> Max (set r)) r)"
    by (auto simp: dropWhile_eq_Nil_conv)
  moreover have "length (takeWhile (\<lambda>x. x \<noteq> Max (set r)) r)
                 + length (dropWhile (\<lambda>x. x \<noteq> Max (set r)) r) = length r"
    by (metis length_append takeWhile_dropWhile_id)
  ultimately show ?thesis unfolding argmax_index_def by linarith
qed

lemma add_same_length: "length a = length b \<Longrightarrow> add a b = Inr (map2 (+) a b)"
  by (simp add: add_def broadcast_def Let_def)

lemma sequenceE_argmax:
  "\<forall>r \<in> set M. r \<noteq> [] \<Longrightarrow> sequenceE (map argmax M) = Inr (map argmax_index M)"
proof -
  assume "\<forall>r \<in> set M. r \<noteq> []"
  then have "map argmax M = map Inr (map argmax_index M)"
    by (simp add: argmax_def)
  then show ?thesis by (simp only: sequenceE_Inr)
qed

lemma add_rows_ok:
  assumes "\<forall>r \<in> set M. length r = length b"
  shows "add_rows M b = Inr (map (\<lambda>r. map2 (+) r b) M)"
proof -
  have "map (\<lambda>r. add r b) M = map Inr (map (\<lambda>r. map2 (+) r b) M)"
    using assms by (simp add: add_same_length)
  then show ?thesis by (simp only: add_rows_def sequenceE_Inr)
qed

lemma inverse_transform_ok:
  "\<forall>i \<in> set y. i < length classes \<Longrightarrow>
     inverse_transform classes y = Inr (map (\<lambda>i. classes ! i) y)"
  by (simp add: inverse_transform_def)

lemma tweak_cell_writes:
  assumes h: "harness = Inr (oof, proba)" and n: "length proba = n"
    and w: "\<forall>r \<in> set proba. length r = length bias" and b: "bias \<noteq> []"
    and c: "length bias \<le> length classes"
  shows "writes_file (tweak_cell harness bias classes path) path
           (map (\<lambda>r. classes ! argmax_index (map2 (+) r bias)) proba) n"
  unfolding writes_file_def
proof (intro allI impI)
  fix sub :: "'a list frame" and fs :: "'a files"
  assume hr: "has_rows sub n"
  let ?new = "map (\<lambda>r. map2 (+) r bias) proba"
  let ?y = "map (\<lambda>r. classes ! argmax_index (map2 (+) r bias)) proba"
  have ne: "\<forall>r \<in> set proba. r \<noteq> []" using w b by auto
  have ne': "\<forall>r \<in> set ?new. r \<noteq> []" using w b by auto
  have 1: "sequenceE (map argmax proba) = Inr (map argmax_index proba)"
    by (rule sequenceE_argmax[OF ne])
  have "\<forall>i \<in> set (map argmax_index proba). i < length classes"
    using ne w c argmax_index_less by fastforce
  then have 2: "inverse_transform classes (map argmax_index proba)
                  = Inr (map (\<lambda>i. classes ! i) (map argmax_index proba))"
    by (rule inverse_transform_ok)
  have 3: "add_rows proba bias = Inr ?new" by (rule add_rows_ok[OF w])
  have 4: "sequenceE (map argmax ?new) = Inr (map argmax_index ?new)"
    by (rule sequenceE_argmax[OF ne'])
  have "\<forall>r \<in> set ?new. argmax_index r < length classes"
  proof
    fix r assume r: "r \<in> set ?new"
    then have "length r = length bias" using w by auto
    moreover have "argmax_index r < length r" using ne' r by (intro argmax_index_less) blast
    ultimately show "argmax_index r < length classes" using c by simp
  qed
  then have "\<forall>i \<in> set (map argmax_index ?new). i < length classes" by simp
  then have 5: "inverse_transform classes (map argmax_index ?new)
                  = Inr (map (\<lambda>i. classes ! i) (map argmax_index ?new))"
    by (rule inverse_transform_ok)
  have 6: "map (\<lambda>i. classes ! i) (map argmax_index ?new) = ?y" by (simp add: comp_def)
  have "length ?y = n" using n by simp
  from setitem_ok[OF hr this, of "''target''"] obtain sub' where
    7: "setitem sub ''target'' ?y = Inr sub'" and 8: "has_rows sub' n"
    "map_of sub' = (map_of sub)(''target'' \<mapsto> ?y)" by blast
  have "tweak_cell harness bias classes path (sub, fs) = Inr (sub', to_csv sub' path fs)"
    unfolding tweak_cell_def h by (simp only: prod.case bindE_simps 1 2 3 4 5 6 7)
  with 8 show "\<exists>sub'. tweak_cell harness bias classes path (sub, fs) = Inr (sub', to_csv sub' path fs) \<and>
       has_rows sub' n \<and> map_of sub' = (map_of sub)(''target'' \<mapsto> ?y)"
    by blast
qed

lemma score_model_returns:
  fixes sk :: "('e, 'm, 'x, 'y) sklearn"
  assumes "kfold_split n folds"
    and "length train_X = n" "length train_y = n" "length sample_weight = n"
    and "\<forall>m X. length (predict_proba sk m X) = length X"
        "\<forall>m X. \<forall>r \<in> set (predict_proba sk m X). length r = length (remdups train_y)"
    and "train_y \<noteq> []"
  shows "\<exists>oof proba. score_model sk NUM_FOLDS folds train_X train_y sample_weight test_X e
             = Inr (oof, proba) \<and> length proba = length test_X \<and>
           (\<forall>r \<in> set proba. length r = length (remdups train_y))"
  using score_model_result[OF assms refl refl refl, of NUM_FOLDS test_X e]
  by (auto simp: sum2_done_def)

lemma Notebook_8_writes:
  fixes sk :: "('e, 'm, 'x, 'y) sklearn"
  assumes "kfold_split n folds"
    and "length train_X = n" "length train_y = n" "length sample_weight = n"
    and "\<forall>m X. length (predict_proba sk m X) = length X"
        "\<forall>m X. \<forall>r \<in> set (predict_proba sk m X). length r = length (remdups train_y)"
    and ten: "length (remdups train_y) = 10" "10 \<le> length classes"
    and hr: "has_rows submission (length test_X)"
  shows "\<exists>submission' fs'.
           Notebook_8 sk NUM_FOLDS folds train_X train_y sample_weight test_X
             ExtraTrees Bagging FourResolutions classes submission fs = Inr (submission', fs') \<and>
           (\<forall>(path, harness, bias) \<in> set (Notebook_8_cells sk NUM_FOLDS folds train_X train_y
                 sample_weight test_X ExtraTrees Bagging FourResolutions).
              \<exists>oof proba. harness = Inr (oof, proba) \<and>
                written fs' path submission
                  (map (\<lambda>r. classes ! argmax_index (map2 (+) r bias)) proba))"
proof -
  let ?cells = "Notebook_8_cells sk NUM_FOLDS folds train_X train_y
                 sample_weight test_X ExtraTrees Bagging FourResolutions"
  let ?cell = "\<lambda>(path, harness, bias). tweak_cell harness bias classes path"
  let ?preds = "\<lambda>(path :: string, harness :: error + real list \<times> real list list, bias).
                  map (\<lambda>r. classes ! argmax_index (map2 (+) r bias)) (snd (projr harness))"
  have ty: "train_y \<noteq> []" using ten(1) by auto
  note sm = score_model_returns[OF assms(1-6) ty, of NUM_FOLDS test_X, unfolded ten(1)]
  have ret: "\<forall>(path, harness, bias) \<in> set ?cells.
               \<exists>oof proba. harness = Inr (oof, proba) \<and> length proba = length test_X \<and>
                 (\<forall>r \<in> set proba. length r = length bias) \<and> bias \<noteq> [] \<and>
                 length bias \<le> length classes"
    unfolding Notebook_8_cells_def using sm ten(2) by (simp add: eval_nat_numeral)
  have w: "\<forall>x \<in> set ?cells. writes_file (?cell x) (fst x) (?preds x) (length test_X)"
  proof
    fix x assume x: "x \<in> set ?cells"
    obtain path harness bias where xp: "x = (path, harness, bias)" by (cases x)
    with ret x obtain oof proba where p: "harness = Inr (oof, proba)"
      "length proba = length test_X" "\<forall>r \<in> set proba. length r = length bias" "bias \<noteq> []"
      "length bias \<le> length classes" by blast
    from tweak_cell_writes[OF p, of path] xp p(1)
    show "writes_file (?cell x) (fst x) (?preds x) (length test_X)" by simp
  qed
  have d: "distinct (map fst ?cells)"
    by (simp add: Notebook_8_cells_def)
  from run_cells[OF w d hr, of fs] obtain submission' fs' where
    r: "run (map ?cell ?cells) (submission, fs) = Inr (submission', fs')"
    and wr: "\<forall>x \<in> set ?cells. written fs' (fst x) submission (?preds x)"
    by blast
  have "\<forall>(path, harness, bias) \<in> set ?cells.
          \<exists>oof proba. harness = Inr (oof, proba) \<and>
            written fs' path submission (map (\<lambda>r. classes ! argmax_index (map2 (+) r bias)) proba)"
  proof (clarify)
    fix path harness bias assume x: "(path, harness, bias) \<in> set ?cells"
    with ret obtain oof proba where s: "harness = Inr (oof, proba)" by blast
    from wr x have "written fs' path submission (?preds (path, harness, bias))" by fastforce
    with s show "\<exists>oof proba. harness = Inr (oof, proba) \<and>
            written fs' path submission (map (\<lambda>r. classes ! argmax_index (map2 (+) r bias)) proba)"
      by simp
  qed
  with r show ?thesis unfolding Notebook_8_def by blast
qed

lemma Neural_Network_Baseline_writes:
  assumes "nn_train_model baseline_model = Inr s" "length (test_preds s) = n"
    and "has_rows submission n"
  shows "\<exists>submission' fs'.
           Neural_Network_Baseline nn_train_model baseline_model submission fs
             = Inr (submission', fs') \<and>
           written fs' ''../output/simple_nn_submission.csv'' submission (test_preds s)"
proof -
  from submission_cell_writes[OF assms(1,2), of "''../output/simple_nn_submission.csv''"] assms(3)
  obtain sub' where
    "submission_cell (nn_train_model baseline_model) ''../output/simple_nn_submission.csv''
       (submission, fs) = Inr (sub', to_csv sub' ''../output/simple_nn_submission.csv'' fs)"
    "map_of sub' = (map_of submission)(''target'' \<mapsto> test_preds s)"
    unfolding writes_file_def by blast
  then show ?thesis
    unfolding Neural_Network_Baseline_def
    by (simp add: run_Cons run_Nil written_to_csv)
qed

lemma train_step_ok:
  assumes "harness = Inr (preds, oof)" "length preds = nt" "length oof = nr"
    and "has_rows tp nt" "has_rows op nr"
  shows "\<exists>tp' op'. train_step harness name (tp, op, sub, fs) = Inr (tp', op', sub, fs) \<and>
           has_rows tp' nt \<and> has_rows op' nr \<and> map_of tp' = (map_of tp)(name \<mapsto> preds)"
proof -
  from setitem_ok[OF assms(4,2), of name] obtain tp' where
    1: "setitem tp name preds = Inr tp'" "has_rows tp' nt"
       "map_of tp' = (map_of tp)(name \<mapsto> preds)" by blast
  from setitem_ok[OF assms(5,3), of name] obtain op' where
    2: "setitem op name oof = Inr op'" "has_rows op' nr" by blast
  have "train_step harness name (tp, op, sub, fs) = Inr (tp', op', sub, fs)"
    by (simp add: train_step_def assms(1) 1 2)
  with 1 2 show ?thesis by blast
qed

lemma run_train_steps:
  assumes "\<forall>(harness, name) \<in> set xs.
             \<exists>preds oof. harness = Inr (preds, oof) \<and> length preds = nt \<and> length oof = nr"
    and "distinct (map snd xs)" and "has_rows tp nt" and "has_rows op nr"
  shows "\<exists>tp' op'.
           run (map (\<lambda>(harness, name). train_step harness name) xs @ rest) (tp, op, sub, fs)
             = run rest (tp', op', sub, fs) \<and>
           has_rows tp' nt \<and> has_rows op' nr \<and>
           (\<forall>(harness, name) \<in> set xs. map_of tp' name = Some (fst (projr harness))) \<and>
           (\<forall>k. k \<notin> snd ` set xs \<longrightarrow> map_of tp' k = map_of tp k)"
  using assms
proof (induction xs arbitrary: tp op)
  case Nil
  then show ?case by auto
next
  case (Cons a xs)
  obtain harness name where a: "a = (harness, name)" by (cases a)
  from Cons.prems(1) a obtain preds oof where
    h: "harness = Inr (preds, oof)" "length preds = nt" "length oof = nr" by auto
  from train_step_ok[OF h Cons.prems(3,4), of name sub fs] obtain tp1 op1 where
    s: "train_step harness name (tp, op, sub, fs) = Inr (tp1, op1, sub, fs)"
    and r1: "has_rows tp1 nt" "has_rows op1 nr"
    and m1: "map_of tp1 = (map_of tp)(name \<mapsto> preds)" by blast
  from Cons.prems(1) have p: "\<forall>(harness, name) \<in> set xs.
             \<exists>preds oof. harness = Inr (preds, oof) \<and> length preds = nt \<and> length oof = nr"
    by simp
  from Cons.prems(2) a have d: "distinct (map snd xs)" and nn: "name \<notin> snd ` set xs" by auto
  from Cons.IH[OF p d r1] obtain tp' op' where
    r: "run (map (\<lambda>(harness, name). train_step harness name) xs @ rest) (tp1, op1, sub, fs)
          = run rest (tp', op', sub, fs)"
    and r': "has_rows tp' nt" "has_rows op' nr"
    and m': "\<forall>(harness, name) \<in> set xs. map_of tp' name = Some (fst (projr harness))"
    and o': "\<forall>k. k \<notin> snd ` set xs \<longrightarrow> map_of tp' k = map_of tp1 k" by blast
  have 1: "run (map (\<lambda>(harness, name). train_step harness name) (a # xs) @ rest) (tp, op, sub, fs)
             = run rest (tp', op', sub, fs)"
    using s r a by (simp add: run_Cons)
  have 2: "map_of tp' name = Some (fst (projr harness))"
    using o' nn m1 h(1) by simp
  have 3: "\<forall>k. k \<notin> snd ` set (a # xs) \<longrightarrow> map_of tp' k = map_of tp k"
    using o' m1 a by auto
  show ?case using 1 2 3 r' m' a by auto
qed

lemma written_intro:
  "map_of fs path = Some df \<Longrightarrow> map_of df = (map_of sub)(''target'' \<mapsto> preds) \<Longrightarrow>
     written fs path sub preds"
  by (simp add: written_def)

lemma Stacking_writes:
  assumes x: "\<forall>mp nf. \<exists>preds oof. train_xgboost mp nf = Inr (preds, oof) \<and>
                 length preds = nt \<and> length oof = nr"
    and l: "\<forall>mp nf. \<exists>preds oof. train_lightgbm mp nf = Inr (preds, oof) \<and>
                 length preds = nt \<and> length oof = nr"
    and c: "\<forall>mp nf. \<exists>preds oof. train_catboost mp nf = Inr (preds, oof) \<and>
                 length preds = nt \<and> length oof = nr"
    and g: "\<forall>mp nf. \<exists>preds oof. train_histgbm mp nf = Inr (preds, oof) \<and>
                 length preds = nt \<and> length oof = nr"
    and sl: "\<forall>oof_preds test_preds. \<exists>preds. stack_lightgbm oof_preds test_preds = Inr preds \<and>
                 length preds = nt"
    and sx: "\<forall>oof_preds test_preds. \<exists>preds. stack_xgboost oof_preds test_preds = Inr preds \<and>
                 length preds = nt"
    and len: "length test_id = nt" "length kfold = nr"
    and hr: "has_rows submission nt"
  shows "\<exists>test_preds' oof_preds' submission' fs'.
           Stacking NaN SUBMIT NUM_FOLDS train_xgboost train_lightgbm train_catboost train_histgbm
             stack_lightgbm stack_xgboost kfold test_id submission fs
             = Inr (test_preds', oof_preds', submission', fs') \<and>
           (if SUBMIT then
              (\<exists>preds oof. train_xgboost [] False = Inr (preds, oof) \<and>
                 written fs' (''../output/xgboost_cpu_'' @ str NUM_FOLDS @ ''fold_submission.csv'')
                   submission preds) \<and>
              (\<exists>preds oof. train_catboost [] False = Inr (preds, oof) \<and>
                 written fs' (''../output/catboost_cpu_'' @ str NUM_FOLDS @ ''fold_submission.csv'')
                   submission preds) \<and>
              (\<exists>preds. stack_lightgbm oof_preds' test_preds' = Inr preds \<and>
                 written fs' (''../output/stack_lgbm_'' @ str NUM_FOLDS @ ''fold_submission.csv'')
                   submission preds) \<and>
              (\<exists>preds. stack_xgboost oof_preds' test_preds' = Inr preds \<and>
                 written fs' (''../output/stack_xgb_'' @ str NUM_FOLDS @ ''fold_submission.csv'')
                   submission preds)
            else fs' = fs)"
proof -
  let ?xs = "[(train_xgboost [] False, ''XGBoost''),
              (train_xgboost [(''tree_method'', ''hist'')] False, ''XGB_Hist''),
              (train_xgboost [] True, ''XGB_Stats''),
              (train_lightgbm [] False, ''LightGBM''),
              (train_lightgbm [] True, ''LGBM_Stats''),
              (train_catboost [] False, ''CatBoost''),
              (train_catboost [] True, ''Cat_Stats''),
              (train_histgbm [] False, ''HistGBM''),
              (train_histgbm [] True, ''Hist_Stats'')]"
  let ?p1 = "''../output/xgboost_cpu_'' @ str NUM_FOLDS @ ''fold_submission.csv''"
  let ?p2 = "''../output/catboost_cpu_'' @ str NUM_FOLDS @ ''fold_submission.csv''"
  let ?p3 = "''../output/stack_lgbm_'' @ str NUM_FOLDS @ ''fold_submission.csv''"
  let ?p4 = "''../output/stack_xgb_'' @ str NUM_FOLDS @ ''fold_submission.csv''"
  let ?rest = "[model_submission NaN ''XGBoost'' SUBMIT ?p1,
                model_submission NaN ''CatBoost'' SUBMIT ?p2,
                stack_submission stack_lightgbm SUBMIT ?p3,
                stack_submission stack_xgboost SUBMIT ?p4]"
  have eq: "Stacking NaN SUBMIT NUM_FOLDS train_xgboost train_lightgbm train_catboost train_histgbm
             stack_lightgbm stack_xgboost kfold test_id submission fs
            = run (map (\<lambda>(harness, name). train_step harness name) ?xs @ ?rest)
                ([(''id'', test_id)], [(''kfold'', kfold)], submission, fs)"
    unfolding Stacking_def by simp
  have a: "\<forall>(harness, name) \<in> set ?xs.
             \<exists>preds oof. harness = Inr (preds, oof) \<and> length preds = nt \<and> length oof = nr"
    using x l c g by simp
  have d: "distinct (map snd ?xs)" by simp
  have r0: "has_rows [(''id'', test_id)] nt" "has_rows [(''kfold'', kfold)] nr"
    using len by (simp_all add: has_rows_def)
  from run_train_steps[OF a d r0, of ?rest submission fs] obtain tp op where
    r: "run (map (\<lambda>(harness, name). train_step harness name) ?xs @ ?rest)
          ([(''id'', test_id)], [(''kfold'', kfold)], submission, fs)
        = run ?rest (tp, op, submission, fs)"
    and m: "\<forall>(harness, name) \<in> set ?xs. map_of tp name = Some (fst (projr harness))"
    by blast
  from x obtain px ox where px: "train_xgboost [] False = Inr (px, ox)" "length px = nt" by blast
  from c obtain pc oc where pc: "train_catboost [] False = Inr (pc, oc)" "length pc = nt" by blast
  from sl obtain pl where pl: "stack_lightgbm op tp = Inr pl" "length pl = nt" by blast
  from sx obtain pg where pg: "stack_xgboost op tp = Inr pg" "length pg = nt" by blast
  have gx: "getitem tp ''XGBoost'' = Inr px" using m px(1) by (simp add: getitem_def)
  have gc: "getitem tp ''CatBoost'' = Inr pc" using m pc(1) by (simp add: getitem_def)
  define sub1 where "sub1 = setitem_series NaN submission ''target'' px"
  define sub2 where "sub2 = setitem_series NaN sub1 ''target'' pc"
  have s1: "has_rows sub1 nt" "map_of sub1 = (map_of submission)(''target'' \<mapsto> px)"
    unfolding sub1_def using setitem_series_ok[OF hr px(2)] by simp_all
  have s2: "has_rows sub2 nt" "map_of sub2 = (map_of submission)(''target'' \<mapsto> pc)"
    unfolding sub2_def using setitem_series_ok[OF s1(1) pc(2), of NaN "''target''"] s1(2)
    by simp_all
  from setitem_ok[OF s2(1) pl(2), of "''target''"] obtain sub3 where
    s3: "setitem sub2 ''target'' pl = Inr sub3" "has_rows sub3 nt"
        "map_of sub3 = (map_of submission)(''target'' \<mapsto> pl)" using s2(2) by auto
  from setitem_ok[OF s3(2) pg(2), of "''target''"] obtain sub4 where
    s4: "setitem sub3 ''target'' pg = Inr sub4"
        "map_of sub4 = (map_of submission)(''target'' \<mapsto> pg)" using s3(3) by auto
  let ?fs' = "if SUBMIT then to_csv sub4 ?p4 (to_csv sub3 ?p3 (to_csv sub2 ?p2 (to_csv sub1 ?p1 fs)))
              else fs"
  have fin: "run ?rest (tp, op, submission, fs) = Inr (tp, op, sub4, ?fs')"
    by (simp add: run_Cons run_Nil model_submission_def stack_submission_def gx gc pl pg s3 s4
        Let_def sub1_def[symmetric] sub2_def[symmetric])
  have w: "written ?fs' ?p1 submission px" "written ?fs' ?p2 submission pc"
          "written ?fs' ?p3 submission pl" "written ?fs' ?p4 submission pg" if SUBMIT
    using that s1(2) s2(2) s3(3) s4(2)
    by (auto intro!: written_intro simp: to_csv_def update_conv')
  show ?thesis
    unfolding eq r fin using w px(1) pc(1) pl(1) pg(1) by auto
qed

lemma toy_kfold10: "kfold_split 10 toy_folds10"
proof -
  have "{0..<10::nat} = {0, 1, 2, 3, 4, 5, 6, 7, 8, 9}" by auto
  then show ?thesis by (auto simp: kfold_split_def toy_folds10_def)
qed

lemma Notebook_2_cells_paths:
  "map fst (Notebook_2_cells sk L NUM_FOLDS folds train_X train_y test_X
      logit_pipeline ridge_pipeline lda_pipeline sgd_pipeline nb_pipeline mlp_pipeline xgb_pipeline)
   = [''../output/logit_submission.csv'', ''../output/noisy_logit_submission.csv'',
      ''../output/ridge_submission.csv'', ''../output/noisy_ridge_submission.csv'',
      ''../output/lda_submission.csv'', ''../output/noisy_lda_submission.csv'',
      ''../output/sgd_submission.csv'', ''../output/noisy_sgd_submission.csv'',
      ''../output/nb_submission.csv'', ''../output/noisy_nb_submission.csv'',
      ''../output/mlp_submission.csv'', ''../output/noisy_mlp_submission.csv'',
      ''../output/xgb_submission.csv'', ''../output/noisy_xgb_submission.csv'']"
  by (simp add: Notebook_2_cells_def)

lemma Notebook_8_cells_paths:
  "map fst (Notebook_8_cells sk NUM_FOLDS folds train_X train_y sample_weight test_X
      ExtraTrees Bagging FourResolutions)
   = [''../submissions/extratrees_tweaked.csv'', ''../submissions/bagging_tweaked.csv'',
      ''../submissions/four_models_tweaked.csv'']"
  by (simp add: Notebook_8_cells_def)

text \<open>
  C6, amended. The notebooks with a submission cell write the files, and the others write
  none. When the split and the estimators keep their contracts and the sample submission
  has one row for each test row, Notebook 2 returns and has written a file for each of its
  fourteen training cells, whose \<open>target\<close> column is the test prediction of that cell's
  call; Notebook 8 returns and has written its three files, with the labels of the shifted
  probabilities; the stacking notebook, when its calls return, has written its four files
  if \<open>SUBMIT\<close> is set and none otherwise; the neural-network notebook has written its one
  file when its call returns. No run of Notebook 2b (or of its two variants), of the
  baselines or of the feature-engineering notebook of October 2021 changes the output
  directory.
\<close>

theorem notebooks_write_submissions:
  "(\<forall>sk LearningWithNoisyLabels NUM_FOLDS folds train_X train_y test_X logit_pipeline
      ridge_pipeline lda_pipeline sgd_pipeline nb_pipeline mlp_pipeline xgb_pipeline
      submission fs n.
      kfold_split n folds \<and> length folds = NUM_FOLDS \<and>
      length train_X = n \<and> length train_y = n \<and>
      (\<forall>m X. length (predict_proba sk m X) = length X) \<and>
      (\<forall>m X. \<forall>r \<in> set (predict_proba sk m X). 1 < length r) \<and>
      has_rows submission (length test_X) \<longrightarrow>
      (\<exists>submission' fs'.
         Notebook_2 sk LearningWithNoisyLabels NUM_FOLDS folds train_X train_y test_X
           logit_pipeline ridge_pipeline lda_pipeline sgd_pipeline nb_pipeline mlp_pipeline
           xgb_pipeline submission fs = Inr (submission', fs') \<and>
         (\<forall>(path, harness) \<in> set (Notebook_2_cells sk LearningWithNoisyLabels NUM_FOLDS folds
               train_X train_y test_X logit_pipeline ridge_pipeline lda_pipeline sgd_pipeline
               nb_pipeline mlp_pipeline xgb_pipeline).
            \<exists>s. harness = Inr s \<and> written fs' path submission (test_preds s)))) \<and>
   (\<forall>sk NUM_FOLDS folds train_X train_y sample_weight test_X ExtraTrees Bagging
      FourResolutions classes submission fs n.
      kfold_split n folds \<and>
      length train_X = n \<and> length train_y = n \<and> length sample_weight = n \<and>
      (\<forall>m X. length (predict_proba sk m X) = length X) \<and>
      (\<forall>m X. \<forall>r \<in> set (predict_proba sk m X). length r = length (remdups train_y)) \<and>
      length (remdups train_y) = 10 \<and> 10 \<le> length classes \<and>
      has_rows submission (length test_X) \<longrightarrow>
      (\<exists>submission' fs'.
         Notebook_8 sk NUM_FOLDS folds train_X train_y sample_weight test_X
           ExtraTrees Bagging FourResolutions classes submission fs = Inr (submission', fs') \<and>
         (\<forall>(path, harness, bias) \<in> set (Notebook_8_cells sk NUM_FOLDS folds train_X train_y
               sample_weight test_X ExtraTrees Bagging FourResolutions).
            \<exists>oof proba. harness = Inr (oof, proba) \<and>
              written fs' path submission
                (map (\<lambda>r. classes ! argmax_index (map2 (+) r bias)) proba)))) \<and>
   (\<forall>NaN SUBMIT NUM_FOLDS train_xgboost train_lightgbm train_catboost train_histgbm
      stack_lightgbm stack_xgboost kfold test_id submission fs nt nr.
      (\<forall>mp nf. \<exists>preds oof. train_xgboost mp nf = Inr (preds, oof) \<and>
                 length preds = nt \<and> length oof = nr) \<and>
      (\<forall>mp nf. \<exists>preds oof. train_lightgbm mp nf = Inr (preds, oof) \<and>
                 length preds = nt \<and> length oof = nr) \<and>
      (\<forall>mp nf. \<exists>preds oof. train_catboost mp nf = Inr (preds, oof) \<and>
                 length preds = nt \<and> length oof = nr) \<and>
      (\<forall>mp nf. \<exists>preds oof. train_histgbm mp nf = Inr (preds, oof) \<and>
                 length preds = nt \<and> length oof = nr) \<and>
      (\<forall>oof_preds test_preds. \<exists>preds. stack_lightgbm oof_preds test_preds = Inr preds \<and>
                 length preds = nt) \<and>
      (\<forall>oof_preds test_preds. \<exists>preds. stack_xgboost oof_preds test_preds = Inr preds \<and>
                 length preds = nt) \<and>
      length test_id = nt \<and> length kfold = nr \<and> has_rows submission nt \<longrightarrow>
      (\<exists>test_preds' oof_preds' submission' fs'.
         Stacking NaN SUBMIT NUM_FOLDS train_xgboost train_lightgbm train_catboost train_histgbm
           stack_lightgbm stack_xgboost kfold test_id submission fs
           = Inr (test_preds', oof_preds', submission', fs') \<and>
         (if SUBMIT then
            (\<exists>preds oof. train_xgboost [] False = Inr (preds, oof) \<and>
               written fs' (''../output/xgboost_cpu_'' @ str NUM_FOLDS @ ''fold_submission.csv'')
                 submission preds) \<and>
            (\<exists>preds oof. train_catboost [] False = Inr (preds, oof) \<and>
               written fs' (''../output/catboost_cpu_'' @ str NUM_FOLDS @ ''fold_submission.csv'')
                 submission preds) \<and>
            (\<exists>preds. stack_lightgbm oof_preds' test_preds' = Inr preds \<and>
               written fs' (''../output/stack_lgbm_'' @ str NUM_FOLDS @ ''fold_submission.csv'')
                 submission preds) \<and>
            (\<exists>preds. stack_xgboost oof_preds' test_preds' = Inr preds \<and>
               written fs' (''../output/stack_xgb_'' @ str NUM_FOLDS @ ''fold_submission.csv'')
                 submission preds)
          else fs' = fs))) \<and>
   (\<forall>nn_train_model baseline_model submission fs s.
      nn_train_model baseline_model = Inr s \<and>
      has_rows submission (length (test_preds s)) \<longrightarrow>
      (\<exists>submission' fs'.
         Neural_Network_Baseline nn_train_model baseline_model submission fs
           = Inr (submission', fs') \<and>
         written fs' ''../output/simple_nn_submission.csv'' submission (test_preds s))) \<and>
   (\<forall>sk NUM_FOLDS folds train_X train_y test_X test_y xgb_pipeline
      aspect hillshade water counts hydrofire roadway elevation fs new_rows fs'.
      Notebook_2b sk NUM_FOLDS folds train_X train_y test_X test_y xgb_pipeline
        aspect hillshade water counts hydrofire roadway elevation fs = Inr (new_rows, fs')
      \<longrightarrow> fs' = fs) \<and>
   (\<forall>lgbm_baseline histgbm_baseline fs sc fs'.
      Baselines lgbm_baseline histgbm_baseline fs = Inr (sc, fs') \<longrightarrow> fs' = fs) \<and>
   (\<forall>lgbm_fit lgbm_predict_proba lgbm_roc_auc NUM_FOLDS folds train_X train_y holdout_X
      holdout_y preprocessings fs sc fs'.
      Feature_Engineering lgbm_fit lgbm_predict_proba lgbm_roc_auc NUM_FOLDS folds
        train_X train_y holdout_X holdout_y preprocessings fs = Inr (sc, fs')
      \<longrightarrow> fs' = fs)"
  apply (intro conjI allI impI)
  subgoal by (elim conjE) (rule Notebook_2_writes)
  subgoal by (elim conjE) (rule Notebook_8_writes)
  subgoal by (elim conjE) (rule Stacking_writes)
  subgoal by (elim conjE) (rule Neural_Network_Baseline_writes[OF _ refl])
  subgoal by (rule Notebook_2b_preserves)
  subgoal by (rule Baselines_preserves)
  subgoal by (rule Feature_Engineering_preserves)
  done

text \<open>
  C6 as stated fails for Notebook 2b: on six rows in two folds it scores the baseline and
  the seven feature functions under cross-validation, tabulates the accuracies, and the
  output directory is as empty as before.
\<close>

theorem notebooks_write_submissions_counterexample:
  "Notebook_2b toy_sklearn 2 toy_folds [0, 1, 2, 3, 4, 5] [0, 1, 2, 3, 4, 5] [7] [0] ()
     Inr Inr Inr Inr Inr Inr Inr ([] :: real files)
   = Inr ([(''Baseline'', 0, 0), (''Aspect_Features'', 0, 0), (''Hillshade_Features'', 0, 0),
           (''Water_Features'', 0, 0), (''Count_Features'', 0, 0), (''Water_Fire'', 0, 0),
           (''Road_Interactions'', 0, 0), (''Elev_Interactions'', 0, 0)], [])"
  by code_simp

theorem notebooks_write_submissions_witness:
  "(\<exists>submission' fs'.
      Notebook_2 toy_sklearn (\<lambda>e. e) 2 toy_folds [0, 1, 2, 3, 4, 5] [0, 1, 2, 3, 4, 5] [7]
        () () () () () () () [(''id'', [0])] [] = Inr (submission', fs') \<and>
      (\<forall>(path, harness) \<in> set (Notebook_2_cells toy_sklearn (\<lambda>e. e) 2 toy_folds
            [0, 1, 2, 3, 4, 5] [0, 1, 2, 3, 4, 5] [7] () () () () () () ()).
         \<exists>s. harness = Inr s \<and> written fs' path [(''id'', [0])] (test_preds s))) \<and>
   (\<exists>submission' fs'.
      Notebook_8 toy_sklearn10 2 toy_folds10 [0, 1, 2, 3, 4, 5, 6, 7, 8, 9]
        [0, 1, 2, 3, 4, 5, 6, 7, 8, 9] [1, 1, 1, 1, 1, 1, 1, 1, 1, 1] [7] () () ()
        [10, 11, 12, 13, 14, 15, 16, 17, 18, 19 :: nat] [(''row_id'', [0])] []
        = Inr (submission', fs') \<and>
      (\<forall>(path, harness, bias) \<in> set (Notebook_8_cells toy_sklearn10 2 toy_folds10
            [0, 1, 2, 3, 4, 5, 6, 7, 8, 9] [0, 1, 2, 3, 4, 5, 6, 7, 8, 9]
            [1, 1, 1, 1, 1, 1, 1, 1, 1, 1] [7] () () ()).
         \<exists>oof proba. harness = Inr (oof, proba) \<and>
           written fs' path [(''row_id'', [0])]
             (map (\<lambda>r. [10, 11, 12, 13, 14, 15, 16, 17, 18, 19] ! argmax_index (map2 (+) r bias))
                proba))) \<and>
   (\<exists>test_preds' oof_preds' submission' fs'.
      Stacking 0 True 3 (\<lambda>mp nf. Inr ([1], [2, 3])) (\<lambda>mp nf. Inr ([4], [2, 3]))
        (\<lambda>mp nf. Inr ([5], [2, 3])) (\<lambda>mp nf. Inr ([6], [2, 3]))
        (\<lambda>oof_preds test_preds. Inr [7]) (\<lambda>oof_preds test_preds. Inr [8])
        [0, 1] [100] [(''id'', [100]), (''target'', [1 / 2])] []
        = Inr (test_preds', oof_preds', submission', fs') \<and>
      written fs' ''../output/xgboost_cpu_3fold_submission.csv''
        [(''id'', [100]), (''target'', [1 / 2])] [1] \<and>
      written fs' ''../output/catboost_cpu_3fold_submission.csv''
        [(''id'', [100]), (''target'', [1 / 2])] [5] \<and>
      written fs' ''../output/stack_lgbm_3fold_submission.csv''
        [(''id'', [100]), (''target'', [1 / 2])] [7] \<and>
      written fs' ''../output/stack_xgb_3fold_submission.csv''
        [(''id'', [100]), (''target'', [1 / 2])] [8]) \<and>
   (\<exists>submission' fs'.
      Neural_Network_Baseline
        (\<lambda>e. Inr \<lparr>scores = [1], test_preds = [1 / 4, 3 / 4], oof_preds = [0]\<rparr>) ()
        [(''id'', [100, 101])] [] = Inr (submission', fs') \<and>
      written fs' ''../output/simple_nn_submission.csv'' [(''id'', [100, 101])] [1 / 4, 3 / 4]) \<and>
   (\<exists>new_rows fs'.
      Notebook_2b toy_sklearn 2 toy_folds [0, 1, 2, 3, 4, 5] [0, 1, 2, 3, 4, 5] [7] [0] ()
        Inr Inr Inr Inr Inr Inr Inr [(''kept.csv'', [(''id'', [1 :: real])])] = Inr (new_rows, fs') \<and>
      fs' = [(''kept.csv'', [(''id'', [1])])]) \<and>
   (\<exists>sc fs'.
      Baselines (Inr (1 / 2, 10 :: real)) (Inr (1 / 4, 20)) [(''kept.csv'', [(''id'', [1 :: real])])]
        = Inr (sc, fs') \<and>
      fs' = [(''kept.csv'', [(''id'', [1])])]) \<and>
   (\<exists>sc fs'.
      Feature_Engineering toy_lgbm_fit (predict_proba toy_sklearn) (roc_auc_score toy_sklearn) 2
        toy_folds [0, 1, 2, 3, 4, 5] [0, 1, 2, 3, 4, 5] [7] [1]
        [\<lambda>X_train X_valid X_test y_train. Inr (X_train, X_valid, X_test)]
        [(''kept.csv'', [(''id'', [1 :: real])])] = Inr (sc, fs') \<and>
      fs' = [(''kept.csv'', [(''id'', [1])])])"
proof -
  note t = notebooks_write_submissions
  have K: "length toy_folds = 2" by (simp add: toy_folds_def)
  have r: "\<forall>m X. length (predict_proba toy_sklearn m (X :: nat list)) = length X"
    by (simp add: toy_sklearn_def)
  have h1: "\<forall>m X. \<forall>r \<in> set (predict_proba toy_sklearn m (X :: nat list)). 1 < length r"
    by (simp add: toy_sklearn_def)
  have hs: "has_rows [(''id'', [0 :: real])] (length [7 :: nat])" by (simp add: has_rows_def)
  have c1: "\<exists>submission' fs'.
      Notebook_2 toy_sklearn (\<lambda>e. e) 2 toy_folds [0, 1, 2, 3, 4, 5] [0, 1, 2, 3, 4, 5] [7]
        () () () () () () () [(''id'', [0])] [] = Inr (submission', fs') \<and>
      (\<forall>(path, harness) \<in> set (Notebook_2_cells toy_sklearn (\<lambda>e. e) 2 toy_folds
            [0, 1, 2, 3, 4, 5] [0, 1, 2, 3, 4, 5] [7] () () () () () () ()).
         \<exists>s. harness = Inr s \<and> written fs' path [(''id'', [0])] (test_preds s))"
    by (rule t[THEN conjunct1, rule_format, where n = 6])
       (intro conjI toy_kfold K r h1 hs; simp)
  have r10: "\<forall>m X. length (predict_proba toy_sklearn10 m (X :: nat list)) = length X"
    by (simp add: toy_sklearn10_def)
  have h10: "\<forall>m X. \<forall>r \<in> set (predict_proba toy_sklearn10 m (X :: nat list)).
               length r = length (remdups [0, 1, 2, 3, 4, 5, 6, 7, 8, 9 :: nat])"
    by (simp add: toy_sklearn10_def)
  have hs8: "has_rows [(''row_id'', [0 :: nat])] (length [7 :: nat])" by (simp add: has_rows_def)
  have c2: "\<exists>submission' fs'.
      Notebook_8 toy_sklearn10 2 toy_folds10 [0, 1, 2, 3, 4, 5, 6, 7, 8, 9]
        [0, 1, 2, 3, 4, 5, 6, 7, 8, 9] [1, 1, 1, 1, 1, 1, 1, 1, 1, 1] [7] () () ()
        [10, 11, 12, 13, 14, 15, 16, 17, 18, 19 :: nat] [(''row_id'', [0])] []
        = Inr (submission', fs') \<and>
      (\<forall>(path, harness, bias) \<in> set (Notebook_8_cells toy_sklearn10 2 toy_folds10
            [0, 1, 2, 3, 4, 5, 6, 7, 8, 9] [0, 1, 2, 3, 4, 5, 6, 7, 8, 9]
            [1, 1, 1, 1, 1, 1, 1, 1, 1, 1] [7] () () ()).
         \<exists>oof proba. harness = Inr (oof, proba) \<and>
           written fs' path [(''row_id'', [0])]
             (map (\<lambda>r. [10, 11, 12, 13, 14, 15, 16, 17, 18, 19] ! argmax_index (map2 (+) r bias))
                proba))"
    by (rule t[THEN conjunct2, THEN conjunct1, rule_format, where n = 10])
       (intro conjI toy_kfold10 r10 h10 hs8; simp)
  have s3: "str 3 = ''3''" by code_simp
  have hs3: "has_rows [(''id'', [100 :: real]), (''target'', [1 / 2])] 1"
    by (simp add: has_rows_def)
  from t[THEN conjunct2, THEN conjunct2, THEN conjunct1, rule_format,
         where NaN = 0 and SUBMIT = True and NUM_FOLDS = 3
           and train_xgboost = "\<lambda>mp nf. Inr ([1], [2, 3])"
           and train_lightgbm = "\<lambda>mp nf. Inr ([4], [2, 3])"
           and train_catboost = "\<lambda>mp nf. Inr ([5], [2, 3])"
           and train_histgbm = "\<lambda>mp nf. Inr ([6], [2, 3])"
           and stack_lightgbm = "\<lambda>oof_preds test_preds. Inr [7]"
           and stack_xgboost = "\<lambda>oof_preds test_preds. Inr [8]"
           and kfold = "[0, 1]" and test_id = "[100]"
           and submission = "[(''id'', [100]), (''target'', [1 / 2])]" and fs = "[]"
           and nt = 1 and nr = 2]
  have c3: "\<exists>test_preds' oof_preds' submission' fs'.
      Stacking 0 True 3 (\<lambda>mp nf. Inr ([1], [2, 3])) (\<lambda>mp nf. Inr ([4], [2, 3]))
        (\<lambda>mp nf. Inr ([5], [2, 3])) (\<lambda>mp nf. Inr ([6], [2, 3]))
        (\<lambda>oof_preds test_preds. Inr [7]) (\<lambda>oof_preds test_preds. Inr [8])
        [0, 1] [100] [(''id'', [100]), (''target'', [1 / 2])] []
        = Inr (test_preds', oof_preds', submission', fs') \<and>
      written fs' ''../output/xgboost_cpu_3fold_submission.csv''
        [(''id'', [100]), (''target'', [1 / 2])] [1] \<and>
      written fs' ''../output/catboost_cpu_3fold_submission.csv''
        [(''id'', [100]), (''target'', [1 / 2])] [5] \<and>
      written fs' ''../output/stack_lgbm_3fold_submission.csv''
        [(''id'', [100]), (''target'', [1 / 2])] [7] \<and>
      written fs' ''../output/stack_xgb_3fold_submission.csv''
        [(''id'', [100]), (''target'', [1 / 2])] [8]"
    using hs3 by (simp add: s3)
  have c4: "\<exists>submission' fs'.
      Neural_Network_Baseline
        (\<lambda>e. Inr \<lparr>scores = [1], test_preds = [1 / 4, 3 / 4], oof_preds = [0]\<rparr>) ()
        [(''id'', [100, 101])] [] = Inr (submission', fs') \<and>
      written fs' ''../output/simple_nn_submission.csv'' [(''id'', [100, 101])] [1 / 4, 3 / 4]"
    using t[THEN conjunct2, THEN conjunct2, THEN conjunct2, THEN conjunct1, rule_format,
            where nn_train_model = "\<lambda>e. Inr \<lparr>scores = [1], test_preds = [1 / 4, 3 / 4], oof_preds = [0]\<rparr>"
              and baseline_model = "()" and submission = "[(''id'', [100, 101])]" and fs = "[]"
              and s = "\<lparr>scores = [1], test_preds = [1 / 4, 3 / 4], oof_preds = [0]\<rparr>"]
    by (simp add: has_rows_def)
  have e5: "Notebook_2b toy_sklearn 2 toy_folds [0, 1, 2, 3, 4, 5] [0, 1, 2, 3, 4, 5] [7] [0] ()
        Inr Inr Inr Inr Inr Inr Inr [(''kept.csv'', [(''id'', [1 :: real])])]
      = Inr ([(''Baseline'', 0, 0), (''Aspect_Features'', 0, 0), (''Hillshade_Features'', 0, 0),
           (''Water_Features'', 0, 0), (''Count_Features'', 0, 0), (''Water_Fire'', 0, 0),
           (''Road_Interactions'', 0, 0), (''Elev_Interactions'', 0, 0)],
          snd (projr (Notebook_2b toy_sklearn 2 toy_folds [0, 1, 2, 3, 4, 5] [0, 1, 2, 3, 4, 5] [7] [0] ()
            Inr Inr Inr Inr Inr Inr Inr [(''kept.csv'', [(''id'', [1 :: real])])])))"
    by code_simp
  have c5: "\<exists>new_rows fs'.
      Notebook_2b toy_sklearn 2 toy_folds [0, 1, 2, 3, 4, 5] [0, 1, 2, 3, 4, 5] [7] [0] ()
        Inr Inr Inr Inr Inr Inr Inr [(''kept.csv'', [(''id'', [1 :: real])])] = Inr (new_rows, fs') \<and>
      fs' = [(''kept.csv'', [(''id'', [1])])]"
    using t[THEN conjunct2, THEN conjunct2, THEN conjunct2, THEN conjunct2, THEN conjunct1,
            rule_format, OF e5] e5 by metis
  have e6: "Baselines (Inr (1 / 2, 10 :: real)) (Inr (1 / 4, 20 :: real)) [(''kept.csv'', [(''id'', [1 :: real])])]
      = Inr ([1 / 2, 1 / 4],
          snd (projr (Baselines (Inr (1 / 2, 10 :: real)) (Inr (1 / 4, 20 :: real))
            [(''kept.csv'', [(''id'', [1 :: real])])])))"
    by code_simp
  have c6: "\<exists>sc fs'.
      Baselines (Inr (1 / 2, 10 :: real)) (Inr (1 / 4, 20)) [(''kept.csv'', [(''id'', [1 :: real])])]
        = Inr (sc, fs') \<and>
      fs' = [(''kept.csv'', [(''id'', [1])])]"
    using t[THEN conjunct2, THEN conjunct2, THEN conjunct2, THEN conjunct2, THEN conjunct2,
            THEN conjunct1, rule_format, OF e6] e6 by metis
  have e7: "Feature_Engineering toy_lgbm_fit (predict_proba toy_sklearn) (roc_auc_score toy_sklearn) 2
        toy_folds [0, 1, 2, 3, 4, 5] [0, 1, 2, 3, 4, 5] [7] [1]
        [\<lambda>X_train X_valid X_test y_train. Inr (X_train, X_valid, X_test)]
        [(''kept.csv'', [(''id'', [1 :: real])])]
      = Inr ([0, 0],
          snd (projr (Feature_Engineering toy_lgbm_fit (predict_proba toy_sklearn)
            (roc_auc_score toy_sklearn) 2
            toy_folds [0, 1, 2, 3, 4, 5] [0, 1, 2, 3, 4, 5] [7] [1]
            [\<lambda>X_train X_valid X_test y_train. Inr (X_train, X_valid, X_test)]
            [(''kept.csv'', [(''id'', [1 :: real])])])))"
    by code_simp
  have c7: "\<exists>sc fs'.
      Feature_Engineering toy_lgbm_fit (predict_proba toy_sklearn) (roc_auc_score toy_sklearn) 2
        toy_folds [0, 1, 2, 3, 4, 5] [0, 1, 2, 3, 4, 5] [7] [1]
        [\<lambda>X_train X_valid X_test y_train. Inr (X_train, X_valid, X_test)]
        [(''kept.csv'', [(''id'', [1 :: real])])] = Inr (sc, fs') \<and>
      fs' = [(''kept.csv'', [(''id'', [1])])]"
    using t[THEN conjunct2, THEN conjunct2, THEN conjunct2, THEN conjunct2, THEN conjunct2,
            THEN conjunct2, rule_format, OF e7] e7 by metis
  from c1 c2 c3 c4 c5 c6 c7 show ?thesis by (intro conjI)
qed

end
